theory Spec2Isabelle
  imports Main
begin

section \<open>State objects, transforms and cells\<close>

text \<open>
  The embedded file is \<^verbatim>\<open>src/mol-plugin-state/builder/structure.ts\<close>: the class
  \<^verbatim>\<open>StructureBuilder\<close>. Its methods stage transforms on the plugin's data state and
  commit them with \<^verbatim>\<open>plugin.updateDataState\<close>. References are allocated from a
  counter, so a reference is never handed out twice.
\<close>

type_synonym ref = nat

type_synonym Expression = string

type_synonym StaticStructureComponentType = string

type_synonym opaque_params = string

datatype transformer =
    ParseBlob
  | TrajectoryFromBlob
  | ModelFromTrajectory
  | CustomModelProperties
  | ModelUnitcell3D
  | StructureFromModel
  | CustomStructureProperties
  | StructureComponent
  | OtherTransformer string

datatype lifecycle = Pending | Applying | Ok | Errored

text \<open>A trajectory format provider is an object with a \<^verbatim>\<open>parse\<close> method; here a handle.\<close>

datatype provider = TrajectoryFormatProvider string

text \<open>
  The second argument of \<^verbatim>\<open>parseTrajectory\<close> is typed \<^verbatim>\<open>any\<close>; its two overloads
  allow a built-in format name, a format provider, or the parameters of \<^verbatim>\<open>ParseBlob\<close>.
\<close>

datatype parse_arg =
    FormatName string
  | FormatProvider provider
  | BlobParams opaque_params

datatype StructureElement_Bundle = Bundle_fromSelection "nat list"

datatype component_type =
    Type_expression Expression
  | Type_static StaticStructureComponentType
  | Type_bundle StructureElement_Bundle

record StructureComponentParams =
  ctype :: component_type
  nullIfEmpty :: bool
  label :: string

record RootStructureDefinition_Params =
  rsd_name :: string
  rsd_params :: "(string \<times> string) list"

record ModelFromTrajectoryParams =
  modelIndex :: int

datatype params =
    Undefined
  | ParseBlob_Params parse_arg
  | ModelFromTrajectory_Params ModelFromTrajectoryParams
  | Custom_Params opaque_params
  | StructureFromModel_Params RootStructureDefinition_Params
  | StructureComponent_Params StructureComponentParams

text \<open>
  The payload of a cell (\<^verbatim>\<open>cell.obj\<close>). Only what the builder reads is kept: the kind of
  the object, the emptiness of string data, and a structure's \<^verbatim>\<open>elementCount\<close>.
\<close>

datatype payload =
    SO_Data_String string
  | SO_Data_Binary "nat list"
  | SO_Data_Blob "string list"
  | SO_Molecule_Trajectory string
  | SO_Molecule_Model string
  | SO_Molecule_Structure nat
  | SO_Shape_Representation3D string

fun SO_Data_Blob_is :: "payload option \<Rightarrow> bool" where
  "SO_Data_Blob_is (Some (SO_Data_Blob _)) = True"
| "SO_Data_Blob_is _ = False"

text \<open>\<^verbatim>\<open>obj.data.elementCount\<close>: a number on structures, \<^verbatim>\<open>undefined\<close> elsewhere.\<close>

fun elementCount :: "payload \<Rightarrow> nat option" where
  "elementCount (SO_Molecule_Structure n) = Some n"
| "elementCount _ = None"

text \<open>JavaScript truthiness of \<^verbatim>\<open>obj.data\<close>: only the empty string is falsy.\<close>

fun truthy_data :: "payload \<Rightarrow> bool" where
  "truthy_data (SO_Data_String s) = (s \<noteq> [])"
| "truthy_data _ = True"

text \<open>\<^verbatim>\<open>Partial<StateTransform.State>\<close>: the flags that were given, by name.\<close>

type_synonym transform_state = "(string \<times> bool) list"

text \<open>
  Modelled from the spec: a node of the graph (3), with its transformer kind, parameters,
  tags, parent, lifecycle, payload and the display flags of its transform state.
\<close>

record cell =
  transformer :: transformer
  params :: params
  tags :: "string list"
  parent :: "ref option"
  status :: lifecycle
  obj :: "payload option"
  state :: transform_state

definition isGhost :: "cell \<Rightarrow> bool" where
  "isGhost c = (map_of (state c) ''isGhost'' = Some True)"

text \<open>
  Modelled from the spec: the Node Store (\<^verbatim>\<open>plugin.state.data\<close> in the source) holds the
  cells by reference, in the order they were created, and the next free reference.
\<close>

record store =
  cells :: "(ref \<times> cell) list"
  nextRef :: nat

text \<open>Modelled from the spec: a Selector \<^verbatim>\<open>{ ref, ok, payload? }\<close>; the source reads
  \<^verbatim>\<open>.ref\<close>, \<^verbatim>\<open>.isOk\<close> and \<^verbatim>\<open>.cell\<close>.\<close>

record selector =
  ref :: ref
  isOk :: bool
  sel_cell :: "cell option"

text \<open>Modelled from the spec: the error kinds of a commit (7).\<close>

datatype failure = InvalidReference ref | ProductionFailure string

text \<open>Errors: an \<^verbatim>\<open>Error\<close> the source throws, with its message, a \<^verbatim>\<open>TypeError\<close> of the
  language, and the error a failed commit returns.\<close>

datatype error = Error string | TypeError string | CommitError failure

section \<open>The state engine the builder calls\<close>

text \<open>
  Modelled from the spec: \<^verbatim>\<open>StateObjectRef.resolveAndCheck\<close> is not in the embedded file.
  The spec's \<^verbatim>\<open>resolve(ref)\<close> reads the current node and payload for a reference, or
  none if it is absent or invalid; a payload is present only when the lifecycle is Ok.
\<close>

definition resolveAndCheck :: "store \<Rightarrow> ref \<Rightarrow> cell option" where
  "resolveAndCheck st r =
     (case map_of (cells st) r of
        None \<Rightarrow> None
      | Some c \<Rightarrow> if status c = Ok \<and> obj c \<noteq> None then Some c else None)"

text \<open>
  Modelled from the spec: the Transaction Builder (4.1), \<^verbatim>\<open>state.build()\<close> and its
  methods, is not in the embedded file. A builder is a staged plan read against the graph
  it was begun on: an anchor, the staged operations in order (insert, in-place update,
  delete), and the references it hands to the nodes it will create.
\<close>

datatype action =
    Insert ref ref transformer params "string list" transform_state
  | Update ref params
  | Delete ref

record builder =
  tree :: "(ref \<times> cell) list"
  current :: ref
  actions :: "action list"
  fresh :: nat

record transform_options =
  opt_tags :: "string list"
  opt_state :: transform_state

definition no_options :: transform_options where
  "no_options = \<lparr>opt_tags = [], opt_state = []\<rparr>"

text \<open>Modelled from the spec: \<^verbatim>\<open>state.build()\<close> begins a builder on the current graph; it
  touches nothing.\<close>

definition build :: "store \<Rightarrow> builder" where
  "build st = \<lparr>tree = cells st, current = 0, actions = [], fresh = nextRef st\<rparr>"

text \<open>Modelled from the spec: \<^verbatim>\<open>.to(ref)\<close> moves the anchor.\<close>

definition to :: "builder \<Rightarrow> ref \<Rightarrow> builder" where
  "to b r = b\<lparr>current := r\<rparr>"

text \<open>Modelled from the spec: \<^verbatim>\<open>.apply(transformer, params, options)\<close> stages the creation
  of a new child of the anchor and moves the anchor to the node that is not yet real.\<close>

definition apply' :: "builder \<Rightarrow> transformer \<Rightarrow> params \<Rightarrow> transform_options \<Rightarrow> builder" where
  "apply' b tr ps opts =
     b\<lparr>actions := actions b @ [Insert (fresh b) (current b) tr ps (opt_tags opts) (opt_state opts)],
       current := fresh b,
       fresh := Suc (fresh b)\<rparr>"

text \<open>Modelled from the spec: a child of the anchor carries the tag key.\<close>

definition carries :: "ref \<Rightarrow> string \<Rightarrow> ref \<times> cell \<Rightarrow> bool" where
  "carries a tagKey rc = (parent (snd rc) = Some a \<and> tagKey \<in> set (tags (snd rc)))"

text \<open>Modelled from the spec: \<^verbatim>\<open>.applyOrUpdateTagged(tagKey, transformer, params, options)\<close>
  stages an insert when no child of the anchor carries the tag key, and an in-place
  parameter replacement of the child carrying it otherwise.\<close>

definition applyOrUpdateTagged ::
  "builder \<Rightarrow> string \<Rightarrow> transformer \<Rightarrow> params \<Rightarrow> transform_options \<Rightarrow> builder" where
  "applyOrUpdateTagged b tagKey tr ps opts =
     (case find (carries (current b) tagKey) (tree b) of
        Some (r, c) \<Rightarrow> b\<lparr>actions := actions b @ [Update r ps], current := r\<rparr>
      | None \<Rightarrow> apply' b tr ps (opts\<lparr>opt_tags := List.insert tagKey (opt_tags opts)\<rparr>))"

text \<open>Modelled from the spec: \<^verbatim>\<open>.delete(ref)\<close> stages the removal of the subtree at the
  reference.\<close>

definition delete :: "builder \<Rightarrow> ref \<Rightarrow> builder" where
  "delete b r = b\<lparr>actions := actions b @ [Delete r]\<rparr>"

text \<open>
  Modelled from the spec: \<^verbatim>\<open>builder.selector\<close>, the read-only view of the builder's current
  node in the store it is read from.
\<close>

definition selector_of :: "builder \<Rightarrow> store \<Rightarrow> selector" where
  "selector_of b st =
     \<lparr>ref = current b,
      isOk = (case map_of (cells st) (current b) of
                None \<Rightarrow> False
              | Some c \<Rightarrow> status c = Ok \<and> obj c \<noteq> None),
      sel_cell = map_of (cells st) (current b)\<rparr>"

text \<open>
  Modelled from the spec: the Commit Engine (4.2), which is not in the embedded file.
  The production function of each transformer kind is a parameter: it takes the parent's
  payload and the parameters and either fails with a message or yields a payload.
\<close>

type_synonym producer = "transformer \<Rightarrow> payload \<Rightarrow> params \<Rightarrow> string + payload"

text \<open>Modelled from the spec: whether \<open>r\<close> lies in the subtree rooted at \<open>d\<close>, following at
  most \<open>n\<close> parent edges. A chain of parents in a store of \<open>n\<close> cells has at most \<open>n\<close>
  edges (lemma \<open>in_subtree_fuel\<close>).\<close>

fun in_subtree :: "nat \<Rightarrow> (ref \<times> cell) list \<Rightarrow> ref \<Rightarrow> ref \<Rightarrow> bool" where
  "in_subtree 0 cs d r = (r = d)"
| "in_subtree (Suc n) cs d r =
     (r = d \<or>
      (case map_of cs r of
         None \<Rightarrow> False
       | Some c \<Rightarrow> (case parent c of None \<Rightarrow> False | Some p \<Rightarrow> in_subtree n cs d p)))"

text \<open>Modelled from the spec: a delete removes the node and its entire subtree.\<close>

definition remove_subtree :: "ref \<Rightarrow> (ref \<times> cell) list \<Rightarrow> (ref \<times> cell) list" where
  "remove_subtree d cs = filter (\<lambda>rc. \<not> in_subtree (length cs) cs d (fst rc)) cs"

text \<open>Modelled from the spec: an in-place update writes the cell under its reference.\<close>

definition set_cell :: "ref \<Rightarrow> cell \<Rightarrow> (ref \<times> cell) list \<Rightarrow> (ref \<times> cell) list" where
  "set_cell r c cs = map (\<lambda>rc. if fst rc = r then (r, c) else rc) cs"

text \<open>Modelled from the spec: the payload a production step reads is the parent's, present
  when the parent is Ok.\<close>

definition parent_payload :: "(ref \<times> cell) list \<Rightarrow> ref \<Rightarrow> payload option" where
  "parent_payload cs p =
     (case map_of cs p of
        None \<Rightarrow> None
      | Some pc \<Rightarrow> if status pc = Ok then obj pc else None)"

text \<open>Modelled from the spec: the production step of a node under parent \<open>p\<close>; it fails
  when the parent has no payload.\<close>

definition produced :: "producer \<Rightarrow> (ref \<times> cell) list \<Rightarrow> ref \<Rightarrow> transformer \<Rightarrow> params \<Rightarrow> string + payload" where
  "produced P cs p tr ps =
     (case parent_payload cs p of
        None \<Rightarrow> Inl ''Parent is not ok.''
      | Some v \<Rightarrow> P tr v ps)"

text \<open>Modelled from the spec: on success the payload is set and the lifecycle is Ok; on
  failure the lifecycle is Errored and there is no payload.\<close>

definition finish :: "cell \<Rightarrow> string + payload \<Rightarrow> cell" where
  "finish c res =
     (case res of
        Inl m \<Rightarrow> c\<lparr>status := Errored, obj := None\<rparr>
      | Inr v \<Rightarrow> c\<lparr>status := Ok, obj := Some v\<rparr>)"

text \<open>Modelled from the spec: the failure an operation records.\<close>

definition outcome :: "string + payload \<Rightarrow> failure option" where
  "outcome res = (case res of Inl m \<Rightarrow> Some (ProductionFailure m) | Inr v \<Rightarrow> None)"

text \<open>Modelled from the spec: one staged operation applied to the cells. An operation on a
  reference that does not resolve fails with \<open>InvalidReference\<close> and changes nothing.\<close>

fun apply_action :: "producer \<Rightarrow> (ref \<times> cell) list \<Rightarrow> action \<Rightarrow> (ref \<times> cell) list \<times> failure option" where
  "apply_action P cs (Insert r p tr ps tgs ts) =
     (case map_of cs p of
        None \<Rightarrow> (cs, Some (InvalidReference p))
      | Some pc \<Rightarrow>
          (let res = produced P cs p tr ps;
               c = finish \<lparr>transformer = tr, params = ps, tags = tgs, parent = Some p,
                          status = Applying, obj = None, state = ts\<rparr> res
           in (cs @ [(r, c)], outcome res)))"
| "apply_action P cs (Update r ps) =
     (case map_of cs r of
        None \<Rightarrow> (cs, Some (InvalidReference r))
      | Some c \<Rightarrow>
          (case parent c of
             None \<Rightarrow> (cs, Some (InvalidReference r))
           | Some p \<Rightarrow>
               (let res = produced P cs p (transformer c) ps;
                    c' = finish (c\<lparr>params := ps, status := Applying, obj := None\<rparr>) res
                in (set_cell r c' cs, outcome res))))"
| "apply_action P cs (Delete r) = (remove_subtree r cs, None)"

text \<open>Modelled from the spec: the operations in declaration order, with the failures
  in order.\<close>

fun apply_actions :: "producer \<Rightarrow> (ref \<times> cell) list \<Rightarrow> action list \<Rightarrow> (ref \<times> cell) list \<times> failure list" where
  "apply_actions P cs [] = (cs, [])"
| "apply_actions P cs (a # as) =
     (case apply_action P cs a of
        (cs1, f) \<Rightarrow>
          (case apply_actions P cs1 as of
             (cs2, fs) \<Rightarrow> (cs2, (case f of None \<Rightarrow> fs | Some e \<Rightarrow> e # fs))))"

text \<open>
  Modelled from the spec: a commit applies the staged operations in order. With full revert, a failure restores
  the graph as it was (the reference counter keeps its advance, so no reference is reused)
  and the commit fails with the first failure; without it, everything applied is kept, the
  failing node stays Errored, and the commit succeeds.
\<close>

definition commit :: "producer \<Rightarrow> store \<Rightarrow> builder \<Rightarrow> bool \<Rightarrow> store \<times> failure option" where
  "commit P st b revertOnFailure =
     (case apply_actions P (cells st) (actions b) of
        (cs, fs) \<Rightarrow>
          (let n = max (nextRef st) (fresh b) in
           case fs of
             [] \<Rightarrow> (\<lparr>cells = cs, nextRef = n\<rparr>, None)
           | e # _ \<Rightarrow>
               if revertOnFailure then (\<lparr>cells = cells st, nextRef = n\<rparr>, Some e)
               else (\<lparr>cells = cs, nextRef = n\<rparr>, None)))"

section \<open>The plugin context\<close>

record ModelSymmetry =
  assemblies :: "string list"
  spacegroup_cell :: "nat \<times> int list"

text \<open>
  What \<^verbatim>\<open>this.plugin\<close> and the imported helpers supply. The production functions of the
  transformers, the registry of trajectory formats, a provider's \<^verbatim>\<open>parse\<close>, and the
  domain predicates \<^verbatim>\<open>ModelSymmetry.Provider.get\<close> and \<^verbatim>\<open>SpacegroupCell.isZero\<close> are
  collaborators of the builder and stay parameters.
\<close>

record plugin_env =
  produce :: producer
  dataFormat_trajectory_get :: "string \<Rightarrow> provider option"
  provider_parse :: "provider \<Rightarrow> store \<Rightarrow> ref \<Rightarrow> store \<times> (error + selector)"
  ModelSymmetry_get :: "payload \<Rightarrow> ModelSymmetry option"
  SpacegroupCell_isZero :: "(nat \<times> int list) option \<Rightarrow> bool"

record update_options =
  revertOnError :: bool

text \<open>
  Modelled from the spec: \<^verbatim>\<open>plugin.updateDataState(tree, options)\<close> submits the builder to
  the Commit Engine and resolves with the result of the commit; without an explicit flag the
  commit is partial. The builder awaits it and does not read the result.
\<close>

definition updateDataState ::
  "plugin_env \<Rightarrow> store \<Rightarrow> builder \<Rightarrow> update_options option \<Rightarrow> store \<times> error option" where
  "updateDataState env st b options =
     (case commit (produce env) st b (case options of None \<Rightarrow> False | Some opts \<Rightarrow> revertOnError opts) of
        (st', f) \<Rightarrow> (st', map_option CommitError f))"

section \<open>StructureBuilder\<close>

definition StructureBuilderTags_Component :: string where
  "StructureBuilderTags_Component = ''structure-component''"

definition parseTrajectoryData ::
  "plugin_env \<Rightarrow> store \<Rightarrow> ref \<Rightarrow> parse_arg \<Rightarrow> store \<times> (error + selector)" where
  "parseTrajectoryData env st data format =
     (case format of
        FormatName name \<Rightarrow>
          (case dataFormat_trajectory_get env name of
             None \<Rightarrow> (st, Inl (Error ([CHR 0x27] @ name @ [CHR 0x27] @ '' is not a supported data format.'')))
           | Some provider \<Rightarrow> provider_parse env provider st data)
      | FormatProvider provider \<Rightarrow> provider_parse env provider st data
      | BlobParams _ \<Rightarrow> (st, Inl (TypeError ''provider.parse is not a function'')))"

definition parseTrajectoryBlob ::
  "plugin_env \<Rightarrow> store \<Rightarrow> ref \<Rightarrow> parse_arg \<Rightarrow> store \<times> (error + selector)" where
  "parseTrajectoryBlob env st data ps =
     (let trajectory =
            apply' (apply' (to (build st) data) ParseBlob (ParseBlob_Params ps)
                      \<lparr>opt_tags = [], opt_state = [(''isGhost'', True)]\<rparr>)
              TrajectoryFromBlob Undefined no_options
      in case updateDataState env st trajectory (Some \<lparr>revertOnError = True\<rparr>) of
           (st', _) \<Rightarrow> (st', Inr (selector_of trajectory st')))"

definition parseTrajectory ::
  "plugin_env \<Rightarrow> store \<Rightarrow> ref \<Rightarrow> parse_arg \<Rightarrow> store \<times> (error + selector)" where
  "parseTrajectory env st data ps =
     (case resolveAndCheck st data of
        None \<Rightarrow> (st, Inl (Error ''Invalid data cell.''))
      | Some c \<Rightarrow>
          if SO_Data_Blob_is (obj c) then parseTrajectoryBlob env st data ps
          else parseTrajectoryData env st data ps)"

definition initial_options :: "transform_state option \<Rightarrow> transform_options" where
  "initial_options initialState =
     \<lparr>opt_tags = [], opt_state = (case initialState of None \<Rightarrow> [] | Some ts \<Rightarrow> ts)\<rparr>"

definition createModel ::
  "plugin_env \<Rightarrow> store \<Rightarrow> ref \<Rightarrow> ModelFromTrajectoryParams option \<Rightarrow> transform_state option
     \<Rightarrow> store \<times> (error + selector)" where
  "createModel env st trajectory ps initialState =
     (let model =
            apply' (to (build st) trajectory) ModelFromTrajectory
              (ModelFromTrajectory_Params (case ps of None \<Rightarrow> \<lparr>modelIndex = 0\<rparr> | Some p \<Rightarrow> p))
              (initial_options initialState)
      in case updateDataState env st model (Some \<lparr>revertOnError = True\<rparr>) of
           (st', _) \<Rightarrow> (st', Inr (selector_of model st')))"

definition custom_params :: "opaque_params option \<Rightarrow> params" where
  "custom_params ps = (case ps of None \<Rightarrow> Undefined | Some p \<Rightarrow> Custom_Params p)"

definition insertModelProperties ::
  "plugin_env \<Rightarrow> store \<Rightarrow> ref \<Rightarrow> opaque_params option \<Rightarrow> store \<times> (error + selector)" where
  "insertModelProperties env st model ps =
     (let props = apply' (to (build st) model) CustomModelProperties (custom_params ps) no_options
      in case updateDataState env st props (Some \<lparr>revertOnError = True\<rparr>) of
           (st', _) \<Rightarrow> (st', Inr (selector_of props st')))"

text \<open>\<^verbatim>\<open>StateObjectRef.resolveAndCheck(state, ref)?.obj?.data\<close>, tested for truthiness.\<close>

definition resolved_data :: "store \<Rightarrow> ref \<Rightarrow> payload option" where
  "resolved_data st r =
     (case resolveAndCheck st r of
        None \<Rightarrow> None
      | Some c \<Rightarrow> (case obj c of None \<Rightarrow> None | Some d \<Rightarrow> if truthy_data d then Some d else None))"

definition tryCreateUnitcell ::
  "plugin_env \<Rightarrow> store \<Rightarrow> ref \<Rightarrow> opaque_params option \<Rightarrow> transform_state option
     \<Rightarrow> store \<times> (error + selector option)" where
  "tryCreateUnitcell env st model ps initialState =
     (case resolved_data st model of
        None \<Rightarrow> (st, Inr None)
      | Some m \<Rightarrow>
          (let cell = map_option spacegroup_cell (ModelSymmetry_get env m) in
           if SpacegroupCell_isZero env cell then (st, Inr None)
           else
             (let unitcell = apply' (to (build st) model) ModelUnitcell3D (custom_params ps)
                               (initial_options initialState)
              in case updateDataState env st unitcell (Some \<lparr>revertOnError = True\<rparr>) of
                   (st', _) \<Rightarrow> (st', Inr (Some (selector_of unitcell st'))))))"

text \<open>
  The default of \<^verbatim>\<open>createStructure\<close> when \<^verbatim>\<open>params\<close> is omitted: \<^verbatim>\<open>deposited\<close> when the
  model resolves and has no symmetry or no assembly, and otherwise nothing (so that
  \<^verbatim>\<open>assembly\<close> is staged).
\<close>

definition default_structure_params ::
  "plugin_env \<Rightarrow> store \<Rightarrow> ref \<Rightarrow> RootStructureDefinition_Params option" where
  "default_structure_params env st modelRef =
     (case resolveAndCheck st modelRef of
        None \<Rightarrow> None
      | Some model \<Rightarrow>
          (case obj model of
             None \<Rightarrow> None
           | Some d \<Rightarrow>
               (case ModelSymmetry_get env d of
                  None \<Rightarrow> Some \<lparr>rsd_name = ''deposited'', rsd_params = []\<rparr>
                | Some symm \<Rightarrow>
                    if length (assemblies symm) = 0
                    then Some \<lparr>rsd_name = ''deposited'', rsd_params = []\<rparr>
                    else None)))"

definition createStructure ::
  "plugin_env \<Rightarrow> store \<Rightarrow> ref \<Rightarrow> RootStructureDefinition_Params option \<Rightarrow> transform_state option
     \<Rightarrow> store \<times> (error + selector)" where
  "createStructure env st modelRef ps0 initialState =
     (let ps = (case ps0 of None \<Rightarrow> default_structure_params env st modelRef | Some p \<Rightarrow> Some p);
          structure =
            apply' (to (build st) modelRef) StructureFromModel
              (StructureFromModel_Params
                 (case ps of None \<Rightarrow> \<lparr>rsd_name = ''assembly'', rsd_params = []\<rparr> | Some p \<Rightarrow> p))
              (initial_options initialState)
      in case updateDataState env st structure (Some \<lparr>revertOnError = True\<rparr>) of
           (st', _) \<Rightarrow> (st', Inr (selector_of structure st')))"

definition insertStructureProperties ::
  "plugin_env \<Rightarrow> store \<Rightarrow> ref \<Rightarrow> opaque_params option \<Rightarrow> store \<times> (error + selector)" where
  "insertStructureProperties env st structure ps =
     (let props = apply' (to (build st) structure) CustomStructureProperties (custom_params ps) no_options
      in case updateDataState env st props (Some \<lparr>revertOnError = True\<rparr>) of
           (st', _) \<Rightarrow> (st', Inr (selector_of props st')))"

definition isComponentTransform :: "cell \<Rightarrow> bool" where
  "isComponentTransform c = (transformer c = StructureComponent)"

definition keyTag :: "string \<Rightarrow> string" where
  "keyTag key = ''structure-component-'' @ key"

definition component_tags :: "string list option \<Rightarrow> string \<Rightarrow> string list" where
  "component_tags tgs key =
     (case tgs of
        Some ts \<Rightarrow> ts @ [StructureBuilderTags_Component, keyTag key]
      | None \<Rightarrow> [StructureBuilderTags_Component, keyTag key])"

text \<open>The builder \<^verbatim>\<open>tryCreateComponent\<close> stages (\<^verbatim>\<open>component\<close> in the source).\<close>

definition component_builder ::
  "store \<Rightarrow> ref \<Rightarrow> StructureComponentParams \<Rightarrow> string \<Rightarrow> string list option \<Rightarrow> builder" where
  "component_builder st structure ps key tgs =
     (let root = to (build st) structure
      in applyOrUpdateTagged root (keyTag key) StructureComponent (StructureComponent_Params ps)
           \<lparr>opt_tags = component_tags tgs key, opt_state = []\<rparr>)"

text \<open>\<^verbatim>\<open>selector.cell?.obj?.data.elementCount === 0\<close>\<close>

definition selector_empty :: "selector \<Rightarrow> bool" where
  "selector_empty sel =
     (case sel_cell sel of
        None \<Rightarrow> False
      | Some c \<Rightarrow> (case obj c of None \<Rightarrow> False | Some d \<Rightarrow> elementCount d = Some 0))"

definition tryCreateComponent ::
  "plugin_env \<Rightarrow> store \<Rightarrow> ref \<Rightarrow> StructureComponentParams \<Rightarrow> string \<Rightarrow> string list option
     \<Rightarrow> store \<times> (error + selector option)" where
  "tryCreateComponent env st structure ps key tgs =
     (let component = component_builder st structure ps key tgs
      in case updateDataState env st component None of
           (st1, _) \<Rightarrow>
             (let sel = selector_of component st1
              in if \<not> isOk sel \<or> selector_empty sel then
                   (let del = delete (build st1) (ref sel)
                    in case updateDataState env st1 del None of
                         (st2, _) \<Rightarrow> (st2, Inr None))
                 else (st1, Inr (Some sel))))"

text \<open>
  \<^verbatim>\<open>String.prototype.trim\<close> removes the white space and the line terminators of
  ECMAScript at both ends. A character here is a code unit below 256; of these, the white
  space is TAB, VT, FF, SP and NBSP (U+00A0), and the line terminators are LF and CR. The
  other white space and line terminators of ECMAScript (U+1680, U+2000 to U+200A, U+2028,
  U+2029, U+202F, U+205F, U+3000 and U+FEFF) lie above 255.
\<close>

definition is_space :: "char \<Rightarrow> bool" where
  "is_space ch =
     (ch \<in> set [CHR 0x09, CHR 0x0A, CHR 0x0B, CHR 0x0C, CHR 0x0D, CHR 0x20, CHR 0xA0])"

definition trim :: "string \<Rightarrow> string" where
  "trim s = rev (dropWhile is_space (rev (dropWhile is_space s)))"

record component_options =
  o_label :: "string option"
  o_tags :: "string list option"

text \<open>\<^verbatim>\<open>params?.label || ''\<close>: the label the caller supplies, the empty string when there is
  none.\<close>

definition caller_label :: "component_options option \<Rightarrow> string" where
  "caller_label ps =
     (case ps of None \<Rightarrow> [] | Some p \<Rightarrow> (case o_label p of None \<Rightarrow> [] | Some l \<Rightarrow> l))"

text \<open>\<^verbatim>\<open>(params?.label || '').trim()\<close> and \<^verbatim>\<open>params?.tags\<close>\<close>

definition option_label :: "component_options option \<Rightarrow> string" where
  "option_label ps = trim (caller_label ps)"

definition option_tags :: "component_options option \<Rightarrow> string list option" where
  "option_tags ps = (case ps of None \<Rightarrow> None | Some p \<Rightarrow> o_tags p)"

definition expression_params :: "Expression \<Rightarrow> component_options option \<Rightarrow> StructureComponentParams" where
  "expression_params expression ps =
     \<lparr>ctype = Type_expression expression, nullIfEmpty = True, label = option_label ps\<rparr>"

definition tryCreateComponentFromExpression ::
  "plugin_env \<Rightarrow> store \<Rightarrow> ref \<Rightarrow> Expression \<Rightarrow> string \<Rightarrow> component_options option
     \<Rightarrow> store \<times> (error + selector option)" where
  "tryCreateComponentFromExpression env st structure expression key ps =
     tryCreateComponent env st structure (expression_params expression ps) key (option_tags ps)"

definition static_params ::
  "StaticStructureComponentType \<Rightarrow> component_options option \<Rightarrow> StructureComponentParams" where
  "static_params type ps =
     \<lparr>ctype = Type_static type, nullIfEmpty = True, label = option_label ps\<rparr>"

definition tryCreateComponentStatic ::
  "plugin_env \<Rightarrow> store \<Rightarrow> ref \<Rightarrow> StaticStructureComponentType \<Rightarrow> string \<Rightarrow> component_options option
     \<Rightarrow> store \<times> (error + selector option)" where
  "tryCreateComponentStatic env st structure type key ps =
     tryCreateComponent env st structure (static_params type ps) key (option_tags ps)"

text \<open>
  Modelled from the spec: the Task Runner (4.4), \<^verbatim>\<open>plugin.runTask(Task.create(name, f))\<close>,
  is not in the embedded file. The runtime context identifies the task it belongs to; the
  routine and what it calls are cancelled through it, and a step that is cancelled fails.
\<close>

record RuntimeContext =
  task_name :: string

text \<open>Modelled from the spec: a task is a named routine.\<close>

record 'a Task =
  name :: string
  routine :: "RuntimeContext \<Rightarrow> store \<Rightarrow> store \<times> (error + 'a)"

text \<open>Modelled from the spec: \<^verbatim>\<open>Task.create(name, f)\<close>.\<close>

definition Task_create ::
  "string \<Rightarrow> (RuntimeContext \<Rightarrow> store \<Rightarrow> store \<times> (error + 'a)) \<Rightarrow> 'a Task" where
  "Task_create n f = \<lparr>name = n, routine = f\<rparr>"

text \<open>Modelled from the spec: \<^verbatim>\<open>plugin.runTask(task)\<close> runs the routine with the runtime
  context of the task.\<close>

definition runTask :: "'a Task \<Rightarrow> store \<Rightarrow> store \<times> (error + 'a)" where
  "runTask t st = routine t \<lparr>task_name = name t\<rparr> st"

text \<open>
  A \<^verbatim>\<open>StructureSelectionQuery\<close>: its two asynchronous methods take the runtime context
  (\<^verbatim>\<open>ensureCustomProperties\<close> as the \<^verbatim>\<open>runtime\<close> field of its context) and the structure,
  and may fail.
\<close>

record StructureSelectionQuery =
  q_label :: string
  expression :: Expression
  referencesCurrent :: bool
  getSelection :: "RuntimeContext \<Rightarrow> payload \<Rightarrow> error + nat list"
  ensureCustomProperties :: "(RuntimeContext \<Rightarrow> payload \<Rightarrow> error option) option"

text \<open>\<^verbatim>\<open>label || selection.label\<close>, with \<^verbatim>\<open>label\<close> already trimmed.\<close>

definition selection_label :: "StructureSelectionQuery \<Rightarrow> component_options option \<Rightarrow> string" where
  "selection_label selection ps =
     (if option_label ps = [] then q_label selection else option_label ps)"

definition transformParams ::
  "StructureSelectionQuery \<Rightarrow> RuntimeContext \<Rightarrow> payload \<Rightarrow> component_options option
     \<Rightarrow> error + StructureComponentParams" where
  "transformParams selection taskCtx structureData ps =
     (if referencesCurrent selection then
        (case getSelection selection taskCtx structureData of
           Inl e \<Rightarrow> Inl e
         | Inr sel \<Rightarrow>
             Inr \<lparr>ctype = Type_bundle (Bundle_fromSelection sel), nullIfEmpty = True,
                  label = selection_label selection ps\<rparr>)
      else
        Inr \<lparr>ctype = Type_expression (expression selection), nullIfEmpty = True,
             label = selection_label selection ps\<rparr>)"

definition tryCreateComponentFromSelection ::
  "plugin_env \<Rightarrow> store \<Rightarrow> ref \<Rightarrow> StructureSelectionQuery \<Rightarrow> string \<Rightarrow> component_options option
     \<Rightarrow> store \<times> (error + selector option)" where
  "tryCreateComponentFromSelection env st structure selection key ps =
     runTask
       (Task_create ''Query Component''
          (\<lambda>taskCtx st.
             case resolved_data st structure of
               None \<Rightarrow> (st, Inr None)
             | Some structureData \<Rightarrow>
                 (case transformParams selection taskCtx structureData ps of
                    Inl e \<Rightarrow> (st, Inl e)
                  | Inr tp \<Rightarrow>
                      (case (case ensureCustomProperties selection of
                               None \<Rightarrow> None
                             | Some ensure \<Rightarrow> ensure taskCtx structureData) of
                         Some e \<Rightarrow> (st, Inl e)
                       | None \<Rightarrow> tryCreateComponent env st structure tp key (option_tags ps)))))
       st"

section \<open>Well-formed stores\<close>

text \<open>
  The store's invariants the proofs use: references are distinct and below the counter, and
  a parent was created before its child.
\<close>

definition wf_cells :: "nat \<Rightarrow> (ref \<times> cell) list \<Rightarrow> bool" where
  "wf_cells n cs =
     (distinct (map fst cs) \<and>
      (\<forall>rc \<in> set cs. fst rc < n \<and> (\<forall>p. parent (snd rc) = Some p \<longrightarrow> p < fst rc)))"

definition wf_store :: "store \<Rightarrow> bool" where
  "wf_store st = wf_cells (nextRef st) (cells st)"

text \<open>The children of \<open>a\<close> that carry the tag key, in order.\<close>

definition tagged_children :: "(ref \<times> cell) list \<Rightarrow> ref \<Rightarrow> string \<Rightarrow> ref list" where
  "tagged_children cs a tagKey = map fst (filter (carries a tagKey) cs)"

section \<open>What a commit leaves in a cell\<close>

text \<open>The cell an insert leaves, the cell an in-place update leaves, and the test of
  \<^verbatim>\<open>tryCreateComponent\<close> on the outcome of the production step.\<close>

definition inserted :: "transformer \<Rightarrow> params \<Rightarrow> string list \<Rightarrow> transform_state \<Rightarrow> ref \<Rightarrow> string + payload \<Rightarrow> cell" where
  "inserted tr ps tgs ts a res =
     finish \<lparr>transformer = tr, params = ps, tags = tgs, parent = Some a,
             status = Applying, obj = None, state = ts\<rparr> res"

definition updated :: "cell \<Rightarrow> params \<Rightarrow> string + payload \<Rightarrow> cell" where
  "updated c ps res = finish (c\<lparr>params := ps, status := Applying, obj := None\<rparr>) res"

definition pruned :: "string + payload \<Rightarrow> bool" where
  "pruned res = (case res of Inl m \<Rightarrow> True | Inr v \<Rightarrow> elementCount v = Some 0)"

section \<open>A small plugin and its stores\<close>

text \<open>
  A concrete plugin context and concrete stores, on which the theorems below are
  instantiated. The component production fails on the label \<open>fail\<close> and yields an empty
  structure on the label \<open>empty\<close>; a model index below zero fails.
\<close>

definition ex_produce :: producer where
  "ex_produce tr v ps =
     (case ps of
        StructureComponent_Params p \<Rightarrow>
          (if label p = ''fail'' then Inl ''component failed''
           else if label p = ''empty'' then Inr (SO_Molecule_Structure 0)
           else Inr (SO_Molecule_Structure 7))
      | ModelFromTrajectory_Params p \<Rightarrow>
          (if modelIndex p < 0 then Inl ''no such model'' else Inr (SO_Molecule_Model ''1abc''))
      | StructureFromModel_Params p \<Rightarrow> Inr (SO_Molecule_Structure 100)
      | _ \<Rightarrow>
          (case tr of
             ParseBlob \<Rightarrow> Inr (SO_Data_Blob [''a'', ''b''])
           | TrajectoryFromBlob \<Rightarrow> Inr (SO_Molecule_Trajectory ''ab'')
           | ModelUnitcell3D \<Rightarrow> Inr (SO_Shape_Representation3D ''unitcell'')
           | _ \<Rightarrow> Inr v))"

definition ex_cell :: "transformer \<Rightarrow> ref option \<Rightarrow> payload \<Rightarrow> cell" where
  "ex_cell tr p v =
     \<lparr>transformer = tr, params = Undefined, tags = [], parent = p, status = Ok,
      obj = Some v, state = []\<rparr>"

definition ex_parse :: "provider \<Rightarrow> store \<Rightarrow> ref \<Rightarrow> store \<times> (error + selector)" where
  "ex_parse p st data =
     (let c = ex_cell (OtherTransformer ''TrajectoryFromPDB'') (Some data) (SO_Molecule_Trajectory ''pdb'')
      in (\<lparr>cells = cells st @ [(nextRef st, c)], nextRef = Suc (nextRef st)\<rparr>,
          Inr \<lparr>ref = nextRef st, isOk = True, sel_cell = Some c\<rparr>))"

definition ex_symmetry :: "payload \<Rightarrow> ModelSymmetry option" where
  "ex_symmetry v =
     (case v of
        SO_Molecule_Model m \<Rightarrow>
          (if m = ''1abc'' then Some \<lparr>assemblies = [''1''], spacegroup_cell = (19, [10, 20, 30])\<rparr>
           else if m = ''nmr'' then Some \<lparr>assemblies = [], spacegroup_cell = (0, [1, 1, 1])\<rparr>
           else None)
      | _ \<Rightarrow> None)"

definition ex_isZero :: "(nat \<times> int list) option \<Rightarrow> bool" where
  "ex_isZero c = (case c of None \<Rightarrow> True | Some (i, sz) \<Rightarrow> i = 0 \<and> sz = [1, 1, 1])"

definition ex_env :: plugin_env where
  "ex_env =
     \<lparr>produce = ex_produce,
      dataFormat_trajectory_get =
        (\<lambda>n. if n = ''pdb'' then Some (TrajectoryFormatProvider ''pdb'') else None),
      provider_parse = ex_parse,
      ModelSymmetry_get = ex_symmetry,
      SpacegroupCell_isZero = ex_isZero\<rparr>"

text \<open>Root, string data, trajectory, model and structure, in a chain.\<close>

definition ex_store :: store where
  "ex_store =
     \<lparr>cells =
        [(0, ex_cell (OtherTransformer ''Root'') None (SO_Data_String ''root'')),
         (1, ex_cell (OtherTransformer ''Download'') (Some 0) (SO_Data_String ''ATOM'')),
         (2, ex_cell (OtherTransformer ''TrajectoryFromPDB'') (Some 1) (SO_Molecule_Trajectory ''pdb'')),
         (3, ex_cell ModelFromTrajectory (Some 2) (SO_Molecule_Model ''1abc'')),
         (4, ex_cell StructureFromModel (Some 3) (SO_Molecule_Structure 100))],
      nextRef = 5\<rparr>"

text \<open>Root and a blob; and root with a model that has no assembly and the zero cell, and
  a model without symmetry.\<close>

definition ex_blob_store :: store where
  "ex_blob_store =
     \<lparr>cells =
        [(0, ex_cell (OtherTransformer ''Root'') None (SO_Data_String ''root'')),
         (1, ex_cell (OtherTransformer ''Download'') (Some 0) (SO_Data_Blob [''zip'']))],
      nextRef = 2\<rparr>"

definition ex_nmr_store :: store where
  "ex_nmr_store =
     \<lparr>cells =
        [(0, ex_cell (OtherTransformer ''Root'') None (SO_Data_String ''root'')),
         (1, ex_cell ModelFromTrajectory (Some 0) (SO_Molecule_Model ''nmr'')),
         (2, ex_cell ModelFromTrajectory (Some 0) (SO_Molecule_Model ''em''))],
      nextRef = 3\<rparr>"

definition ex_params :: "string \<Rightarrow> StructureComponentParams" where
  "ex_params l = \<lparr>ctype = Type_static ''ligand'', nullIfEmpty = True, label = l\<rparr>"

text \<open>A component under the structure of \<open>ex_store\<close>, and the store with a water
  component.\<close>

definition ex_component :: "string \<Rightarrow> string \<Rightarrow> nat \<Rightarrow> cell" where
  "ex_component key l n =
     \<lparr>transformer = StructureComponent, params = StructureComponent_Params (ex_params l),
      tags = [StructureBuilderTags_Component, keyTag key], parent = Some 4, status = Ok,
      obj = Some (SO_Molecule_Structure n), state = []\<rparr>"

definition ex_water_store :: store where
  "ex_water_store =
     \<lparr>cells = cells ex_store @ [(5, ex_component ''water'' ''Water'' 7)], nextRef = 6\<rparr>"

text \<open>Plugins whose production fails for the listed transformers.\<close>

definition ex_failing_env :: "transformer list \<Rightarrow> plugin_env" where
  "ex_failing_env trs =
     ex_env\<lparr>produce := (\<lambda>tr v ps. if tr \<in> set trs then Inl ''failed'' else ex_produce tr v ps)\<rparr>"

definition ex_all_fail :: plugin_env where
  "ex_all_fail = ex_failing_env [ParseBlob, ModelFromTrajectory, CustomModelProperties,
     StructureFromModel, CustomStructureProperties, ModelUnitcell3D]"

text \<open>The test of \<^verbatim>\<open>createStructure\<close> on its model: it resolves, and has no symmetry or no
  assembly.\<close>

definition no_assembly :: "plugin_env \<Rightarrow> store \<Rightarrow> ref \<Rightarrow> bool" where
  "no_assembly env st modelRef =
     (case resolveAndCheck st modelRef of
        None \<Rightarrow> False
      | Some model \<Rightarrow>
          (case obj model of
             None \<Rightarrow> False
           | Some d \<Rightarrow>
               (case ModelSymmetry_get env d of
                  None \<Rightarrow> True
                | Some symm \<Rightarrow> length (assemblies symm) = 0)))"

text \<open>The runtime context of the task \<^verbatim>\<open>tryCreateComponentFromSelection\<close> runs.\<close>

definition Query_Component_ctx :: RuntimeContext where
  "Query_Component_ctx = \<lparr>task_name = ''Query Component''\<rparr>"

text \<open>Selection queries: one that aborts outside the task named \<open>Query Component\<close>, two that
  always abort (in the selection, in the property fetch), one that never does; and the
  cell of a component made from the first.\<close>

definition ex_query :: "bool \<Rightarrow> StructureSelectionQuery" where
  "ex_query cur =
     \<lparr>q_label = ''Ligand'', expression = ''ligand'', referencesCurrent = cur,
      getSelection =
        (\<lambda>ctx sd. if task_name ctx = ''Query Component'' then Inr [1, 2, 3] else Inl (Error ''Aborted'')),
      ensureCustomProperties =
        Some (\<lambda>ctx sd. if task_name ctx = ''Query Component'' then None else Some (Error ''Aborted''))\<rparr>"

definition ex_aborting_query :: StructureSelectionQuery where
  "ex_aborting_query =
     \<lparr>q_label = ''Ligand'', expression = ''ligand'', referencesCurrent = True,
      getSelection = (\<lambda>ctx sd. Inl (Error ''Aborted'')),
      ensureCustomProperties = None\<rparr>"

definition ex_aborting_fetch :: StructureSelectionQuery where
  "ex_aborting_fetch =
     \<lparr>q_label = ''Ligand'', expression = ''ligand'', referencesCurrent = False,
      getSelection = (\<lambda>ctx sd. Inr []),
      ensureCustomProperties = Some (\<lambda>ctx sd. Some (Error ''Aborted''))\<rparr>"

definition ex_lenient_query :: StructureSelectionQuery where
  "ex_lenient_query =
     \<lparr>q_label = ''Ligand'', expression = ''ligand'', referencesCurrent = True,
      getSelection = (\<lambda>ctx sd. Inr [1, 2, 3]),
      ensureCustomProperties = Some (\<lambda>ctx sd. None)\<rparr>"

definition ex_blank_label :: "component_options option" where
  "ex_blank_label = Some \<lparr>o_label = Some ''  '', o_tags = None\<rparr>"

definition ex_ligand_cell :: cell where
  "ex_ligand_cell =
     \<lparr>transformer = StructureComponent,
      params = StructureComponent_Params
        \<lparr>ctype = Type_expression ''ligand'', nullIfEmpty = True, label = ''Ligand''\<rparr>,
      tags = [StructureBuilderTags_Component, keyTag ''lig''], parent = Some 4, status = Ok,
      obj = Some (SO_Molecule_Structure 7), state = []\<rparr>"

text \<open>A component under the structure of \<open>ex_store\<close> that carries the key tag of \<open>water\<close>
  and no other tag, and the store with it; and a caller-supplied label with white space and
  line terminators at both ends.\<close>

definition ex_foreign_cell :: "string \<Rightarrow> cell" where
  "ex_foreign_cell l =
     \<lparr>transformer = StructureComponent, params = StructureComponent_Params (ex_params l),
      tags = [keyTag ''water''], parent = Some 4, status = Ok,
      obj = Some (SO_Molecule_Structure 7), state = []\<rparr>"

definition ex_foreign_store :: store where
  "ex_foreign_store = \<lparr>cells = cells ex_store @ [(5, ex_foreign_cell ''Water'')], nextRef = 6\<rparr>"

definition ex_padded_label :: "component_options option" where
  "ex_padded_label =
     Some \<lparr>o_label = Some ([CHR 0xA0, CHR 0x09, CHR 0x0A] @ ''Chain A'' @ [CHR 0x0B, CHR 0x0C, CHR 0x0D, CHR 0x20]),
           o_tags = None\<rparr>"

text \<open>The references of the store above \<open>d\<close> and up to \<open>r\<close>.\<close>

definition keys_between :: "(ref \<times> cell) list \<Rightarrow> ref \<Rightarrow> ref \<Rightarrow> ref set" where
  "keys_between cs d r = {x \<in> fst ` set cs. d < x \<and> x \<le> r}"

section \<open>The commit engine on the builders of the source\<close>

lemma commit_revert_error:
  "commit P st b True = (st', Some e) \<Longrightarrow> cells st' = cells st"
  by (auto simp: commit_def Let_def split: prod.splits list.splits)

lemma commit_partial_no_error: "snd (commit P st b False) = None"
  by (auto simp: commit_def Let_def split: prod.splits list.splits)

lemma single_insert_builder:
  "apply' (to (build st) a) tr ps opts =
     \<lparr>tree = cells st, current = nextRef st,
      actions = [Insert (nextRef st) a tr ps (opt_tags opts) (opt_state opts)],
      fresh = Suc (nextRef st)\<rparr>"
  by (simp add: apply'_def to_def build_def)

lemma current_single_insert: "current (apply' (to (build st) a) tr ps opts) = nextRef st"
  by (simp add: apply'_def to_def build_def)

lemma insert_commit:
  "updateDataState env st (apply' (to (build st) a) tr ps opts) (Some \<lparr>revertOnError = True\<rparr>) =
     (case map_of (cells st) a of
        None \<Rightarrow> (st\<lparr>nextRef := Suc (nextRef st)\<rparr>, Some (CommitError (InvalidReference a)))
      | Some pc \<Rightarrow>
          (case produced (produce env) (cells st) a tr ps of
             Inl m \<Rightarrow> (st\<lparr>nextRef := Suc (nextRef st)\<rparr>, Some (CommitError (ProductionFailure m)))
           | Inr v \<Rightarrow>
               (\<lparr>cells = cells st @ [(nextRef st, inserted tr ps (opt_tags opts) (opt_state opts) a (Inr v))],
                 nextRef = Suc (nextRef st)\<rparr>,
                None)))"
  by (simp add: updateDataState_def commit_def single_insert_builder inserted_def finish_def
      outcome_def Let_def split: option.splits sum.splits)

section \<open>Subtrees and well-formed stores\<close>

lemma in_subtree_self [simp]: "in_subtree n cs d d"
  by (cases n) simp_all

lemma in_subtree_ge:
  assumes "\<forall>rc \<in> set cs. \<forall>p. parent (snd rc) = Some p \<longrightarrow> p < fst rc"
  shows "in_subtree n cs d r \<Longrightarrow> d \<le> r"
proof (induction n arbitrary: r)
  case 0
  then show ?case by simp
next
  case (Suc n)
  show ?case
  proof (cases "r = d")
    case True
    then show ?thesis by simp
  next
    case False
    with Suc.prems obtain c p where c: "map_of cs r = Some c" and p: "parent c = Some p"
      and sub: "in_subtree n cs d p"
      by (auto split: option.splits)
    from c have "(r, c) \<in> set cs" by (rule map_of_SomeD)
    with assms p have "p < r" by force
    moreover from Suc.IH [OF sub] have "d \<le> p" .
    ultimately show ?thesis by simp
  qed
qed

lemma wf_cells_parent:
  "wf_cells n cs \<Longrightarrow> \<forall>rc \<in> set cs. \<forall>p. parent (snd rc) = Some p \<longrightarrow> p < fst rc"
  by (auto simp: wf_cells_def)

lemma wf_cells_lookup:
  "wf_cells n cs \<Longrightarrow> map_of cs r = Some c \<Longrightarrow> r < n \<and> (\<forall>p. parent c = Some p \<longrightarrow> p < r)"
  by (force simp: wf_cells_def dest: map_of_SomeD)

lemma wf_cells_fresh: "wf_cells n cs \<Longrightarrow> n \<le> r \<Longrightarrow> map_of cs r = None"
  by (cases "map_of cs r") (auto dest: wf_cells_lookup)

lemma wf_cells_mono: "wf_cells n cs \<Longrightarrow> n \<le> m \<Longrightarrow> wf_cells m cs"
  by (force simp: wf_cells_def)

lemma wf_cells_filter: "wf_cells n cs \<Longrightarrow> wf_cells n (filter Q cs)"
  by (auto simp: wf_cells_def distinct_map_filter)

lemma wf_cells_remove_subtree: "wf_cells n cs \<Longrightarrow> wf_cells n (remove_subtree d cs)"
  by (simp add: remove_subtree_def wf_cells_filter)

lemma wf_cells_append:
  "wf_cells n cs \<Longrightarrow> parent c = Some p \<Longrightarrow> p < n \<Longrightarrow> wf_cells (Suc n) (cs @ [(n, c)])"
  by (force simp: wf_cells_def)

lemma map_fst_set_cell [simp]: "map fst (set_cell r c cs) = map fst cs"
  by (induction cs) (auto simp: set_cell_def)

lemma wf_cells_set_cell:
  "wf_cells n cs \<Longrightarrow> map_of cs r = Some c \<Longrightarrow> parent c' = parent c \<Longrightarrow> wf_cells n (set_cell r c' cs)"
  unfolding wf_cells_def
  apply (intro conjI)
   apply simp
  apply (auto simp: set_cell_def dest!: map_of_SomeD)
  done

lemma map_of_set_cell:
  "map_of (set_cell r c' cs) x = (if x = r \<and> map_of cs r \<noteq> None then Some c' else map_of cs x)"
  by (induction cs) (auto simp: set_cell_def)

lemma remove_subtree_fresh:
  assumes "wf_cells n cs" and "n \<le> d"
  shows "remove_subtree d cs = cs"
proof -
  have "\<not> in_subtree k cs d (fst rc)" if "rc \<in> set cs" for rc k
  proof
    assume "in_subtree k cs d (fst rc)"
    then have "d \<le> fst rc" by (rule in_subtree_ge [OF wf_cells_parent [OF assms(1)]])
    moreover from that assms(1) have "fst rc < n" by (auto simp: wf_cells_def)
    ultimately show False using assms(2) by simp
  qed
  then show ?thesis by (simp add: remove_subtree_def)
qed

lemma remove_subtree_last:
  assumes "wf_cells n cs" and "parent c = Some p" and "p < n"
  shows "remove_subtree n (cs @ [(n, c)]) = cs"
proof -
  have wf: "wf_cells (Suc n) (cs @ [(n, c)])" using assms by (rule wf_cells_append)
  have "\<not> in_subtree k (cs @ [(n, c)]) n (fst rc)" if "rc \<in> set cs" for rc k
  proof
    assume "in_subtree k (cs @ [(n, c)]) n (fst rc)"
    then have "n \<le> fst rc" by (rule in_subtree_ge [OF wf_cells_parent [OF wf]])
    moreover from that assms(1) have "fst rc < n" by (auto simp: wf_cells_def)
    ultimately show False by simp
  qed
  then have "filter (\<lambda>rc. \<not> in_subtree k (cs @ [(n, c)]) n (fst rc)) cs = cs" for k
    by (intro filter_True) blast
  then show ?thesis by (simp add: remove_subtree_def del: in_subtree.simps)
qed

lemma map_of_remove_subtree_self [simp]: "map_of (remove_subtree d cs) d = None"
proof -
  have "d \<notin> fst ` set (remove_subtree d cs)"
    by (auto simp: remove_subtree_def)
  then show ?thesis by (simp add: map_of_eq_None_iff)
qed

section \<open>The two paths of tryCreateComponent\<close>

lemma keyTag_in_component_tags: "keyTag key \<in> set (component_tags tgs key)"
  by (simp add: component_tags_def split: option.splits)

lemma component_builder_insert:
  "find (carries s (keyTag key)) (cells st) = None \<Longrightarrow>
   component_builder st s ps key tgs =
     \<lparr>tree = cells st, current = nextRef st,
      actions = [Insert (nextRef st) s StructureComponent (StructureComponent_Params ps)
                   (component_tags tgs key) []],
      fresh = Suc (nextRef st)\<rparr>"
  by (simp add: component_builder_def applyOrUpdateTagged_def apply'_def to_def build_def
      keyTag_in_component_tags)

lemma component_builder_update:
  "find (carries s (keyTag key)) (cells st) = Some (r, c) \<Longrightarrow>
   component_builder st s ps key tgs =
     \<lparr>tree = cells st, current = r,
      actions = [Update r (StructureComponent_Params ps)],
      fresh = nextRef st\<rparr>"
  by (simp add: component_builder_def applyOrUpdateTagged_def to_def build_def)

lemma find_SomeD: "find Q xs = Some x \<Longrightarrow> x \<in> set xs \<and> Q x"
  by (induction xs) (auto split: if_splits)

lemma find_carries:
  assumes "wf_cells n cs" and "find (carries s k) cs = Some (r, c)"
  shows "map_of cs r = Some c" and "parent c = Some s" and "k \<in> set (tags c)"
proof -
  from assms(2) have "(r, c) \<in> set cs" and "carries s k (r, c)"
    by (auto dest: find_SomeD)
  moreover from assms(1) have "distinct (map fst cs)" by (simp add: wf_cells_def)
  ultimately show "map_of cs r = Some c" and "parent c = Some s" and "k \<in> set (tags c)"
    by (auto simp: carries_def)
qed

lemma tryCreateComponent_insert:
  assumes wf: "wf_store st" and nf: "find (carries s (keyTag key)) (cells st) = None"
  shows "tryCreateComponent env st s ps key tgs =
     (let n = nextRef st;
          res = produced (produce env) (cells st) s StructureComponent (StructureComponent_Params ps);
          c = inserted StructureComponent (StructureComponent_Params ps) (component_tags tgs key) [] s res
      in if map_of (cells st) s = None \<or> pruned res
         then (st\<lparr>nextRef := Suc n\<rparr>, Inr None)
         else (\<lparr>cells = cells st @ [(n, c)], nextRef = Suc n\<rparr>,
               Inr (Some \<lparr>ref = n, isOk = True, sel_cell = Some c\<rparr>)))"
proof -
  let ?n = "nextRef st"
  from wf have wfc: "wf_cells ?n (cells st)" by (simp add: wf_store_def)
  have fresh: "map_of (cells st) ?n = None" using wfc by (simp add: wf_cells_fresh)
  show ?thesis
  proof (cases "map_of (cells st) s")
    case None
    then show ?thesis
      using fresh remove_subtree_fresh [OF wfc order_refl]
      by (simp add: tryCreateComponent_def component_builder_insert [OF nf] updateDataState_def
          commit_def selector_of_def delete_def build_def Let_def)
  next
    case (Some sc)
    then have lt: "s < ?n" using wfc by (auto dest: wf_cells_lookup)
    let ?res = "produced (produce env) (cells st) s StructureComponent (StructureComponent_Params ps)"
    let ?c = "inserted StructureComponent (StructureComponent_Params ps) (component_tags tgs key) [] s ?res"
    have par: "parent ?c = Some s"
      by (simp add: inserted_def finish_def split: sum.splits)
    have rm: "remove_subtree ?n (cells st @ [(?n, ?c)]) = cells st"
      using wfc par lt by (rule remove_subtree_last)
    show ?thesis
    proof (cases ?res)
      case (Inl m)
      then show ?thesis
        using Some fresh rm
        by (simp add: tryCreateComponent_def component_builder_insert [OF nf] updateDataState_def
            commit_def selector_of_def delete_def build_def Let_def inserted_def finish_def
            outcome_def pruned_def map_add_def)
    next
      case (Inr v)
      then show ?thesis
        using Some fresh rm
        by (simp add: tryCreateComponent_def component_builder_insert [OF nf] updateDataState_def
            commit_def selector_of_def delete_def build_def Let_def inserted_def finish_def
            outcome_def pruned_def map_add_def selector_empty_def)
    qed
  qed
qed

lemma tryCreateComponent_update:
  assumes wf: "wf_store st" and fd: "find (carries s (keyTag key)) (cells st) = Some (r, c)"
  shows "tryCreateComponent env st s ps key tgs =
     (let res = produced (produce env) (cells st) s (transformer c) (StructureComponent_Params ps);
          c' = updated c (StructureComponent_Params ps) res;
          cs1 = set_cell r c' (cells st)
      in if pruned res
         then (\<lparr>cells = remove_subtree r cs1, nextRef = nextRef st\<rparr>, Inr None)
         else (\<lparr>cells = cs1, nextRef = nextRef st\<rparr>,
               Inr (Some \<lparr>ref = r, isOk = True, sel_cell = Some c'\<rparr>)))"
proof -
  from wf have wfc: "wf_cells (nextRef st) (cells st)" by (simp add: wf_store_def)
  note fc = find_carries [OF wfc fd]
  let ?res = "produced (produce env) (cells st) s (transformer c) (StructureComponent_Params ps)"
  show ?thesis
  proof (cases ?res)
    case (Inl m)
    then show ?thesis
      using fc
      by (simp add: tryCreateComponent_def component_builder_update [OF fd] updateDataState_def
          commit_def selector_of_def delete_def build_def Let_def updated_def finish_def
          outcome_def pruned_def map_of_set_cell)
  next
    case (Inr v)
    then show ?thesis
      using fc
      by (simp add: tryCreateComponent_def component_builder_update [OF fd] updateDataState_def
          commit_def selector_of_def delete_def build_def Let_def updated_def finish_def
          outcome_def pruned_def map_of_set_cell selector_empty_def)
  qed
qed

section \<open>The two-stage blob pipeline\<close>

lemma blob_builder:
  "apply' (apply' (to (build st) data) ParseBlob ps1 o1) TrajectoryFromBlob ps2 o2 =
     \<lparr>tree = cells st, current = Suc (nextRef st),
      actions = [Insert (nextRef st) data ParseBlob ps1 (opt_tags o1) (opt_state o1),
                 Insert (Suc (nextRef st)) (nextRef st) TrajectoryFromBlob ps2 (opt_tags o2) (opt_state o2)],
      fresh = Suc (Suc (nextRef st))\<rparr>"
  by (simp add: apply'_def to_def build_def)

section \<open>Tagged children and the cells a commit writes\<close>

lemma tagged_children_Nil_iff: "tagged_children cs a k = [] \<longleftrightarrow> find (carries a k) cs = None"
  by (auto simp: tagged_children_def find_None_iff filter_empty_conv)

lemma tagged_children_append:
  "tagged_children (cs @ [(n, c)]) a k =
     tagged_children cs a k @ (if carries a k (n, c) then [n] else [])"
  by (simp add: tagged_children_def)

lemma find_Some_hd: "find Q xs = Some x \<Longrightarrow> \<exists>ys. filter Q xs = x # ys"
  by (induction xs) (auto split: if_splits)

lemma tagged_children_single:
  assumes "find (carries a k) cs = Some (r, c)" and "length (tagged_children cs a k) \<le> 1"
  shows "tagged_children cs a k = [r]"
proof -
  from assms(1) obtain ys where "filter (carries a k) cs = (r, c) # ys"
    by (auto dest: find_Some_hd)
  with assms(2) show ?thesis by (simp add: tagged_children_def)
qed

lemma tagged_children_set_cell:
  assumes "distinct (map fst cs)" and "map_of cs r = Some c"
    and "parent c' = parent c" and "tags c' = tags c"
  shows "tagged_children (set_cell r c' cs) a k = tagged_children cs a k"
  using assms(1,2)
proof (induction cs)
  case Nil
  then show ?case by simp
next
  case (Cons x cs)
  obtain r0 c0 where x: "x = (r0, c0)" by (cases x)
  show ?case
  proof (cases "r0 = r")
    case True
    with Cons.prems x have c0: "c0 = c" and notin: "r \<notin> fst ` set cs" by auto
    have "set_cell r c' cs = cs"
      using notin by (induction cs) (auto simp: set_cell_def)
    then show ?thesis
      using x True c0 assms(3,4)
      by (simp add: tagged_children_def set_cell_def carries_def)
  next
    case False
    with Cons.prems x have "map_of cs r = Some c" and "distinct (map fst cs)" by auto
    with Cons.IH have "tagged_children (set_cell r c' cs) a k = tagged_children cs a k" by simp
    then show ?thesis
      using x False by (simp add: tagged_children_def set_cell_def)
  qed
qed

lemma tagged_children_remove_subtree:
  "tagged_children (remove_subtree d cs) a k =
     filter (\<lambda>x. \<not> in_subtree (length cs) cs d x) (tagged_children cs a k)"
proof -
  have "map fst (filter Q (filter (\<lambda>rc. R (fst rc)) xs)) = filter R (map fst (filter Q xs))"
    for Q :: "ref \<times> cell \<Rightarrow> bool" and R xs
    by (induction xs) auto
  then show ?thesis
    by (simp add: tagged_children_def remove_subtree_def del: in_subtree.simps)
qed

lemma finish_fields [simp]:
  "parent (finish c res) = parent c" "tags (finish c res) = tags c"
  "params (finish c res) = params c" "transformer (finish c res) = transformer c"
  "state (finish c res) = state c"
  by (simp_all add: finish_def split: sum.splits)

lemma finish_status: "status (finish c res) = Ok \<longleftrightarrow> (\<exists>v. res = Inr v)"
  by (simp add: finish_def split: sum.splits)

lemma finish_obj: "obj (finish c res) = (case res of Inl m \<Rightarrow> None | Inr v \<Rightarrow> Some v)"
  by (simp add: finish_def split: sum.splits)

lemma inserted_fields [simp]:
  "parent (inserted tr ps tgs ts a res) = Some a" "tags (inserted tr ps tgs ts a res) = tgs"
  "params (inserted tr ps tgs ts a res) = ps" "transformer (inserted tr ps tgs ts a res) = tr"
  "state (inserted tr ps tgs ts a res) = ts"
  by (simp_all add: inserted_def)

lemma updated_fields [simp]:
  "parent (updated c ps res) = parent c" "tags (updated c ps res) = tags c"
  "params (updated c ps res) = ps" "transformer (updated c ps res) = transformer c"
  "state (updated c ps res) = state c"
  by (simp_all add: updated_def)

lemma not_pruned_Ok:
  "\<not> pruned res \<Longrightarrow> \<exists>v. res = Inr v \<and> elementCount v \<noteq> Some 0"
  by (cases res) (simp_all add: pruned_def)

section \<open>One call of tryCreateComponent on a well-formed store\<close>

lemma tryCreateComponent_spec:
  assumes wf: "wf_store st"
    and uniq: "length (tagged_children (cells st) s (keyTag key)) \<le> 1"
    and run: "tryCreateComponent env st s ps key tgs = (st', r)"
  shows "wf_store st' \<and>
         (r = Inr None \<and> tagged_children (cells st') s (keyTag key) = [] \<or>
          (\<exists>sel c. r = Inr (Some sel) \<and>
              tagged_children (cells st') s (keyTag key) = [ref sel] \<and>
              (tagged_children (cells st) s (keyTag key) = [] \<or>
               tagged_children (cells st) s (keyTag key) = [ref sel]) \<and>
              map_of (cells st') (ref sel) = Some c \<and> sel_cell sel = Some c \<and> isOk sel \<and>
              params c = StructureComponent_Params ps \<and> parent c = Some s \<and>
              keyTag key \<in> set (tags c) \<and> status c = Ok \<and>
              (\<exists>v. obj c = Some v \<and> elementCount v \<noteq> Some 0)))"
proof -
  let ?n = "nextRef st" and ?cs = "cells st" and ?k = "keyTag key"
  let ?P = "StructureComponent_Params ps"
  from wf have wfc: "wf_cells ?n ?cs" by (simp add: wf_store_def)
  show ?thesis
  proof (cases "find (carries s ?k) ?cs")
    case None
    then have tc: "tagged_children ?cs s ?k = []" by (simp add: tagged_children_Nil_iff)
    let ?res = "produced (produce env) ?cs s StructureComponent ?P"
    let ?c = "inserted StructureComponent ?P (component_tags tgs key) [] s ?res"
    note eq = tryCreateComponent_insert [OF wf None, of env ps tgs, unfolded Let_def]
    show ?thesis
    proof (cases "map_of ?cs s = None \<or> pruned ?res")
      case True
      with eq run have st': "st' = st\<lparr>nextRef := Suc ?n\<rparr>" and r: "r = Inr None" by auto
      have "wf_store st'" using wfc st' by (simp add: wf_store_def wf_cells_mono)
      then show ?thesis using r st' tc by simp
    next
      case False
      with eq run have st': "st' = \<lparr>cells = ?cs @ [(?n, ?c)], nextRef = Suc ?n\<rparr>"
        and r: "r = Inr (Some \<lparr>ref = ?n, isOk = True, sel_cell = Some ?c\<rparr>)" by auto
      from False obtain sc where "map_of ?cs s = Some sc" by auto
      then have lt: "s < ?n" using wfc by (auto dest: wf_cells_lookup)
      have "wf_cells (Suc ?n) (?cs @ [(?n, ?c)])"
        using wfc _ lt by (rule wf_cells_append) simp
      then have w: "wf_store st'" using st' by (simp add: wf_store_def)
      have fresh: "map_of ?cs ?n = None" using wfc by (simp add: wf_cells_fresh)
      from False obtain v where v: "?res = Inr v" "elementCount v \<noteq> Some 0"
        by (auto dest: not_pruned_Ok)
      have "tagged_children (cells st') s ?k = [?n]"
        using st' tc by (simp add: tagged_children_append carries_def keyTag_in_component_tags)
      moreover have "map_of (cells st') ?n = Some ?c"
        using st' fresh by (simp add: map_add_def)
      moreover have "status ?c = Ok" "obj ?c = Some v"
        using v by (simp_all add: inserted_def finish_def)
      ultimately show ?thesis
        using w r tc v by (simp add: keyTag_in_component_tags)
    qed
  next
    case (Some rc)
    obtain r0 c0 where rc: "rc = (r0, c0)" by (cases rc)
    with Some have fd: "find (carries s ?k) ?cs = Some (r0, c0)" by simp
    note fc = find_carries [OF wfc fd]
    have tc: "tagged_children ?cs s ?k = [r0]" using fd uniq by (rule tagged_children_single)
    let ?res = "produced (produce env) ?cs s (transformer c0) ?P"
    let ?c = "updated c0 ?P ?res"
    let ?cs1 = "set_cell r0 ?c ?cs"
    note eq = tryCreateComponent_update [OF wf fd, of env ps tgs, unfolded Let_def]
    have wf1: "wf_cells ?n ?cs1" using wfc fc(1) by (rule wf_cells_set_cell) simp
    have dist: "distinct (map fst ?cs)" using wfc by (simp add: wf_cells_def)
    have tc1: "tagged_children ?cs1 s ?k = [r0]"
      using tagged_children_set_cell [OF dist fc(1), of ?c s ?k] tc by simp
    show ?thesis
    proof (cases "pruned ?res")
      case True
      with eq run have st': "st' = \<lparr>cells = remove_subtree r0 ?cs1, nextRef = ?n\<rparr>"
        and r: "r = Inr None" by auto
      have "wf_store st'" using wf1 st' by (simp add: wf_store_def wf_cells_remove_subtree)
      moreover have "tagged_children (cells st') s ?k = []"
        using st' tc1 by (simp add: tagged_children_remove_subtree del: in_subtree.simps)
      ultimately show ?thesis using r by simp
    next
      case False
      with eq run have st': "st' = \<lparr>cells = ?cs1, nextRef = ?n\<rparr>"
        and r: "r = Inr (Some \<lparr>ref = r0, isOk = True, sel_cell = Some ?c\<rparr>)" by auto
      from False obtain v where v: "?res = Inr v" "elementCount v \<noteq> Some 0"
        by (auto dest: not_pruned_Ok)
      have "wf_store st'" using wf1 st' by (simp add: wf_store_def)
      moreover have "map_of (cells st') r0 = Some ?c"
        using st' fc(1) by (simp add: map_of_set_cell)
      moreover have "status ?c = Ok" "obj ?c = Some v"
        using v by (simp_all add: updated_def finish_def)
      ultimately show ?thesis
        using r st' tc tc1 v fc by simp
    qed
  qed
qed

lemma map_of_remove_subtree_keep:
  assumes "map_of cs w = Some cw" and "\<not> in_subtree (length cs) cs d w"
  shows "map_of (remove_subtree d cs) w = Some cw"
proof -
  have "filter (\<lambda>rc. \<not> in_subtree (length cs) cs d (fst rc)) cs =
        filter (\<lambda>(k, v). \<not> in_subtree (length cs) cs d k) cs"
    by (rule filter_cong) auto
  then have "remove_subtree d cs = filter (\<lambda>(k, v). \<not> in_subtree (length cs) cs d k) cs"
    by (simp only: remove_subtree_def)
  with assms show ?thesis
    by (simp add: map_of_filter_in del: in_subtree.simps)
qed

lemma not_in_subtree_of_child:
  assumes wf: "wf_cells n cs" and d: "map_of cs d = Some cd" "parent cd = Some s"
  shows "\<not> in_subtree k cs d s"
proof
  assume "in_subtree k cs d s"
  then have "d \<le> s" by (rule in_subtree_ge [OF wf_cells_parent [OF wf]])
  moreover from wf d have "s < d" by (auto dest: wf_cells_lookup)
  ultimately show False by simp
qed

lemma sibling_not_in_subtree:
  assumes wf: "wf_cells n cs" and w: "map_of cs w = Some cw" "parent cw = Some s"
    and d: "map_of cs d = Some cd" "parent cd = Some s" and ne: "w \<noteq> d"
  shows "\<not> in_subtree k cs d w"
proof (cases k)
  case 0
  then show ?thesis using ne by simp
next
  case (Suc k')
  then show ?thesis
    using ne w not_in_subtree_of_child [OF wf d, of k'] by simp
qed

section \<open>Runs on the example stores\<close>

lemma wf_ex_store: "wf_store ex_store"
  by (simp add: wf_store_def wf_cells_def ex_store_def ex_cell_def)

lemma wf_ex_water_store: "wf_store ex_water_store"
  by (simp add: wf_store_def wf_cells_def ex_water_store_def ex_store_def ex_cell_def ex_component_def)

lemma ex_store_no_component: "find (carries 4 (keyTag k)) (cells ex_store) = None"
  by (simp add: ex_store_def ex_cell_def carries_def)

lemma ex_produced:
  "produced (produce ex_env) (cells ex_store) 4 StructureComponent (StructureComponent_Params (ex_params l)) =
     (if l = ''fail'' then Inl ''component failed''
      else if l = ''empty'' then Inr (SO_Molecule_Structure 0)
      else Inr (SO_Molecule_Structure 7))"
  by (simp add: produced_def parent_payload_def ex_store_def ex_cell_def ex_env_def ex_produce_def ex_params_def)

lemma ex_create_water:
  "tryCreateComponent ex_env ex_store 4 (ex_params ''Water'') ''water'' None =
     (ex_water_store, Inr (Some \<lparr>ref = 5, isOk = True, sel_cell = Some (ex_component ''water'' ''Water'' 7)\<rparr>))"
  by (simp add: tryCreateComponent_insert [OF wf_ex_store ex_store_no_component] ex_produced
      Let_def pruned_def inserted_def finish_def ex_water_store_def ex_component_def
      component_tags_def)
    (simp add: ex_store_def ex_cell_def)

lemma ex_water_store_component:
  "find (carries 4 (keyTag ''water'')) (cells ex_water_store) = Some (5, ex_component ''water'' ''Water'' 7)"
  by (simp add: ex_water_store_def ex_store_def ex_cell_def carries_def ex_component_def)

lemma ex_water_store_no_ligand:
  "find (carries 4 (keyTag ''ligand'')) (cells ex_water_store) = None"
  by (simp add: ex_water_store_def ex_store_def ex_cell_def carries_def ex_component_def
      keyTag_def StructureBuilderTags_Component_def)

lemma ex_water_produced:
  "produced (produce ex_env) (cells ex_water_store) 4 StructureComponent (StructureComponent_Params (ex_params l)) =
     (if l = ''fail'' then Inl ''component failed''
      else if l = ''empty'' then Inr (SO_Molecule_Structure 0)
      else Inr (SO_Molecule_Structure 7))"
  by (simp add: produced_def parent_payload_def ex_water_store_def ex_store_def ex_cell_def
      ex_env_def ex_produce_def ex_params_def)

lemma ex_set_cell:
  "set_cell 5 c (cells ex_water_store) = cells ex_store @ [(5, c)]"
  by (simp add: set_cell_def ex_water_store_def ex_store_def)

lemma ex_remove_last:
  "parent c = Some 4 \<Longrightarrow> remove_subtree 5 (cells ex_store @ [(5, c)]) = cells ex_store"
  using remove_subtree_last [of 5 "cells ex_store" c 4] wf_ex_store
  by (simp add: wf_store_def ex_store_def)

lemma ex_component_fields:
  "transformer (ex_component k l n) = StructureComponent"
  "parent (ex_component k l n) = Some 4"
  "tags (ex_component k l n) = [StructureBuilderTags_Component, keyTag k]"
  "status (ex_component k l n) = Ok"
  "params (ex_component k l n) = StructureComponent_Params (ex_params l)"
  by (simp_all add: ex_component_def)

lemma ex_updated:
  "updated (ex_component k l n) (StructureComponent_Params (ex_params l')) (Inr (SO_Molecule_Structure n')) =
     ex_component k l' n'"
  by (simp add: updated_def finish_def ex_component_def)

lemma ex_water_nextRef: "nextRef ex_water_store = 6"
  by (simp add: ex_water_store_def)

lemma ex_store_no_children: "tagged_children (cells ex_store) 4 (keyTag k) = []"
  by (simp add: tagged_children_Nil_iff ex_store_no_component)

lemma ex_update_empty:
  "tryCreateComponent ex_env ex_water_store 4 (ex_params ''empty'') ''water'' None =
     (\<lparr>cells = cells ex_store, nextRef = 6\<rparr>, Inr None)"
  by (simp add: tryCreateComponent_update [OF wf_ex_water_store ex_water_store_component]
      ex_component_fields ex_water_produced Let_def pruned_def ex_set_cell ex_remove_last
      ex_water_nextRef)

lemma ex_update_second:
  "tryCreateComponent ex_env ex_water_store 4 (ex_params ''Second'') ''water'' None =
     (\<lparr>cells = cells ex_store @ [(5, ex_component ''water'' ''Second'' 7)], nextRef = 6\<rparr>,
      Inr (Some \<lparr>ref = 5, isOk = True, sel_cell = Some (ex_component ''water'' ''Second'' 7)\<rparr>))"
  by (simp add: tryCreateComponent_update [OF wf_ex_water_store ex_water_store_component]
      ex_component_fields ex_water_produced Let_def pruned_def ex_set_cell ex_updated
      ex_water_nextRef)

lemma ex_ligand_fails:
  "tryCreateComponent ex_env ex_water_store 4 (ex_params ''fail'') ''ligand'' None =
     (ex_water_store\<lparr>nextRef := 7\<rparr>, Inr None)"
  by (simp add: tryCreateComponent_insert [OF wf_ex_water_store ex_water_store_no_ligand]
      ex_water_produced Let_def pruned_def)
    (simp add: ex_water_store_def)

section \<open>Partial commits and deletes\<close>

lemma updateDataState_partial_no_error: "snd (updateDataState env st b None) = None"
  using commit_partial_no_error [of "produce env" st b]
  by (cases "commit (produce env) st b False") (simp add: updateDataState_def)

lemma updateDataState_delete:
  "cells (fst (updateDataState env st (delete (build st) r) None)) = remove_subtree r (cells st)"
  by (simp add: updateDataState_def commit_def delete_def build_def)

section \<open>Failing runs on the example store\<close>

lemma ex_failing_produced:
  "tr \<in> set trs \<Longrightarrow> a \<in> {1, 2, 3, 4} \<Longrightarrow>
   produced (produce (ex_failing_env trs)) (cells ex_store) a tr ps = Inl ''failed''"
  by (auto simp: produced_def parent_payload_def ex_store_def ex_cell_def ex_failing_env_def)

lemma ex_second_stage:
  "produced (produce (ex_failing_env [TrajectoryFromBlob])) (cells ex_store) 1 ParseBlob
     (ParseBlob_Params (BlobParams ''zip'')) = Inr (SO_Data_Blob [''a'', ''b''])"
  "produce (ex_failing_env [TrajectoryFromBlob]) TrajectoryFromBlob (SO_Data_Blob [''a'', ''b'']) Undefined = Inl ''failed''"
  by (simp_all add: produced_def parent_payload_def ex_store_def ex_cell_def ex_failing_env_def
      ex_produce_def)

lemma ex_unitcell_guard:
  "resolved_data ex_store 3 = Some (SO_Molecule_Model ''1abc'')"
  "\<not> SpacegroupCell_isZero ex_all_fail
       (map_option spacegroup_cell (ModelSymmetry_get ex_all_fail (SO_Molecule_Model ''1abc'')))"
  by (simp_all add: resolved_data_def resolveAndCheck_def ex_store_def ex_cell_def ex_all_fail_def
      ex_failing_env_def ex_env_def ex_symmetry_def ex_isZero_def)

lemma ex_create_empty:
  "tryCreateComponent ex_env ex_store 4 (ex_params ''empty'') ''water'' None =
     (ex_store\<lparr>nextRef := 6\<rparr>, Inr None)"
  by (simp add: tryCreateComponent_insert [OF wf_ex_store ex_store_no_component] ex_produced
      Let_def pruned_def)
    (simp add: ex_store_def)

lemma ex_component_ref:
  "ref (selector_of (component_builder ex_store 4 ps key tgs) st1) = 5"
  by (simp add: selector_of_def component_builder_insert [OF ex_store_no_component])
    (simp add: ex_store_def)

section \<open>Defaults and the unit cell guard on the example stores\<close>

lemma wf_ex_blob_store: "wf_store ex_blob_store"
  by (simp add: wf_store_def wf_cells_def ex_blob_store_def ex_cell_def)

lemma default_structure_params_eq:
  "default_structure_params env st modelRef =
     (if no_assembly env st modelRef then Some \<lparr>rsd_name = ''deposited'', rsd_params = []\<rparr> else None)"
  by (simp add: default_structure_params_def no_assembly_def split: option.splits)

lemma ex_no_assembly:
  "no_assembly ex_env ex_nmr_store 1" "no_assembly ex_env ex_nmr_store 2"
  "\<not> no_assembly ex_env ex_store 3"
  by (simp_all add: no_assembly_def resolveAndCheck_def ex_store_def ex_nmr_store_def ex_cell_def
      ex_env_def ex_symmetry_def)

lemma ex_unitcell_zero:
  "resolved_data ex_nmr_store 1 = Some (SO_Molecule_Model ''nmr'')"
  "SpacegroupCell_isZero ex_env (map_option spacegroup_cell (ModelSymmetry_get ex_env (SO_Molecule_Model ''nmr'')))"
  "resolved_data ex_store 9 = None"
  "resolved_data ex_nmr_store 2 = Some (SO_Molecule_Model ''em'')"
  "SpacegroupCell_isZero ex_env (map_option spacegroup_cell (ModelSymmetry_get ex_env (SO_Molecule_Model ''em'')))"
  by (simp_all add: resolved_data_def resolveAndCheck_def ex_nmr_store_def ex_store_def ex_cell_def
      ex_env_def ex_symmetry_def ex_isZero_def)

section \<open>Components: the node a call returns, and the selection pipeline\<close>

lemma tryCreateComponent_node:
  assumes wf: "wf_store st" and run: "tryCreateComponent env st s ps key tgs = (st', Inr (Some sel))"
  shows "\<exists>c. map_of (cells st') (ref sel) = Some c \<and> sel_cell sel = Some c \<and>
           params c = StructureComponent_Params ps \<and> keyTag key \<in> set (tags c) \<and>
           (map_of (cells st) (ref sel) = None \<longrightarrow>
              transformer c = StructureComponent \<and> tags c = component_tags tgs key) \<and>
           (\<forall>c0. map_of (cells st) (ref sel) = Some c0 \<longrightarrow> tags c = tags c0)"
proof -
  let ?n = "nextRef st" and ?cs = "cells st" and ?k = "keyTag key"
  let ?P = "StructureComponent_Params ps"
  from wf have wfc: "wf_cells ?n ?cs" by (simp add: wf_store_def)
  have fresh: "map_of ?cs ?n = None" using wfc by (simp add: wf_cells_fresh)
  show ?thesis
  proof (cases "find (carries s ?k) ?cs")
    case None
    let ?res = "produced (produce env) ?cs s StructureComponent ?P"
    let ?c = "inserted StructureComponent ?P (component_tags tgs key) [] s ?res"
    from tryCreateComponent_insert [OF wf None, of env ps tgs] run
    have st': "st' = \<lparr>cells = ?cs @ [(?n, ?c)], nextRef = Suc ?n\<rparr>"
      and sel: "sel = \<lparr>ref = ?n, isOk = True, sel_cell = Some ?c\<rparr>"
      by (auto simp: Let_def split: if_splits)
    have "map_of (cells st') ?n = Some ?c" using st' fresh by (simp add: map_add_def)
    then show ?thesis using sel fresh by (simp add: keyTag_in_component_tags)
  next
    case (Some rc)
    obtain r0 c0 where rc: "rc = (r0, c0)" by (cases rc)
    with Some have fd: "find (carries s ?k) ?cs = Some (r0, c0)" by simp
    note fc = find_carries [OF wfc fd]
    let ?res = "produced (produce env) ?cs s (transformer c0) ?P"
    let ?c = "updated c0 ?P ?res"
    from tryCreateComponent_update [OF wf fd, of env ps tgs] run
    have st': "st' = \<lparr>cells = set_cell r0 ?c ?cs, nextRef = ?n\<rparr>"
      and sel: "sel = \<lparr>ref = r0, isOk = True, sel_cell = Some ?c\<rparr>"
      by (auto simp: Let_def split: if_splits)
    have "map_of (cells st') r0 = Some ?c" using st' fc(1) by (simp add: map_of_set_cell)
    then show ?thesis using sel fc by simp
  qed
qed

lemma tryCreateComponentFromSelection_eq:
  "tryCreateComponentFromSelection env st s q key opts =
     (case resolved_data st s of
        None \<Rightarrow> (st, Inr None)
      | Some sd \<Rightarrow>
          (case transformParams q Query_Component_ctx sd opts of
             Inl e \<Rightarrow> (st, Inl e)
           | Inr tp \<Rightarrow>
               (case (case ensureCustomProperties q of
                        None \<Rightarrow> None
                      | Some ensure \<Rightarrow> ensure Query_Component_ctx sd) of
                  Some e \<Rightarrow> (st, Inl e)
                | None \<Rightarrow> tryCreateComponent env st s tp key (option_tags opts))))"
  unfolding tryCreateComponentFromSelection_def runTask_def Task_create_def Query_Component_ctx_def
  by simp

lemma transformParams_fields:
  "transformParams q ctx sd opts = Inr tp \<Longrightarrow>
   nullIfEmpty tp \<and> label tp = selection_label q opts"
  by (auto simp: transformParams_def split: if_splits sum.splits)

lemma ex_resolved_structure: "resolved_data ex_store 4 = Some (SO_Molecule_Structure 100)"
  by (simp add: resolved_data_def resolveAndCheck_def ex_store_def ex_cell_def)

lemma ex_trim: "trim ''  '' = []" "trim '' Polymer '' = ''Polymer''"
  by (simp_all add: trim_def is_space_def)

lemma ex_produced_any:
  "produced (produce ex_env) (cells ex_store) 4 StructureComponent (StructureComponent_Params p) =
     (if label p = ''fail'' then Inl ''component failed''
      else if label p = ''empty'' then Inr (SO_Molecule_Structure 0)
      else Inr (SO_Molecule_Structure 7))"
  by (simp add: produced_def parent_payload_def ex_store_def ex_cell_def ex_env_def ex_produce_def)

lemma ex_create_ligand:
  "tryCreateComponent ex_env ex_store 4
      \<lparr>ctype = Type_expression ''ligand'', nullIfEmpty = True, label = ''Ligand''\<rparr> ''lig'' None =
     (\<lparr>cells = cells ex_store @ [(5, ex_ligand_cell)], nextRef = 6\<rparr>,
      Inr (Some \<lparr>ref = 5, isOk = True, sel_cell = Some ex_ligand_cell\<rparr>))"
  by (simp add: tryCreateComponent_insert [OF wf_ex_store ex_store_no_component] ex_produced_any
      Let_def pruned_def inserted_def finish_def ex_ligand_cell_def component_tags_def)
    (simp add: ex_store_def ex_cell_def)

lemma ex_selection_blank:
  "tryCreateComponentFromSelection ex_env ex_store 4 (ex_query False) ''lig'' ex_blank_label =
     (\<lparr>cells = cells ex_store @ [(5, ex_ligand_cell)], nextRef = 6\<rparr>,
      Inr (Some \<lparr>ref = 5, isOk = True, sel_cell = Some ex_ligand_cell\<rparr>))"
  by (simp add: tryCreateComponentFromSelection_eq ex_resolved_structure transformParams_def
      selection_label_def option_label_def caller_label_def option_tags_def ex_blank_label_def ex_trim
      ex_query_def Query_Component_ctx_def ex_create_ligand)

lemma ex_create_any:
  "label p \<noteq> ''fail'' \<Longrightarrow> label p \<noteq> ''empty'' \<Longrightarrow>
   \<exists>st' c. tryCreateComponent ex_env ex_store 4 p key tgs =
     (st', Inr (Some \<lparr>ref = 5, isOk = True, sel_cell = Some c\<rparr>))"
  by (simp add: tryCreateComponent_insert [OF wf_ex_store ex_store_no_component] ex_produced_any
      Let_def pruned_def)
    (simp add: ex_store_def ex_cell_def)

lemma ex_selection_current:
  "\<exists>sel. snd (tryCreateComponentFromSelection ex_env ex_store 4 (ex_query True) ''lig'' None) = Inr (Some sel)"
proof -
  let ?tp = "\<lparr>ctype = Type_bundle (Bundle_fromSelection [1, 2, 3]), nullIfEmpty = True, label = ''Ligand''\<rparr>"
  have "tryCreateComponentFromSelection ex_env ex_store 4 (ex_query True) ''lig'' None =
      tryCreateComponent ex_env ex_store 4 ?tp ''lig'' None"
    by (simp add: tryCreateComponentFromSelection_eq ex_resolved_structure transformParams_def
      selection_label_def option_label_def caller_label_def option_tags_def trim_def
      ex_query_def Query_Component_ctx_def)
  moreover from ex_create_any [of ?tp "''lig''" None]
  obtain st' c where "tryCreateComponent ex_env ex_store 4 ?tp ''lig'' None =
     (st', Inr (Some \<lparr>ref = 5, isOk = True, sel_cell = Some c\<rparr>))" by auto
  ultimately show ?thesis by simp
qed

text \<open>An in-place update replaces the parameters and leaves the tags of the node as they
  were: the tag \<open>extra\<close> of the updating call is not on the node.\<close>

lemma ex_update_keeps_tags:
  "tryCreateComponent ex_env ex_water_store 4 (ex_params ''Second'') ''water'' (Some [''extra'']) =
     (\<lparr>cells = cells ex_store @ [(5, ex_component ''water'' ''Second'' 7)], nextRef = 6\<rparr>,
      Inr (Some \<lparr>ref = 5, isOk = True, sel_cell = Some (ex_component ''water'' ''Second'' 7)\<rparr>))"
  by (simp add: tryCreateComponent_update [OF wf_ex_water_store ex_water_store_component]
      ex_component_fields ex_water_produced Let_def pruned_def ex_set_cell ex_updated
      ex_water_nextRef)

lemma transformParams_agree:
  fixes q q' :: StructureSelectionQuery
  assumes "q_label q' = q_label q" "expression q' = expression q"
    "referencesCurrent q' = referencesCurrent q" "getSelection q' ctx = getSelection q ctx"
  shows "transformParams q' ctx sd opts = transformParams q ctx sd opts"
  using assms by (simp add: transformParams_def selection_label_def split: sum.splits)

lemma ensure_agree:
  fixes q q' :: StructureSelectionQuery
  assumes "map_option (\<lambda>f. f ctx) (ensureCustomProperties q') =
           map_option (\<lambda>f. f ctx) (ensureCustomProperties q)"
  shows "(case ensureCustomProperties q' of None \<Rightarrow> None | Some ensure \<Rightarrow> ensure ctx sd) =
         (case ensureCustomProperties q of None \<Rightarrow> None | Some ensure \<Rightarrow> ensure ctx sd)"
  using assms by (auto split: option.splits dest: fun_cong)

section \<open>The subtree test follows every chain of parents to its end\<close>

lemma in_subtree_mono: "in_subtree n cs d r \<Longrightarrow> n \<le> m \<Longrightarrow> in_subtree m cs d r"
proof (induction n arbitrary: m r)
  case 0
  then show ?case by simp
next
  case (Suc n)
  then obtain m' where m: "m = Suc m'" and le: "n \<le> m'" by (cases m) auto
  show ?case
  proof (cases "r = d")
    case True
    then show ?thesis by simp
  next
    case False
    with Suc.prems(1) obtain c p where c: "map_of cs r = Some c" "parent c = Some p"
      and sub: "in_subtree n cs d p"
      by (auto split: option.splits)
    from Suc.IH [OF sub le] c show ?thesis by (simp add: m)
  qed
qed

lemma in_subtree_bound:
  assumes wf: "wf_cells n cs"
  shows "in_subtree k cs d r \<Longrightarrow> in_subtree (card (keys_between cs d r)) cs d r"
proof (induction k arbitrary: r)
  case 0
  then show ?case by simp
next
  case (Suc k)
  show ?case
  proof (cases "r = d")
    case True
    then show ?thesis by simp
  next
    case False
    with Suc.prems obtain c p where c: "map_of cs r = Some c" "parent c = Some p"
      and sub: "in_subtree k cs d p"
      by (auto split: option.splits)
    from wf c have pr: "p < r" by (auto dest: wf_cells_lookup)
    from sub have dp: "d \<le> p" by (rule in_subtree_ge [OF wf_cells_parent [OF wf]])
    from c(1) have rk: "r \<in> fst ` set cs" by (force dest: map_of_SomeD)
    have fin: "finite (keys_between cs d r)" by (simp add: keys_between_def)
    have sub_set: "insert r (keys_between cs d p) \<subseteq> keys_between cs d r"
      using pr dp rk by (auto simp: keys_between_def)
    have notin: "r \<notin> keys_between cs d p" using pr by (auto simp: keys_between_def)
    have "finite (keys_between cs d p)" by (simp add: keys_between_def)
    then have "card (insert r (keys_between cs d p)) = Suc (card (keys_between cs d p))"
      using notin by simp
    with card_mono [OF fin sub_set]
    have le: "Suc (card (keys_between cs d p)) \<le> card (keys_between cs d r)" by simp
    from Suc.IH [OF sub] c
    have "in_subtree (Suc (card (keys_between cs d p))) cs d r" by simp
    then show ?thesis using le by (rule in_subtree_mono)
  qed
qed

lemma in_subtree_fuel:
  assumes wf: "wf_cells n cs" and sub: "in_subtree k cs d r"
  shows "in_subtree (length cs) cs d r"
proof -
  have "keys_between cs d r \<subseteq> fst ` set cs" by (auto simp: keys_between_def)
  then have "card (keys_between cs d r) \<le> card (fst ` set cs)" by (simp add: card_mono)
  also have "\<dots> \<le> card (set cs)" by (simp add: card_image_le)
  also have "\<dots> \<le> length cs" by (rule card_length)
  finally have "card (keys_between cs d r) \<le> length cs" .
  with in_subtree_bound [OF wf sub] show ?thesis by (rule in_subtree_mono)
qed

section \<open>The required steps on a well-formed store\<close>

text \<open>Each required step stages its nodes on fresh references and commits with full revert:
  its result is determined by the outcome of the production.\<close>

lemma produced_Inr_lookup: "produced P cs a tr ps = Inr v \<Longrightarrow> map_of cs a \<noteq> None"
  by (auto simp: produced_def parent_payload_def split: option.splits)

lemma wf_store_fresh: "wf_store st \<Longrightarrow> nextRef st \<le> r \<Longrightarrow> map_of (cells st) r = None"
  by (simp add: wf_store_def wf_cells_fresh)

lemma staged_insert:
  assumes wf: "wf_store st"
  shows "(case updateDataState env st (apply' (to (build st) a) tr ps opts) (Some \<lparr>revertOnError = True\<rparr>) of
            (st', _) \<Rightarrow> (st', selector_of (apply' (to (build st) a) tr ps opts) st')) =
         (case produced (produce env) (cells st) a tr ps of
            Inl m \<Rightarrow>
              (st\<lparr>nextRef := Suc (nextRef st)\<rparr>, \<lparr>ref = nextRef st, isOk = False, sel_cell = None\<rparr>)
          | Inr v \<Rightarrow>
              (let c = \<lparr>transformer = tr, params = ps, tags = opt_tags opts, parent = Some a,
                        status = Ok, obj = Some v, state = opt_state opts\<rparr>
               in (\<lparr>cells = cells st @ [(nextRef st, c)], nextRef = Suc (nextRef st)\<rparr>,
                   \<lparr>ref = nextRef st, isOk = True, sel_cell = Some c\<rparr>)))"
proof -
  have fresh: "map_of (cells st) (nextRef st) = None" using wf by (simp add: wf_store_fresh)
  show ?thesis
  proof (cases "produced (produce env) (cells st) a tr ps")
    case (Inl m)
    then show ?thesis
      using fresh
      by (simp add: insert_commit selector_of_def current_single_insert split: option.splits)
  next
    case (Inr v)
    then have "map_of (cells st) a \<noteq> None" by (rule produced_Inr_lookup)
    then show ?thesis
      using Inr fresh
      by (auto simp: insert_commit selector_of_def current_single_insert inserted_def finish_def
          map_add_def Let_def)
  qed
qed

lemma staged_insert_cells:
  "cells (fst (updateDataState env st (apply' (to (build st) a) tr ps opts) (Some \<lparr>revertOnError = True\<rparr>))) = cells st \<or>
   (\<exists>c. cells (fst (updateDataState env st (apply' (to (build st) a) tr ps opts) (Some \<lparr>revertOnError = True\<rparr>))) =
          cells st @ [(nextRef st, c)] \<and>
        transformer c = tr \<and> params c = ps \<and> parent c = Some a \<and> status c = Ok)"
  by (auto simp: insert_commit inserted_def finish_def split: option.splits sum.splits)

lemma createModel_run:
  assumes wf: "wf_store st"
  shows "createModel env st a ps ts =
     (case produced (produce env) (cells st) a ModelFromTrajectory
             (ModelFromTrajectory_Params (case ps of None \<Rightarrow> \<lparr>modelIndex = 0\<rparr> | Some p \<Rightarrow> p)) of
        Inl m \<Rightarrow>
          (st\<lparr>nextRef := Suc (nextRef st)\<rparr>, Inr \<lparr>ref = nextRef st, isOk = False, sel_cell = None\<rparr>)
      | Inr v \<Rightarrow>
          (let c = \<lparr>transformer = ModelFromTrajectory,
                    params = ModelFromTrajectory_Params (case ps of None \<Rightarrow> \<lparr>modelIndex = 0\<rparr> | Some p \<Rightarrow> p),
                    tags = [], parent = Some a, status = Ok, obj = Some v,
                    state = (case ts of None \<Rightarrow> [] | Some t \<Rightarrow> t)\<rparr>
           in (\<lparr>cells = cells st @ [(nextRef st, c)], nextRef = Suc (nextRef st)\<rparr>,
               Inr \<lparr>ref = nextRef st, isOk = True, sel_cell = Some c\<rparr>)))"
  using staged_insert [OF wf, where env = env and a = a and tr = ModelFromTrajectory
      and ps = "ModelFromTrajectory_Params (case ps of None \<Rightarrow> \<lparr>modelIndex = 0\<rparr> | Some p \<Rightarrow> p)"
      and opts = "initial_options ts"]
  by (simp add: createModel_def Let_def initial_options_def split: prod.splits sum.splits)

lemma insertModelProperties_run:
  assumes wf: "wf_store st"
  shows "insertModelProperties env st a ps =
     (case produced (produce env) (cells st) a CustomModelProperties (custom_params ps) of
        Inl m \<Rightarrow>
          (st\<lparr>nextRef := Suc (nextRef st)\<rparr>, Inr \<lparr>ref = nextRef st, isOk = False, sel_cell = None\<rparr>)
      | Inr v \<Rightarrow>
          (let c = \<lparr>transformer = CustomModelProperties, params = custom_params ps,
                    tags = [], parent = Some a, status = Ok, obj = Some v, state = []\<rparr>
           in (\<lparr>cells = cells st @ [(nextRef st, c)], nextRef = Suc (nextRef st)\<rparr>,
               Inr \<lparr>ref = nextRef st, isOk = True, sel_cell = Some c\<rparr>)))"
  using staged_insert [OF wf, where env = env and a = a and tr = CustomModelProperties
      and ps = "custom_params ps" and opts = no_options]
  by (simp add: insertModelProperties_def Let_def no_options_def split: prod.splits sum.splits)

lemma insertStructureProperties_run:
  assumes wf: "wf_store st"
  shows "insertStructureProperties env st a ps =
     (case produced (produce env) (cells st) a CustomStructureProperties (custom_params ps) of
        Inl m \<Rightarrow>
          (st\<lparr>nextRef := Suc (nextRef st)\<rparr>, Inr \<lparr>ref = nextRef st, isOk = False, sel_cell = None\<rparr>)
      | Inr v \<Rightarrow>
          (let c = \<lparr>transformer = CustomStructureProperties, params = custom_params ps,
                    tags = [], parent = Some a, status = Ok, obj = Some v, state = []\<rparr>
           in (\<lparr>cells = cells st @ [(nextRef st, c)], nextRef = Suc (nextRef st)\<rparr>,
               Inr \<lparr>ref = nextRef st, isOk = True, sel_cell = Some c\<rparr>)))"
  using staged_insert [OF wf, where env = env and a = a and tr = CustomStructureProperties
      and ps = "custom_params ps" and opts = no_options]
  by (simp add: insertStructureProperties_def Let_def no_options_def split: prod.splits sum.splits)

lemma createStructure_run:
  assumes wf: "wf_store st"
  shows "createStructure env st a (Some p) ts =
     (case produced (produce env) (cells st) a StructureFromModel (StructureFromModel_Params p) of
        Inl m \<Rightarrow>
          (st\<lparr>nextRef := Suc (nextRef st)\<rparr>, Inr \<lparr>ref = nextRef st, isOk = False, sel_cell = None\<rparr>)
      | Inr v \<Rightarrow>
          (let c = \<lparr>transformer = StructureFromModel, params = StructureFromModel_Params p,
                    tags = [], parent = Some a, status = Ok, obj = Some v,
                    state = (case ts of None \<Rightarrow> [] | Some t \<Rightarrow> t)\<rparr>
           in (\<lparr>cells = cells st @ [(nextRef st, c)], nextRef = Suc (nextRef st)\<rparr>,
               Inr \<lparr>ref = nextRef st, isOk = True, sel_cell = Some c\<rparr>)))"
  using staged_insert [OF wf, where env = env and a = a and tr = StructureFromModel
      and ps = "StructureFromModel_Params p" and opts = "initial_options ts"]
  by (simp add: createStructure_def Let_def initial_options_def split: prod.splits sum.splits)

lemma createStructure_default:
  "createStructure env st a None ts =
     createStructure env st a
       (Some (if no_assembly env st a
              then \<lparr>rsd_name = ''deposited'', rsd_params = []\<rparr>
              else \<lparr>rsd_name = ''assembly'', rsd_params = []\<rparr>)) ts"
  by (simp add: createStructure_def default_structure_params_eq)

lemma createModel_default:
  "createModel env st a None ts = createModel env st a (Some \<lparr>modelIndex = 0\<rparr>) ts"
  by (simp add: createModel_def)

lemma createStructure_run_any:
  assumes wf: "wf_store st"
  shows "createStructure env st a sp ts =
     (case produced (produce env) (cells st) a StructureFromModel
             (StructureFromModel_Params
                (case sp of
                   Some p \<Rightarrow> p
                 | None \<Rightarrow> if no_assembly env st a
                           then \<lparr>rsd_name = ''deposited'', rsd_params = []\<rparr>
                           else \<lparr>rsd_name = ''assembly'', rsd_params = []\<rparr>)) of
        Inl m \<Rightarrow>
          (st\<lparr>nextRef := Suc (nextRef st)\<rparr>, Inr \<lparr>ref = nextRef st, isOk = False, sel_cell = None\<rparr>)
      | Inr v \<Rightarrow>
          (let c = \<lparr>transformer = StructureFromModel,
                    params = StructureFromModel_Params
                      (case sp of
                         Some p \<Rightarrow> p
                       | None \<Rightarrow> if no_assembly env st a
                                 then \<lparr>rsd_name = ''deposited'', rsd_params = []\<rparr>
                                 else \<lparr>rsd_name = ''assembly'', rsd_params = []\<rparr>),
                    tags = [], parent = Some a, status = Ok, obj = Some v,
                    state = (case ts of None \<Rightarrow> [] | Some t \<Rightarrow> t)\<rparr>
           in (\<lparr>cells = cells st @ [(nextRef st, c)], nextRef = Suc (nextRef st)\<rparr>,
               Inr \<lparr>ref = nextRef st, isOk = True, sel_cell = Some c\<rparr>)))"
proof (cases sp)
  case None
  then show ?thesis
    by (simp only: createStructure_default createStructure_run [OF wf] option.case)
next
  case (Some p)
  then show ?thesis by (simp only: createStructure_run [OF wf] option.case)
qed

lemma tryCreateUnitcell_run:
  assumes wf: "wf_store st" and rd: "resolved_data st a = Some d"
    and nz: "\<not> SpacegroupCell_isZero env (map_option spacegroup_cell (ModelSymmetry_get env d))"
  shows "tryCreateUnitcell env st a ps ts =
     (case produced (produce env) (cells st) a ModelUnitcell3D (custom_params ps) of
        Inl m \<Rightarrow>
          (st\<lparr>nextRef := Suc (nextRef st)\<rparr>,
           Inr (Some \<lparr>ref = nextRef st, isOk = False, sel_cell = None\<rparr>))
      | Inr v \<Rightarrow>
          (let c = \<lparr>transformer = ModelUnitcell3D, params = custom_params ps,
                    tags = [], parent = Some a, status = Ok, obj = Some v,
                    state = (case ts of None \<Rightarrow> [] | Some t \<Rightarrow> t)\<rparr>
           in (\<lparr>cells = cells st @ [(nextRef st, c)], nextRef = Suc (nextRef st)\<rparr>,
               Inr (Some \<lparr>ref = nextRef st, isOk = True, sel_cell = Some c\<rparr>))))"
  using staged_insert [OF wf, where env = env and a = a and tr = ModelUnitcell3D
      and ps = "custom_params ps" and opts = "initial_options ts"] rd nz
  by (simp add: tryCreateUnitcell_def Let_def initial_options_def split: prod.splits sum.splits)

lemma tryCreateUnitcell_selector:
  "resolved_data st a = Some d \<Longrightarrow>
   \<not> SpacegroupCell_isZero env (map_option spacegroup_cell (ModelSymmetry_get env d)) \<Longrightarrow>
   \<exists>sel. snd (tryCreateUnitcell env st a ps ts) = Inr (Some sel) \<and> ref sel = nextRef st"
  by (simp add: tryCreateUnitcell_def Let_def selector_of_def current_single_insert split: prod.splits)

lemma parseTrajectoryBlob_selector:
  "\<exists>sel. snd (parseTrajectoryBlob env st data ps) = Inr sel \<and> ref sel = Suc (nextRef st)"
  by (simp add: parseTrajectoryBlob_def Let_def selector_of_def blob_builder split: prod.splits)

lemma parseTrajectoryBlob_run:
  assumes wf: "wf_store st"
  shows "parseTrajectoryBlob env st data ps =
     (case (case produced (produce env) (cells st) data ParseBlob (ParseBlob_Params ps) of
              Inl m \<Rightarrow> None
            | Inr v \<Rightarrow> (case produce env TrajectoryFromBlob v Undefined of
                           Inl m \<Rightarrow> None | Inr t \<Rightarrow> Some (v, t))) of
        None \<Rightarrow>
          (st\<lparr>nextRef := Suc (Suc (nextRef st))\<rparr>,
           Inr \<lparr>ref = Suc (nextRef st), isOk = False, sel_cell = None\<rparr>)
      | Some (v, t) \<Rightarrow>
          (let c1 = \<lparr>transformer = ParseBlob, params = ParseBlob_Params ps, tags = [],
                     parent = Some data, status = Ok, obj = Some v, state = [(''isGhost'', True)]\<rparr>;
               c2 = \<lparr>transformer = TrajectoryFromBlob, params = Undefined, tags = [],
                     parent = Some (nextRef st), status = Ok, obj = Some t, state = []\<rparr>
           in (\<lparr>cells = cells st @ [(nextRef st, c1), (Suc (nextRef st), c2)],
                nextRef = Suc (Suc (nextRef st))\<rparr>,
               Inr \<lparr>ref = Suc (nextRef st), isOk = True, sel_cell = Some c2\<rparr>)))"
proof -
  have f1: "map_of (cells st) (nextRef st) = None" and f2: "map_of (cells st) (Suc (nextRef st)) = None"
    using wf by (simp_all add: wf_store_fresh)
  show ?thesis
  proof (cases "produced (produce env) (cells st) data ParseBlob (ParseBlob_Params ps)")
    case (Inl m)
    then show ?thesis
      using f1 f2
      by (auto simp: parseTrajectoryBlob_def updateDataState_def commit_def blob_builder Let_def
          outcome_def selector_of_def split: option.splits sum.splits list.splits prod.splits)
  next
    case (Inr v)
    then have lk: "map_of (cells st) data \<noteq> None" by (rule produced_Inr_lookup)
    show ?thesis
    proof (cases "produce env TrajectoryFromBlob v Undefined")
      case (Inl m)
      then show ?thesis
        using Inr lk f1 f2
        by (auto simp: parseTrajectoryBlob_def updateDataState_def commit_def blob_builder Let_def
            outcome_def selector_of_def produced_def parent_payload_def finish_def map_add_def
            split: option.splits sum.splits list.splits prod.splits)
    next
      case (Inr t)
      then show ?thesis
        using \<open>produced (produce env) (cells st) data ParseBlob (ParseBlob_Params ps) = Inr v\<close> lk f1 f2
        by (auto simp: parseTrajectoryBlob_def updateDataState_def commit_def blob_builder Let_def
            outcome_def selector_of_def produced_def parent_payload_def finish_def map_add_def
            no_options_def
            split: option.splits sum.splits list.splits prod.splits if_splits)
    qed
  qed
qed

lemma parseTrajectoryBlob_returned:
  assumes wf: "wf_store st" and run: "parseTrajectoryBlob env st data ps = (st', Inr sel)"
  shows "if isOk sel
         then (\<exists>c1 c2. cells st' = cells st @ [(nextRef st, c1), (ref sel, c2)] \<and>
                 ref sel = Suc (nextRef st) \<and> sel_cell sel = Some c2 \<and>
                 transformer c1 = ParseBlob \<and> params c1 = ParseBlob_Params ps \<and>
                 parent c1 = Some data \<and> isGhost c1 \<and> status c1 = Ok \<and>
                 transformer c2 = TrajectoryFromBlob \<and> parent c2 = Some (nextRef st) \<and>
                 status c2 = Ok)
         else cells st' = cells st \<and> sel_cell sel = None"
  using run
  by (auto simp: parseTrajectoryBlob_run [OF wf] Let_def isGhost_def split: option.splits sum.splits)

lemma staged_insert_error:
  "map_of (cells st) a \<noteq> None \<Longrightarrow> produced (produce env) (cells st) a tr ps = Inl m \<Longrightarrow>
   updateDataState env st (apply' (to (build st) a) tr ps opts) (Some \<lparr>revertOnError = True\<rparr>) =
     (st\<lparr>nextRef := Suc (nextRef st)\<rparr>, Some (CommitError (ProductionFailure m)))"
  by (auto simp: insert_commit)

lemma staged_chain_error:
  assumes wf: "wf_store st" and lk: "map_of (cells st) a \<noteq> None"
  shows "produced (produce env) (cells st) a tr1 ps1 = Inl m \<Longrightarrow>
         updateDataState env st (apply' (apply' (to (build st) a) tr1 ps1 o1) tr2 ps2 o2)
             (Some \<lparr>revertOnError = True\<rparr>) =
           (st\<lparr>nextRef := Suc (Suc (nextRef st))\<rparr>, Some (CommitError (ProductionFailure m)))"
    and "produced (produce env) (cells st) a tr1 ps1 = Inr v \<Longrightarrow> produce env tr2 v ps2 = Inl m \<Longrightarrow>
         updateDataState env st (apply' (apply' (to (build st) a) tr1 ps1 o1) tr2 ps2 o2)
             (Some \<lparr>revertOnError = True\<rparr>) =
           (st\<lparr>nextRef := Suc (Suc (nextRef st))\<rparr>, Some (CommitError (ProductionFailure m)))"
proof -
  have f1: "map_of (cells st) (nextRef st) = None"
    using wf by (simp add: wf_store_fresh)
  have b: "apply' (apply' (to (build st) a) tr1 ps1 o1) tr2 ps2 o2 =
     \<lparr>tree = cells st, current = Suc (nextRef st),
      actions = [Insert (nextRef st) a tr1 ps1 (opt_tags o1) (opt_state o1),
                 Insert (Suc (nextRef st)) (nextRef st) tr2 ps2 (opt_tags o2) (opt_state o2)],
      fresh = Suc (Suc (nextRef st))\<rparr>"
    by (simp add: apply'_def to_def build_def)
  {
    assume "produced (produce env) (cells st) a tr1 ps1 = Inl m"
    then show "updateDataState env st (apply' (apply' (to (build st) a) tr1 ps1 o1) tr2 ps2 o2)
             (Some \<lparr>revertOnError = True\<rparr>) =
           (st\<lparr>nextRef := Suc (Suc (nextRef st))\<rparr>, Some (CommitError (ProductionFailure m)))"
      using lk f1
      by (auto simp: updateDataState_def commit_def b Let_def outcome_def
          split: option.splits sum.splits list.splits prod.splits)
  next
    assume "produced (produce env) (cells st) a tr1 ps1 = Inr v" "produce env tr2 v ps2 = Inl m"
    then show "updateDataState env st (apply' (apply' (to (build st) a) tr1 ps1 o1) tr2 ps2 o2)
             (Some \<lparr>revertOnError = True\<rparr>) =
           (st\<lparr>nextRef := Suc (Suc (nextRef st))\<rparr>, Some (CommitError (ProductionFailure m)))"
      using lk f1
      by (auto simp: updateDataState_def commit_def b Let_def outcome_def produced_def
          parent_payload_def finish_def map_add_def
          split: option.splits sum.splits list.splits prod.splits if_splits)
  }
qed

section \<open>Runs of the required steps on the example stores\<close>

lemma ex_nextRef: "nextRef ex_store = 5" "nextRef ex_blob_store = 2" "nextRef ex_nmr_store = 3"
  by (simp_all add: ex_store_def ex_blob_store_def ex_nmr_store_def)

lemma wf_ex_nmr_store: "wf_store ex_nmr_store"
  by (simp add: wf_store_def wf_cells_def ex_nmr_store_def ex_cell_def)

lemma ex_all_fail_produced:
  "tr \<in> set [ParseBlob, ModelFromTrajectory, CustomModelProperties,
     StructureFromModel, CustomStructureProperties, ModelUnitcell3D] \<Longrightarrow> a \<in> {1, 2, 3, 4} \<Longrightarrow>
   produced (produce ex_all_fail) (cells ex_store) a tr ps = Inl ''failed''"
  unfolding ex_all_fail_def by (rule ex_failing_produced)

lemma ex_blob_produced:
  "produced (produce ex_env) (cells ex_blob_store) 1 ParseBlob (ParseBlob_Params (BlobParams ''zip'')) =
     Inr (SO_Data_Blob [''a'', ''b''])"
  "produce ex_env TrajectoryFromBlob (SO_Data_Blob [''a'', ''b'']) Undefined =
     Inr (SO_Molecule_Trajectory ''ab'')"
  by (simp_all add: produced_def parent_payload_def ex_blob_store_def ex_cell_def ex_env_def
      ex_produce_def)

lemma ex_model_produced:
  "produced (produce ex_env) (cells ex_store) 2 ModelFromTrajectory
     (ModelFromTrajectory_Params \<lparr>modelIndex = 0\<rparr>) = Inr (SO_Molecule_Model ''1abc'')"
  by (simp add: produced_def parent_payload_def ex_store_def ex_cell_def ex_env_def ex_produce_def)

lemma ex_structure_produced:
  "produced (produce ex_env) (cells ex_store) 3 StructureFromModel (StructureFromModel_Params p) =
     Inr (SO_Molecule_Structure 100)"
  "produced (produce ex_env) (cells ex_nmr_store) 1 StructureFromModel (StructureFromModel_Params p) =
     Inr (SO_Molecule_Structure 100)"
  "produced (produce ex_env) (cells ex_nmr_store) 2 StructureFromModel (StructureFromModel_Params p) =
     Inr (SO_Molecule_Structure 100)"
  by (simp_all add: produced_def parent_payload_def ex_store_def ex_nmr_store_def ex_cell_def
      ex_env_def ex_produce_def)

lemma ex_unitcell_produced:
  "produced (produce ex_env) (cells ex_store) 3 ModelUnitcell3D (custom_params None) =
     Inr (SO_Shape_Representation3D ''unitcell'')"
  by (simp add: produced_def parent_payload_def ex_store_def ex_cell_def ex_env_def ex_produce_def
      custom_params_def)

lemma ex_unitcell_guard_ok:
  "resolved_data ex_store 3 = Some (SO_Molecule_Model ''1abc'')"
  "\<not> SpacegroupCell_isZero ex_env
       (map_option spacegroup_cell (ModelSymmetry_get ex_env (SO_Molecule_Model ''1abc'')))"
  by (simp_all add: resolved_data_def resolveAndCheck_def ex_store_def ex_cell_def
      ex_env_def ex_symmetry_def ex_isZero_def)

lemma ex_blob_second_stage:
  "produced (produce (ex_failing_env [TrajectoryFromBlob])) (cells ex_blob_store) 1 ParseBlob
     (ParseBlob_Params (BlobParams ''zip'')) = Inr (SO_Data_Blob [''a'', ''b''])"
  "produce (ex_failing_env [TrajectoryFromBlob]) TrajectoryFromBlob (SO_Data_Blob [''a'', ''b'']) Undefined =
     Inl ''failed''"
  by (simp_all add: produced_def parent_payload_def ex_blob_store_def ex_cell_def ex_failing_env_def
      ex_produce_def)

lemma ex_blob_fails:
  "parseTrajectoryBlob (ex_failing_env [TrajectoryFromBlob]) ex_blob_store 1 (BlobParams ''zip'') =
     (ex_blob_store\<lparr>nextRef := 4\<rparr>, Inr \<lparr>ref = 3, isOk = False, sel_cell = None\<rparr>)"
  using ex_blob_second_stage
  by (simp add: parseTrajectoryBlob_run [OF wf_ex_blob_store] ex_nextRef)

section \<open>Labels, and the nodes of the component wrappers\<close>

lemma trim_split:
  "\<exists>pre post. s = pre @ trim s @ post \<and> list_all is_space pre \<and> list_all is_space post"
proof -
  let ?d = "dropWhile is_space s"
  let ?r = "rev ?d"
  have "?r = takeWhile is_space ?r @ dropWhile is_space ?r" by simp
  then have "rev ?r = rev (dropWhile is_space ?r) @ rev (takeWhile is_space ?r)"
    by (metis rev_append)
  then have d: "?d = trim s @ rev (takeWhile is_space ?r)" by (simp add: trim_def)
  have "s = takeWhile is_space s @ ?d" by simp
  with d have "s = takeWhile is_space s @ trim s @ rev (takeWhile is_space ?r)" by simp
  moreover have "list_all is_space (takeWhile is_space s)"
    by (auto simp: list_all_iff dest: set_takeWhileD)
  moreover have "list_all is_space (rev (takeWhile is_space ?r))"
    by (auto simp: list_all_iff dest: set_takeWhileD)
  ultimately show ?thesis by blast
qed

lemma trim_ends:
  "trim s = [] \<or> (\<not> is_space (hd (trim s)) \<and> \<not> is_space (last (trim s)))"
proof (cases "trim s = []")
  case True
  then show ?thesis by simp
next
  case False
  let ?d = "dropWhile is_space s"
  let ?r = "rev ?d"
  let ?m = "dropWhile is_space ?r"
  from False have m: "?m \<noteq> []" by (simp add: trim_def)
  have r: "?r \<noteq> []"
  proof
    assume a: "?r = []"
    have "?m = []" unfolding a by simp
    with m show False by simp
  qed
  then have dne: "?d \<noteq> []" by simp
  have "last (trim s) = hd ?m" using m by (simp add: trim_def last_rev)
  moreover have "\<not> is_space (hd ?m)" using m by (rule hd_dropWhile)
  moreover have "hd (trim s) = last ?m" using m by (simp add: trim_def hd_rev)
  moreover have "last ?m = last ?r"
  proof -
    have "?r = takeWhile is_space ?r @ ?m" by simp
    then have "last ?r = last (takeWhile is_space ?r @ ?m)" by simp
    also have "\<dots> = last ?m" using m by (simp only: last_append if_False)
    finally show ?thesis by simp
  qed
  moreover have "last ?r = hd ?d" using dne by (simp add: last_rev)
  moreover have "\<not> is_space (hd ?d)" using dne by (rule hd_dropWhile)
  ultimately show ?thesis by simp
qed

lemma option_label_trim: "option_label opts = trim (caller_label opts)"
  by (simp add: option_label_def caller_label_def)

lemma wrapper_nodes:
  assumes wf: "wf_store st"
  shows "tryCreateComponentFromExpression env st s e key opts = (st', Inr (Some sel)) \<Longrightarrow>
         \<exists>c. map_of (cells st') (ref sel) = Some c \<and>
             params c = StructureComponent_Params
               \<lparr>ctype = Type_expression e, nullIfEmpty = True, label = option_label opts\<rparr>"
    and "tryCreateComponentStatic env st s t key opts = (st', Inr (Some sel)) \<Longrightarrow>
         \<exists>c. map_of (cells st') (ref sel) = Some c \<and>
             params c = StructureComponent_Params
               \<lparr>ctype = Type_static t, nullIfEmpty = True, label = option_label opts\<rparr>"
    and "tryCreateComponentFromSelection env st s q key opts = (st', Inr (Some sel)) \<Longrightarrow>
         \<exists>c tp. map_of (cells st') (ref sel) = Some c \<and> params c = StructureComponent_Params tp \<and>
             nullIfEmpty tp \<and>
             label tp = (if option_label opts = [] then q_label q else option_label opts)"
proof -
  assume "tryCreateComponentFromExpression env st s e key opts = (st', Inr (Some sel))"
  then have "tryCreateComponent env st s (expression_params e opts) key (option_tags opts) = (st', Inr (Some sel))"
    by (simp add: tryCreateComponentFromExpression_def)
  from tryCreateComponent_node [OF wf this]
  show "\<exists>c. map_of (cells st') (ref sel) = Some c \<and>
             params c = StructureComponent_Params
               \<lparr>ctype = Type_expression e, nullIfEmpty = True, label = option_label opts\<rparr>"
    by (auto simp: expression_params_def)
next
  assume "tryCreateComponentStatic env st s t key opts = (st', Inr (Some sel))"
  then have "tryCreateComponent env st s (static_params t opts) key (option_tags opts) = (st', Inr (Some sel))"
    by (simp add: tryCreateComponentStatic_def)
  from tryCreateComponent_node [OF wf this]
  show "\<exists>c. map_of (cells st') (ref sel) = Some c \<and>
             params c = StructureComponent_Params
               \<lparr>ctype = Type_static t, nullIfEmpty = True, label = option_label opts\<rparr>"
    by (auto simp: static_params_def)
next
  assume r: "tryCreateComponentFromSelection env st s q key opts = (st', Inr (Some sel))"
  then obtain sd tp where tp: "transformParams q Query_Component_ctx sd opts = Inr tp"
    and eq: "tryCreateComponent env st s tp key (option_tags opts) = (st', Inr (Some sel))"
    by (auto simp: tryCreateComponentFromSelection_eq split: option.splits sum.splits)
  from tryCreateComponent_node [OF wf eq] transformParams_fields [OF tp]
  show "\<exists>c tp. map_of (cells st') (ref sel) = Some c \<and> params c = StructureComponent_Params tp \<and>
             nullIfEmpty tp \<and>
             label tp = (if option_label opts = [] then q_label q else option_label opts)"
    by (auto simp: selection_label_def)
qed

lemma ex_padded_trim: "option_label ex_padded_label = ''Chain A''"
  by (simp add: option_label_def caller_label_def ex_padded_label_def trim_def is_space_def)

lemma wf_ex_foreign_store: "wf_store ex_foreign_store"
  by (simp add: wf_store_def wf_cells_def ex_foreign_store_def ex_store_def ex_cell_def ex_foreign_cell_def)

lemma ex_foreign_component:
  "find (carries 4 (keyTag ''water'')) (cells ex_foreign_store) = Some (5, ex_foreign_cell ''Water'')"
  by (simp add: ex_foreign_store_def ex_store_def ex_cell_def carries_def ex_foreign_cell_def)

lemma ex_foreign_produced:
  "produced (produce ex_env) (cells ex_foreign_store) 4 StructureComponent (StructureComponent_Params (ex_params l)) =
     (if l = ''fail'' then Inl ''component failed''
      else if l = ''empty'' then Inr (SO_Molecule_Structure 0)
      else Inr (SO_Molecule_Structure 7))"
  by (simp add: produced_def parent_payload_def ex_foreign_store_def ex_store_def ex_cell_def
      ex_env_def ex_produce_def ex_params_def)

lemma ex_foreign_set_cell:
  "set_cell 5 c (cells ex_foreign_store) = cells ex_store @ [(5, c)]"
  by (simp add: set_cell_def ex_foreign_store_def ex_store_def)

lemma ex_update_foreign:
  "tryCreateComponent ex_env ex_foreign_store 4 (ex_params ''Second'') ''water'' None =
     (\<lparr>cells = cells ex_store @ [(5, ex_foreign_cell ''Second'')], nextRef = 6\<rparr>,
      Inr (Some \<lparr>ref = 5, isOk = True, sel_cell = Some (ex_foreign_cell ''Second'')\<rparr>))"
proof -
  have t: "transformer (ex_foreign_cell ''Water'') = StructureComponent"
    by (simp add: ex_foreign_cell_def)
  have u: "updated (ex_foreign_cell ''Water'') (StructureComponent_Params (ex_params ''Second''))
      (Inr (SO_Molecule_Structure 7)) = ex_foreign_cell ''Second''"
    by (simp add: updated_def finish_def ex_foreign_cell_def)
  have n: "nextRef ex_foreign_store = 6" by (simp add: ex_foreign_store_def)
  show ?thesis
    by (simp add: tryCreateComponent_update [OF wf_ex_foreign_store ex_foreign_component]
        t ex_foreign_produced Let_def pruned_def ex_foreign_set_cell u n)
qed

section \<open>Claims\<close>

text \<open>
  C1. After the commit of \<^verbatim>\<open>tryCreateComponent\<close>: if the committed node is not ok or its
  payload has \<open>elementCount\<close> 0, a second commit deletes the node (with its subtree), the
  node is not in the store afterwards, and the call returns no node; otherwise nothing is
  deleted, the store is the one the first commit left, and the call returns the selector of
  the committed node, which is in the store, Ok, with a payload that is not empty.
\<close>

theorem tryCreateComponent_prunes_or_returns:
  "let component = component_builder st s ps key tgs;
       st1 = fst (updateDataState env st component None);
       sel = selector_of component st1
   in if \<not> isOk sel \<or> selector_empty sel
      then tryCreateComponent env st s ps key tgs =
             (fst (updateDataState env st1 (delete (build st1) (ref sel)) None), Inr None) \<and>
           cells (fst (tryCreateComponent env st s ps key tgs)) = remove_subtree (ref sel) (cells st1) \<and>
           map_of (cells (fst (tryCreateComponent env st s ps key tgs))) (ref sel) = None
      else tryCreateComponent env st s ps key tgs = (st1, Inr (Some sel)) \<and>
           (\<exists>c v. map_of (cells st1) (ref sel) = Some c \<and> sel_cell sel = Some c \<and>
                  status c = Ok \<and> obj c = Some v \<and> elementCount v \<noteq> Some 0)"
proof -
  let ?b = "component_builder st s ps key tgs"
  obtain st1 e1 where c1: "updateDataState env st ?b None = (st1, e1)" by (cases "updateDataState env st ?b None")
  with updateDataState_partial_no_error [of env st ?b] have e1: "e1 = None" by simp
  let ?sel = "selector_of ?b st1"
  let ?d = "delete (build st1) (ref ?sel)"
  obtain st2 e2 where c2: "updateDataState env st1 ?d None = (st2, e2)" by (cases "updateDataState env st1 ?d None")
  with updateDataState_partial_no_error [of env st1 ?d] have e2: "e2 = None" by simp
  from updateDataState_delete [of env st1 "ref ?sel"] c2
  have cs2: "cells st2 = remove_subtree (ref ?sel) (cells st1)" by simp
  show ?thesis
  proof (cases "\<not> isOk ?sel \<or> selector_empty ?sel")
    case True
    then have "tryCreateComponent env st s ps key tgs = (st2, Inr None)"
      using c1 e1 c2 e2 by (simp add: tryCreateComponent_def Let_def)
    then show ?thesis
      using True c1 c2 cs2 by (simp add: Let_def)
  next
    case False
    then have run: "tryCreateComponent env st s ps key tgs = (st1, Inr (Some ?sel))"
      using c1 e1 by (simp add: tryCreateComponent_def Let_def)
    from False have "isOk ?sel" "\<not> selector_empty ?sel" by auto
    then have "\<exists>c v. map_of (cells st1) (ref ?sel) = Some c \<and> sel_cell ?sel = Some c \<and>
                  status c = Ok \<and> obj c = Some v \<and> elementCount v \<noteq> Some 0"
      by (auto simp: selector_of_def selector_empty_def split: option.splits)
    with run False c1 show ?thesis by (simp add: Let_def)
  qed
qed

text \<open>The theorem on the example store: an empty component is pruned, a component with
  seven elements is returned.\<close>

theorem tryCreateComponent_prunes_or_returns_witness:
  "tryCreateComponent ex_env ex_store 4 (ex_params ''empty'') ''water'' None =
     (ex_store\<lparr>nextRef := 6\<rparr>, Inr None) \<and>
   map_of (cells (ex_store\<lparr>nextRef := 6\<rparr>)) 5 = None \<and>
   tryCreateComponent ex_env ex_store 4 (ex_params ''Water'') ''water'' None =
     (ex_water_store,
      Inr (Some \<lparr>ref = 5, isOk = True, sel_cell = Some (ex_component ''water'' ''Water'' 7)\<rparr>)) \<and>
   (\<exists>c v. map_of (cells ex_water_store) 5 = Some c \<and> status c = Ok \<and> obj c = Some v \<and>
          elementCount v \<noteq> Some 0)"
proof -
  from tryCreateComponent_prunes_or_returns [of ex_store 4 "ex_params ''empty''" "''water''" None ex_env]
  have a: "map_of (cells (ex_store\<lparr>nextRef := 6\<rparr>)) 5 = None"
    by (simp add: ex_create_empty ex_component_ref Let_def split: if_splits)
  from tryCreateComponent_prunes_or_returns [of ex_store 4 "ex_params ''Water''" "''water''" None ex_env]
  have b: "\<exists>c v. map_of (cells ex_water_store) 5 = Some c \<and> status c = Ok \<and> obj c = Some v \<and>
          elementCount v \<noteq> Some 0"
    by (simp add: ex_create_water ex_component_ref Let_def split: if_splits) metis
  from a b ex_create_empty ex_create_water show ?thesis by simp
qed

text \<open>
  C2, as amended. Each required step (\<^verbatim>\<open>parseTrajectoryBlob\<close>, \<^verbatim>\<open>createModel\<close>,
  \<^verbatim>\<open>insertModelProperties\<close>, \<^verbatim>\<open>createStructure\<close>, \<^verbatim>\<open>insertStructureProperties\<close>,
  \<^verbatim>\<open>tryCreateUnitcell\<close>) commits with \<open>revertOnError\<close>. On a well-formed store, when the
  production of a node it stages fails (for the blob pipeline: of either stage), the step
  leaves the store as it was but for the reference counter, so that no part of the chain
  remains, and it returns the selector of the node it staged, which is not ok and has no
  cell. The commit returns the error of the failed production to the step (last three
  parts, for a commit of one staged transform and of a chain of two), but the step does not
  read the result of the commit, so the error is not passed on. When the production
  succeeds, the step has added the node under its anchor, Ok, with the payload produced,
  and returns the selector of that node.
\<close>

theorem required_steps_full_revert:
  assumes wf: "wf_store st"
  shows
  "(\<forall>m. produced (produce env) (cells st) data ParseBlob (ParseBlob_Params bp) = Inl m \<longrightarrow>
      parseTrajectoryBlob env st data bp =
        (st\<lparr>nextRef := Suc (Suc (nextRef st))\<rparr>,
         Inr \<lparr>ref = Suc (nextRef st), isOk = False, sel_cell = None\<rparr>)) \<and>
   (\<forall>v m. produced (produce env) (cells st) data ParseBlob (ParseBlob_Params bp) = Inr v \<and>
        produce env TrajectoryFromBlob v Undefined = Inl m \<longrightarrow>
      parseTrajectoryBlob env st data bp =
        (st\<lparr>nextRef := Suc (Suc (nextRef st))\<rparr>,
         Inr \<lparr>ref = Suc (nextRef st), isOk = False, sel_cell = None\<rparr>)) \<and>
   (\<forall>v t. produced (produce env) (cells st) data ParseBlob (ParseBlob_Params bp) = Inr v \<and>
        produce env TrajectoryFromBlob v Undefined = Inr t \<longrightarrow>
      (\<exists>c1 c2. parseTrajectoryBlob env st data bp =
             (\<lparr>cells = cells st @ [(nextRef st, c1), (Suc (nextRef st), c2)],
                nextRef = Suc (Suc (nextRef st))\<rparr>,
              Inr \<lparr>ref = Suc (nextRef st), isOk = True, sel_cell = Some c2\<rparr>) \<and>
           transformer c1 = ParseBlob \<and> parent c1 = Some data \<and> status c1 = Ok \<and> obj c1 = Some v \<and>
           transformer c2 = TrajectoryFromBlob \<and> parent c2 = Some (nextRef st) \<and>
           status c2 = Ok \<and> obj c2 = Some t)) \<and>
   (\<forall>m. produced (produce env) (cells st) trajectory ModelFromTrajectory
          (ModelFromTrajectory_Params (case mp of None \<Rightarrow> \<lparr>modelIndex = 0\<rparr> | Some p \<Rightarrow> p)) = Inl m \<longrightarrow>
      createModel env st trajectory mp ts1 =
        (st\<lparr>nextRef := Suc (nextRef st)\<rparr>, Inr \<lparr>ref = nextRef st, isOk = False, sel_cell = None\<rparr>)) \<and>
   (\<forall>v. produced (produce env) (cells st) trajectory ModelFromTrajectory
          (ModelFromTrajectory_Params (case mp of None \<Rightarrow> \<lparr>modelIndex = 0\<rparr> | Some p \<Rightarrow> p)) = Inr v \<longrightarrow>
      (\<exists>c. createModel env st trajectory mp ts1 =
             (\<lparr>cells = cells st @ [(nextRef st, c)], nextRef = Suc (nextRef st)\<rparr>,
              Inr \<lparr>ref = nextRef st, isOk = True, sel_cell = Some c\<rparr>) \<and>
           transformer c = ModelFromTrajectory \<and> parent c = Some trajectory \<and> status c = Ok \<and> obj c = Some v)) \<and>
   (\<forall>m. produced (produce env) (cells st) model CustomModelProperties
          (custom_params pp1) = Inl m \<longrightarrow>
      insertModelProperties env st model pp1 =
        (st\<lparr>nextRef := Suc (nextRef st)\<rparr>, Inr \<lparr>ref = nextRef st, isOk = False, sel_cell = None\<rparr>)) \<and>
   (\<forall>v. produced (produce env) (cells st) model CustomModelProperties
          (custom_params pp1) = Inr v \<longrightarrow>
      (\<exists>c. insertModelProperties env st model pp1 =
             (\<lparr>cells = cells st @ [(nextRef st, c)], nextRef = Suc (nextRef st)\<rparr>,
              Inr \<lparr>ref = nextRef st, isOk = True, sel_cell = Some c\<rparr>) \<and>
           transformer c = CustomModelProperties \<and> parent c = Some model \<and> status c = Ok \<and> obj c = Some v)) \<and>
   (\<forall>m. produced (produce env) (cells st) model StructureFromModel
          (StructureFromModel_Params
             (case sp of
                Some p \<Rightarrow> p
              | None \<Rightarrow> if no_assembly env st model
                        then \<lparr>rsd_name = ''deposited'', rsd_params = []\<rparr>
                        else \<lparr>rsd_name = ''assembly'', rsd_params = []\<rparr>)) = Inl m \<longrightarrow>
      createStructure env st model sp ts2 =
        (st\<lparr>nextRef := Suc (nextRef st)\<rparr>, Inr \<lparr>ref = nextRef st, isOk = False, sel_cell = None\<rparr>)) \<and>
   (\<forall>v. produced (produce env) (cells st) model StructureFromModel
          (StructureFromModel_Params
             (case sp of
                Some p \<Rightarrow> p
              | None \<Rightarrow> if no_assembly env st model
                        then \<lparr>rsd_name = ''deposited'', rsd_params = []\<rparr>
                        else \<lparr>rsd_name = ''assembly'', rsd_params = []\<rparr>)) = Inr v \<longrightarrow>
      (\<exists>c. createStructure env st model sp ts2 =
             (\<lparr>cells = cells st @ [(nextRef st, c)], nextRef = Suc (nextRef st)\<rparr>,
              Inr \<lparr>ref = nextRef st, isOk = True, sel_cell = Some c\<rparr>) \<and>
           transformer c = StructureFromModel \<and> parent c = Some model \<and> status c = Ok \<and> obj c = Some v)) \<and>
   (\<forall>m. produced (produce env) (cells st) structure CustomStructureProperties
          (custom_params pp2) = Inl m \<longrightarrow>
      insertStructureProperties env st structure pp2 =
        (st\<lparr>nextRef := Suc (nextRef st)\<rparr>, Inr \<lparr>ref = nextRef st, isOk = False, sel_cell = None\<rparr>)) \<and>
   (\<forall>v. produced (produce env) (cells st) structure CustomStructureProperties
          (custom_params pp2) = Inr v \<longrightarrow>
      (\<exists>c. insertStructureProperties env st structure pp2 =
             (\<lparr>cells = cells st @ [(nextRef st, c)], nextRef = Suc (nextRef st)\<rparr>,
              Inr \<lparr>ref = nextRef st, isOk = True, sel_cell = Some c\<rparr>) \<and>
           transformer c = CustomStructureProperties \<and> parent c = Some structure \<and> status c = Ok \<and> obj c = Some v)) \<and>
   (\<forall>d m. resolved_data st model = Some d \<and>
        \<not> SpacegroupCell_isZero env (map_option spacegroup_cell (ModelSymmetry_get env d)) \<and>
        produced (produce env) (cells st) model ModelUnitcell3D (custom_params up) = Inl m \<longrightarrow>
      tryCreateUnitcell env st model up ts3 =
        (st\<lparr>nextRef := Suc (nextRef st)\<rparr>, Inr (Some \<lparr>ref = nextRef st, isOk = False, sel_cell = None\<rparr>))) \<and>
   (\<forall>d v. resolved_data st model = Some d \<and>
        \<not> SpacegroupCell_isZero env (map_option spacegroup_cell (ModelSymmetry_get env d)) \<and>
        produced (produce env) (cells st) model ModelUnitcell3D (custom_params up) = Inr v \<longrightarrow>
      (\<exists>c. tryCreateUnitcell env st model up ts3 =
             (\<lparr>cells = cells st @ [(nextRef st, c)], nextRef = Suc (nextRef st)\<rparr>,
              Inr (Some \<lparr>ref = nextRef st, isOk = True, sel_cell = Some c\<rparr>)) \<and>
           transformer c = ModelUnitcell3D \<and> parent c = Some model \<and> status c = Ok \<and> obj c = Some v)) \<and>
   (\<forall>a tr ps opts m. map_of (cells st) a \<noteq> None \<and>
        produced (produce env) (cells st) a tr ps = Inl m \<longrightarrow>
      updateDataState env st (apply' (to (build st) a) tr ps opts) (Some \<lparr>revertOnError = True\<rparr>) =
        (st\<lparr>nextRef := Suc (nextRef st)\<rparr>, Some (CommitError (ProductionFailure m)))) \<and>
   (\<forall>a tr1 ps1 o1 tr2 ps2 o2 m. map_of (cells st) a \<noteq> None \<and>
        produced (produce env) (cells st) a tr1 ps1 = Inl m \<longrightarrow>
      updateDataState env st (apply' (apply' (to (build st) a) tr1 ps1 o1) tr2 ps2 o2)
          (Some \<lparr>revertOnError = True\<rparr>) =
        (st\<lparr>nextRef := Suc (Suc (nextRef st))\<rparr>, Some (CommitError (ProductionFailure m)))) \<and>
   (\<forall>a tr1 ps1 o1 tr2 ps2 o2 v m. map_of (cells st) a \<noteq> None \<and>
        produced (produce env) (cells st) a tr1 ps1 = Inr v \<and> produce env tr2 v ps2 = Inl m \<longrightarrow>
      updateDataState env st (apply' (apply' (to (build st) a) tr1 ps1 o1) tr2 ps2 o2)
          (Some \<lparr>revertOnError = True\<rparr>) =
        (st\<lparr>nextRef := Suc (Suc (nextRef st))\<rparr>, Some (CommitError (ProductionFailure m))))"
proof -
  note runs = parseTrajectoryBlob_run [OF wf] createModel_run [OF wf] insertModelProperties_run [OF wf]
    createStructure_run_any [OF wf] insertStructureProperties_run [OF wf]
  show ?thesis
    by (intro conjI allI impI; (elim conjE)?)
      (simp_all add: runs tryCreateUnitcell_run [OF wf] Let_def staged_insert_error
        staged_chain_error [OF wf])
qed

text \<open>The theorem on the example store. With a plugin whose productions fail, every step
  leaves the cells as they were and returns a selector that is not ok, also when only the
  second stage of the blob pipeline fails; with the plugin of the examples,
  \<^verbatim>\<open>createModel\<close> and \<^verbatim>\<open>tryCreateUnitcell\<close> add their node.\<close>

theorem required_steps_full_revert_witness:
  "wf_store ex_store \<and>
   parseTrajectoryBlob ex_all_fail ex_store 1 (BlobParams ''zip'') =
     (ex_store\<lparr>nextRef := 7\<rparr>, Inr \<lparr>ref = 6, isOk = False, sel_cell = None\<rparr>) \<and>
   parseTrajectoryBlob (ex_failing_env [TrajectoryFromBlob]) ex_store 1 (BlobParams ''zip'') =
     (ex_store\<lparr>nextRef := 7\<rparr>, Inr \<lparr>ref = 6, isOk = False, sel_cell = None\<rparr>) \<and>
   createModel ex_all_fail ex_store 2 None None =
     (ex_store\<lparr>nextRef := 6\<rparr>, Inr \<lparr>ref = 5, isOk = False, sel_cell = None\<rparr>) \<and>
   insertModelProperties ex_all_fail ex_store 3 None =
     (ex_store\<lparr>nextRef := 6\<rparr>, Inr \<lparr>ref = 5, isOk = False, sel_cell = None\<rparr>) \<and>
   createStructure ex_all_fail ex_store 3 None None =
     (ex_store\<lparr>nextRef := 6\<rparr>, Inr \<lparr>ref = 5, isOk = False, sel_cell = None\<rparr>) \<and>
   insertStructureProperties ex_all_fail ex_store 4 None =
     (ex_store\<lparr>nextRef := 6\<rparr>, Inr \<lparr>ref = 5, isOk = False, sel_cell = None\<rparr>) \<and>
   tryCreateUnitcell ex_all_fail ex_store 3 None None =
     (ex_store\<lparr>nextRef := 6\<rparr>, Inr (Some \<lparr>ref = 5, isOk = False, sel_cell = None\<rparr>)) \<and>
   (\<exists>c. createModel ex_env ex_store 2 None None =
          (\<lparr>cells = cells ex_store @ [(5, c)], nextRef = 6\<rparr>,
           Inr \<lparr>ref = 5, isOk = True, sel_cell = Some c\<rparr>) \<and>
        transformer c = ModelFromTrajectory \<and> parent c = Some 2 \<and> status c = Ok \<and>
        obj c = Some (SO_Molecule_Model ''1abc'')) \<and>
   (\<exists>c. tryCreateUnitcell ex_env ex_store 3 None None =
          (\<lparr>cells = cells ex_store @ [(5, c)], nextRef = 6\<rparr>,
           Inr (Some \<lparr>ref = 5, isOk = True, sel_cell = Some c\<rparr>)) \<and>
        transformer c = ModelUnitcell3D \<and> parent c = Some 3 \<and> status c = Ok \<and>
        obj c = Some (SO_Shape_Representation3D ''unitcell''))"
proof -
  note T = required_steps_full_revert [OF wf_ex_store, where env = ex_all_fail and data = 1
      and bp = "BlobParams ''zip''" and trajectory = 2 and mp = None and ?ts1.0 = None and model = 3
      and ?pp1.0 = None and sp = None and ?ts2.0 = None and ?structure = 4 and ?pp2.0 = None
      and up = None and ?ts3.0 = None]
  note T2 = required_steps_full_revert [OF wf_ex_store, where env = "ex_failing_env [TrajectoryFromBlob]"
      and data = 1 and bp = "BlobParams ''zip''"]
  note U = required_steps_full_revert [OF wf_ex_store, where env = ex_env
      and trajectory = 2 and mp = None and ?ts1.0 = None and model = 3 and up = None and ?ts3.0 = None]
  note f = ex_all_fail_produced
  have b1: "parseTrajectoryBlob ex_all_fail ex_store 1 (BlobParams ''zip'') =
     (ex_store\<lparr>nextRef := 7\<rparr>, Inr \<lparr>ref = 6, isOk = False, sel_cell = None\<rparr>)"
    using T [THEN conjunct1] f [of ParseBlob 1] by (simp add: ex_nextRef)
  have b2: "parseTrajectoryBlob (ex_failing_env [TrajectoryFromBlob]) ex_store 1 (BlobParams ''zip'') =
     (ex_store\<lparr>nextRef := 7\<rparr>, Inr \<lparr>ref = 6, isOk = False, sel_cell = None\<rparr>)"
    using T2 [THEN conjunct2, THEN conjunct1] ex_second_stage by (simp add: ex_nextRef)
  note T' = T [THEN conjunct2, THEN conjunct2, THEN conjunct2]
  have b3: "createModel ex_all_fail ex_store 2 None None =
     (ex_store\<lparr>nextRef := 6\<rparr>, Inr \<lparr>ref = 5, isOk = False, sel_cell = None\<rparr>)"
    using T' [THEN conjunct1] f [of ModelFromTrajectory 2] by (simp add: ex_nextRef)
  note T'' = T' [THEN conjunct2, THEN conjunct2]
  have b4: "insertModelProperties ex_all_fail ex_store 3 None =
     (ex_store\<lparr>nextRef := 6\<rparr>, Inr \<lparr>ref = 5, isOk = False, sel_cell = None\<rparr>)"
    using T'' [THEN conjunct1] f [of CustomModelProperties 3] by (simp add: ex_nextRef)
  note T3 = T'' [THEN conjunct2, THEN conjunct2]
  have b5: "createStructure ex_all_fail ex_store 3 None None =
     (ex_store\<lparr>nextRef := 6\<rparr>, Inr \<lparr>ref = 5, isOk = False, sel_cell = None\<rparr>)"
    using T3 [THEN conjunct1] f [of StructureFromModel 3] by (simp add: ex_nextRef)
  note T4 = T3 [THEN conjunct2, THEN conjunct2]
  have b6: "insertStructureProperties ex_all_fail ex_store 4 None =
     (ex_store\<lparr>nextRef := 6\<rparr>, Inr \<lparr>ref = 5, isOk = False, sel_cell = None\<rparr>)"
    using T4 [THEN conjunct1] f [of CustomStructureProperties 4] by (simp add: ex_nextRef)
  note T5 = T4 [THEN conjunct2, THEN conjunct2]
  have b7: "tryCreateUnitcell ex_all_fail ex_store 3 None None =
     (ex_store\<lparr>nextRef := 6\<rparr>, Inr (Some \<lparr>ref = 5, isOk = False, sel_cell = None\<rparr>))"
    using T5 [THEN conjunct1] f [of ModelUnitcell3D 3] ex_unitcell_guard by (simp add: ex_nextRef)
  note U' = U [THEN conjunct2, THEN conjunct2, THEN conjunct2, THEN conjunct2]
  have s1: "\<exists>c. createModel ex_env ex_store 2 None None =
          (\<lparr>cells = cells ex_store @ [(5, c)], nextRef = 6\<rparr>,
           Inr \<lparr>ref = 5, isOk = True, sel_cell = Some c\<rparr>) \<and>
        transformer c = ModelFromTrajectory \<and> parent c = Some 2 \<and> status c = Ok \<and>
        obj c = Some (SO_Molecule_Model ''1abc'')"
    using U' [THEN conjunct1] ex_model_produced by (simp add: ex_nextRef)
  note U'' = U' [THEN conjunct2, THEN conjunct2, THEN conjunct2, THEN conjunct2, THEN conjunct2,
      THEN conjunct2, THEN conjunct2, THEN conjunct2]
  have s2: "\<exists>c. tryCreateUnitcell ex_env ex_store 3 None None =
          (\<lparr>cells = cells ex_store @ [(5, c)], nextRef = 6\<rparr>,
           Inr (Some \<lparr>ref = 5, isOk = True, sel_cell = Some c\<rparr>)) \<and>
        transformer c = ModelUnitcell3D \<and> parent c = Some 3 \<and> status c = Ok \<and>
        obj c = Some (SO_Shape_Representation3D ''unitcell'')"
    using U'' ex_unitcell_produced ex_unitcell_guard_ok by (simp add: ex_nextRef)
  from wf_ex_store b1 b2 b3 b4 b5 b6 b7 s1 s2 show ?thesis by simp
qed

text \<open>
  C2 as stated fails in its last part: the commit that \<^verbatim>\<open>createModel\<close> submits fails with
  the production failure \<open>failed\<close>, and \<^verbatim>\<open>createModel\<close> returns a selector (not ok,
  without a cell), not the error; likewise \<^verbatim>\<open>createStructure\<close>.
\<close>

theorem required_steps_full_revert_counterexample:
  "updateDataState ex_all_fail ex_store
      (apply' (to (build ex_store) 2) ModelFromTrajectory
         (ModelFromTrajectory_Params \<lparr>modelIndex = 0\<rparr>) (initial_options None))
      (Some \<lparr>revertOnError = True\<rparr>) =
     (ex_store\<lparr>nextRef := 6\<rparr>, Some (CommitError (ProductionFailure ''failed''))) \<and>
   createModel ex_all_fail ex_store 2 None None =
     (ex_store\<lparr>nextRef := 6\<rparr>, Inr \<lparr>ref = 5, isOk = False, sel_cell = None\<rparr>) \<and>
   updateDataState ex_all_fail ex_store
      (apply' (to (build ex_store) 3) StructureFromModel
         (StructureFromModel_Params \<lparr>rsd_name = ''assembly'', rsd_params = []\<rparr>) (initial_options None))
      (Some \<lparr>revertOnError = True\<rparr>) =
     (ex_store\<lparr>nextRef := 6\<rparr>, Some (CommitError (ProductionFailure ''failed''))) \<and>
   createStructure ex_all_fail ex_store 3 None None =
     (ex_store\<lparr>nextRef := 6\<rparr>, Inr \<lparr>ref = 5, isOk = False, sel_cell = None\<rparr>)"
proof -
  have l: "map_of (cells ex_store) 2 \<noteq> None" "map_of (cells ex_store) 3 \<noteq> None"
    by (simp_all add: ex_store_def)
  have a: "updateDataState ex_all_fail ex_store
      (apply' (to (build ex_store) 2) ModelFromTrajectory
         (ModelFromTrajectory_Params \<lparr>modelIndex = 0\<rparr>) (initial_options None))
      (Some \<lparr>revertOnError = True\<rparr>) =
     (ex_store\<lparr>nextRef := 6\<rparr>, Some (CommitError (ProductionFailure ''failed'')))"
    using l(1) ex_all_fail_produced [of ModelFromTrajectory 2]
    by (auto simp: insert_commit ex_nextRef)
  have b: "createModel ex_all_fail ex_store 2 None None =
     (ex_store\<lparr>nextRef := 6\<rparr>, Inr \<lparr>ref = 5, isOk = False, sel_cell = None\<rparr>)"
    using ex_all_fail_produced [of ModelFromTrajectory 2]
    by (simp add: createModel_run [OF wf_ex_store] ex_nextRef)
  have c: "updateDataState ex_all_fail ex_store
      (apply' (to (build ex_store) 3) StructureFromModel
         (StructureFromModel_Params \<lparr>rsd_name = ''assembly'', rsd_params = []\<rparr>) (initial_options None))
      (Some \<lparr>revertOnError = True\<rparr>) =
     (ex_store\<lparr>nextRef := 6\<rparr>, Some (CommitError (ProductionFailure ''failed'')))"
    using l(2) ex_all_fail_produced [of StructureFromModel 3]
    by (auto simp: insert_commit ex_nextRef)
  have d: "createStructure ex_all_fail ex_store 3 None None =
     (ex_store\<lparr>nextRef := 6\<rparr>, Inr \<lparr>ref = 5, isOk = False, sel_cell = None\<rparr>)"
    using ex_all_fail_produced [of StructureFromModel 3]
    by (simp add: createStructure_run_any [OF wf_ex_store] ex_nextRef)
  from a b c d show ?thesis by simp
qed

text \<open>
  C3, as amended. On a well-formed store in which at most one child of the anchor carries
  the tag key \<open>structure-component-K\<close>, calling \<^verbatim>\<open>tryCreateComponent\<close> with key \<open>K\<close> and
  parameters \<open>P1\<close> and then with key \<open>K\<close> and parameters \<open>P2\<close> leaves no duplicate: if the
  second call returns a node, exactly one child of the anchor carries the tag key, it is
  the returned node, and its parameters are \<open>P2\<close>; if the first call returned a node too,
  both are the same reference (the second call updated in place). If the second call
  returns no node, no child of the anchor carries the tag key.
\<close>

theorem tagged_upsert_twice:
  assumes wf: "wf_store st"
    and uniq: "length (tagged_children (cells st) s (keyTag key)) \<le> 1"
    and run1: "tryCreateComponent env st s p1 key t1 = (st1, r1)"
    and run2: "tryCreateComponent env st1 s p2 key t2 = (st2, r2)"
  shows "(r2 = Inr None \<and> tagged_children (cells st2) s (keyTag key) = []) \<or>
         (\<exists>sel2 c. r2 = Inr (Some sel2) \<and>
             tagged_children (cells st2) s (keyTag key) = [ref sel2] \<and>
             map_of (cells st2) (ref sel2) = Some c \<and>
             params c = StructureComponent_Params p2 \<and>
             (\<forall>sel1. r1 = Inr (Some sel1) \<longrightarrow> ref sel2 = ref sel1))"
proof -
  let ?k = "keyTag key"
  from tryCreateComponent_spec [OF wf uniq run1]
  have wf1: "wf_store st1"
    and one: "r1 = Inr None \<and> tagged_children (cells st1) s ?k = [] \<or>
              (\<exists>sel. r1 = Inr (Some sel) \<and> tagged_children (cells st1) s ?k = [ref sel])"
    by auto
  from one have uniq1: "length (tagged_children (cells st1) s ?k) \<le> 1" by auto
  from tryCreateComponent_spec [OF wf1 uniq1 run2] one
  show ?thesis by auto
qed

text \<open>The theorem on the example store: the second call updates node 5 in place.\<close>

theorem tagged_upsert_twice_witness:
  "wf_store ex_store \<and>
   length (tagged_children (cells ex_store) 4 (keyTag ''water'')) \<le> 1 \<and>
   tryCreateComponent ex_env ex_store 4 (ex_params ''Water'') ''water'' None =
     (ex_water_store, Inr (Some \<lparr>ref = 5, isOk = True, sel_cell = Some (ex_component ''water'' ''Water'' 7)\<rparr>)) \<and>
   (\<exists>st2 sel2 c.
       tryCreateComponent ex_env ex_water_store 4 (ex_params ''Second'') ''water'' None =
         (st2, Inr (Some sel2)) \<and>
       tagged_children (cells st2) 4 (keyTag ''water'') = [ref sel2] \<and>
       map_of (cells st2) (ref sel2) = Some c \<and>
       params c = StructureComponent_Params (ex_params ''Second'') \<and>
       ref sel2 = 5)"
proof -
  have u: "length (tagged_children (cells ex_store) 4 (keyTag ''water'')) \<le> 1"
    using ex_store_no_component [of "''water''"] by (simp add: tagged_children_Nil_iff [symmetric])
  from tagged_upsert_twice [OF wf_ex_store u ex_create_water ex_update_second]
  show ?thesis
    using wf_ex_store u ex_create_water ex_update_second by auto
qed

text \<open>
  C3 as stated fails: when the second production is empty, the node the first call made
  is pruned, and no child carries the tag key.
\<close>

theorem tagged_upsert_twice_counterexample:
  "tryCreateComponent ex_env ex_store 4 (ex_params ''Water'') ''water'' None =
     (ex_water_store,
      Inr (Some \<lparr>ref = 5, isOk = True, sel_cell = Some (ex_component ''water'' ''Water'' 7)\<rparr>)) \<and>
   tryCreateComponent ex_env ex_water_store 4 (ex_params ''empty'') ''water'' None =
     (\<lparr>cells = cells ex_store, nextRef = 6\<rparr>, Inr None) \<and>
   tagged_children (cells \<lparr>cells = cells ex_store, nextRef = 6\<rparr>) 4 (keyTag ''water'') = []"
  by (simp add: ex_create_water ex_update_empty ex_store_no_children)

text \<open>
  C4. \<^verbatim>\<open>tryCreateComponent\<close> commits without a revert flag, so the commit is partial. On
  a well-formed store, when the production of the component with key \<open>K\<close> fails, the call
  returns no node; no child of the structure carries the tag key of \<open>K\<close> afterwards (also
  when a node with that key existed before: it is removed, not restored); the structure
  and every component under it that does not carry that tag key are in the store as they
  were.
\<close>

theorem failing_component_pruned_siblings_kept:
  assumes wf: "wf_store st"
    and uniq: "length (tagged_children (cells st) s (keyTag key)) \<le> 1"
    and made: "\<forall>rc \<in> set (cells st). carries s (keyTag key) rc \<longrightarrow> transformer (snd rc) = StructureComponent"
    and fail: "produced (produce env) (cells st) s StructureComponent (StructureComponent_Params ps) = Inl m"
    and run: "tryCreateComponent env st s ps key tgs = (st', r)"
  shows "r = Inr None \<and>
         tagged_children (cells st') s (keyTag key) = [] \<and>
         map_of (cells st') s = map_of (cells st) s \<and>
         (\<forall>w cw. map_of (cells st) w = Some cw \<and> parent cw = Some s \<and>
                 keyTag key \<notin> set (tags cw) \<longrightarrow> map_of (cells st') w = Some cw)"
proof -
  let ?n = "nextRef st" and ?cs = "cells st" and ?k = "keyTag key"
  let ?P = "StructureComponent_Params ps"
  from wf have wfc: "wf_cells ?n ?cs" by (simp add: wf_store_def)
  show ?thesis
  proof (cases "find (carries s ?k) ?cs")
    case None
    then have tc: "tagged_children ?cs s ?k = []" by (simp add: tagged_children_Nil_iff)
    from tryCreateComponent_insert [OF wf None, of env ps tgs] fail run
    have "st' = st\<lparr>nextRef := Suc ?n\<rparr>" and "r = Inr None"
      by (auto simp: Let_def pruned_def)
    then show ?thesis using tc by simp
  next
    case (Some rc)
    obtain r0 c0 where rc: "rc = (r0, c0)" by (cases rc)
    with Some have fd: "find (carries s ?k) ?cs = Some (r0, c0)" by simp
    note fc = find_carries [OF wfc fd]
    from fd have "(r0, c0) \<in> set ?cs" "carries s ?k (r0, c0)" by (auto dest: find_SomeD)
    with made have tr: "transformer c0 = StructureComponent" by force
    let ?c = "updated c0 ?P (Inl m)"
    let ?cs1 = "set_cell r0 ?c ?cs"
    from tryCreateComponent_update [OF wf fd, of env ps tgs] fail run tr
    have st': "st' = \<lparr>cells = remove_subtree r0 ?cs1, nextRef = ?n\<rparr>" and r: "r = Inr None"
      by (auto simp: Let_def pruned_def)
    have wf1: "wf_cells ?n ?cs1" using wfc fc(1) by (rule wf_cells_set_cell) simp
    have dist: "distinct (map fst ?cs)" using wfc by (simp add: wf_cells_def)
    have tc: "tagged_children ?cs s ?k = [r0]" using fd uniq by (rule tagged_children_single)
    have tc1: "tagged_children ?cs1 s ?k = [r0]"
      using tagged_children_set_cell [OF dist fc(1), of ?c s ?k] tc by simp
    have gone: "tagged_children (cells st') s ?k = []"
      using st' tc1 by (simp add: tagged_children_remove_subtree del: in_subtree.simps)
    have d1: "map_of ?cs1 r0 = Some ?c" "parent ?c = Some s"
      using fc by (simp_all add: map_of_set_cell)
    from wfc fc have "s < r0" by (auto dest: wf_cells_lookup)
    then have sne: "s \<noteq> r0" by simp
    have keep_s: "map_of (cells st') s = map_of ?cs s"
    proof (cases "map_of ?cs s")
      case None
      then have "s \<notin> fst ` set ?cs" by (simp add: map_of_eq_None_iff)
      then have "s \<notin> fst ` set (cells st')"
        using st' by (auto simp: remove_subtree_def set_cell_def split: if_splits)
      then have "map_of (cells st') s = None" by (simp add: map_of_eq_None_iff)
      then show ?thesis using None by simp
    next
      case (Some sc)
      then have "map_of ?cs1 s = Some sc" using sne by (simp add: map_of_set_cell)
      moreover have "\<not> in_subtree (length ?cs1) ?cs1 r0 s"
        using wf1 d1 by (rule not_in_subtree_of_child)
      ultimately show ?thesis using st' Some by (simp add: map_of_remove_subtree_keep)
    qed
    have keep: "map_of (cells st') w = Some cw"
      if w: "map_of ?cs w = Some cw" "parent cw = Some s" "?k \<notin> set (tags cw)" for w cw
    proof -
      from w fc have ne: "w \<noteq> r0" by auto
      then have w1: "map_of ?cs1 w = Some cw" using w by (simp add: map_of_set_cell)
      have "\<not> in_subtree (length ?cs1) ?cs1 r0 w"
        using wf1 w1 w(2) d1 ne by (rule sibling_not_in_subtree)
      with w1 show ?thesis using st' by (simp add: map_of_remove_subtree_keep)
    qed
    from r gone keep_s keep show ?thesis by blast
  qed
qed

text \<open>The theorem on the store with a water component: the ligand fails, the water
  component stays, Ok.\<close>

theorem failing_component_pruned_siblings_kept_witness:
  "wf_store ex_water_store \<and>
   length (tagged_children (cells ex_water_store) 4 (keyTag ''ligand'')) \<le> 1 \<and>
   produced (produce ex_env) (cells ex_water_store) 4 StructureComponent
     (StructureComponent_Params (ex_params ''fail'')) = Inl ''component failed'' \<and>
   tryCreateComponent ex_env ex_water_store 4 (ex_params ''fail'') ''ligand'' None =
     (ex_water_store\<lparr>nextRef := 7\<rparr>, Inr None) \<and>
   tagged_children (cells (ex_water_store\<lparr>nextRef := 7\<rparr>)) 4 (keyTag ''ligand'') = [] \<and>
   map_of (cells ex_water_store) 5 = Some (ex_component ''water'' ''Water'' 7) \<and>
   parent (ex_component ''water'' ''Water'' 7) = Some 4 \<and>
   keyTag ''ligand'' \<notin> set (tags (ex_component ''water'' ''Water'' 7)) \<and>
   map_of (cells (ex_water_store\<lparr>nextRef := 7\<rparr>)) 5 = Some (ex_component ''water'' ''Water'' 7) \<and>
   status (ex_component ''water'' ''Water'' 7) = Ok"
proof -
  have u: "length (tagged_children (cells ex_water_store) 4 (keyTag ''ligand'')) \<le> 1"
    using ex_water_store_no_ligand by (simp add: tagged_children_Nil_iff [symmetric])
  have m: "\<forall>rc \<in> set (cells ex_water_store). carries 4 (keyTag ''ligand'') rc \<longrightarrow>
             transformer (snd rc) = StructureComponent"
    by (simp add: ex_water_store_def ex_store_def ex_cell_def ex_component_def carries_def)
  have f: "produced (produce ex_env) (cells ex_water_store) 4 StructureComponent
     (StructureComponent_Params (ex_params ''fail'')) = Inl ''component failed''"
    by (simp add: ex_water_produced)
  have w: "map_of (cells ex_water_store) 5 = Some (ex_component ''water'' ''Water'' 7)"
    by (simp add: ex_water_store_def ex_store_def)
  have p: "parent (ex_component ''water'' ''Water'' 7) = Some 4"
    "keyTag ''ligand'' \<notin> set (tags (ex_component ''water'' ''Water'' 7))"
    "status (ex_component ''water'' ''Water'' 7) = Ok"
    by (simp_all add: ex_component_def keyTag_def StructureBuilderTags_Component_def)
  from failing_component_pruned_siblings_kept [OF wf_ex_water_store u m f ex_ligand_fails]
  show ?thesis
    using wf_ex_water_store u f ex_ligand_fails w p by blast
qed

text \<open>
  C5. \<^verbatim>\<open>parseTrajectory\<close> dispatches on the kind of the resolved node's object: on a blob
  it is the two-stage pipeline, on anything else the direct parse, which returns the
  trajectory selector of the provider's \<^verbatim>\<open>parse\<close>. The two-stage pipeline always returns a
  selector, that of the second node it stages. On a well-formed store, when both
  productions succeed it has added a ghost \<^verbatim>\<open>ParseBlob\<close> node under the data and a
  \<^verbatim>\<open>TrajectoryFromBlob\<close> node under that one, both Ok, and the selector is Ok and is the
  latter's; and whenever the selector it returns is Ok these two nodes have been added,
  while a selector that is not Ok has no cell and the cells of the store are as they were.
\<close>

theorem parseTrajectory_dispatch:
  "(\<forall>c. resolveAndCheck st data = Some c \<and> SO_Data_Blob_is (obj c) \<longrightarrow>
      parseTrajectory env st data ps = parseTrajectoryBlob env st data ps) \<and>
   (\<forall>c. resolveAndCheck st data = Some c \<and> \<not> SO_Data_Blob_is (obj c) \<longrightarrow>
      parseTrajectory env st data ps = parseTrajectoryData env st data ps) \<and>
   (\<exists>sel. snd (parseTrajectoryBlob env st data ps) = Inr sel \<and> ref sel = Suc (nextRef st)) \<and>
   (wf_store st \<longrightarrow>
      (\<forall>v t. produced (produce env) (cells st) data ParseBlob (ParseBlob_Params ps) = Inr v \<and>
           produce env TrajectoryFromBlob v Undefined = Inr t \<longrightarrow>
         (\<exists>c1 c2. parseTrajectoryBlob env st data ps =
                (\<lparr>cells = cells st @ [(nextRef st, c1), (Suc (nextRef st), c2)],
                   nextRef = Suc (Suc (nextRef st))\<rparr>,
                 Inr \<lparr>ref = Suc (nextRef st), isOk = True, sel_cell = Some c2\<rparr>) \<and>
              transformer c1 = ParseBlob \<and> params c1 = ParseBlob_Params ps \<and>
              parent c1 = Some data \<and> isGhost c1 \<and> status c1 = Ok \<and> obj c1 = Some v \<and>
              transformer c2 = TrajectoryFromBlob \<and> parent c2 = Some (nextRef st) \<and>
              status c2 = Ok \<and> obj c2 = Some t))) \<and>
   (wf_store st \<longrightarrow>
      (\<forall>st' sel. parseTrajectoryBlob env st data ps = (st', Inr sel) \<longrightarrow>
         (if isOk sel
          then (\<exists>c1 c2. cells st' = cells st @ [(nextRef st, c1), (ref sel, c2)] \<and>
                  ref sel = Suc (nextRef st) \<and> sel_cell sel = Some c2 \<and>
                  transformer c1 = ParseBlob \<and> params c1 = ParseBlob_Params ps \<and>
                  parent c1 = Some data \<and> isGhost c1 \<and> status c1 = Ok \<and>
                  transformer c2 = TrajectoryFromBlob \<and> parent c2 = Some (nextRef st) \<and>
                  status c2 = Ok)
          else cells st' = cells st \<and> sel_cell sel = None))) \<and>
   (\<forall>p. parseTrajectoryData env st data (FormatProvider p) = provider_parse env p st data) \<and>
   (\<forall>n p. dataFormat_trajectory_get env n = Some p \<longrightarrow>
      parseTrajectoryData env st data (FormatName n) = provider_parse env p st data)"
proof (intro conjI allI impI)
  show "\<exists>sel. snd (parseTrajectoryBlob env st data ps) = Inr sel \<and> ref sel = Suc (nextRef st)"
    by (rule parseTrajectoryBlob_selector)
next
  fix v t
  assume wf: "wf_store st"
    and p: "produced (produce env) (cells st) data ParseBlob (ParseBlob_Params ps) = Inr v \<and>
           produce env TrajectoryFromBlob v Undefined = Inr t"
  then show "\<exists>c1 c2. parseTrajectoryBlob env st data ps =
                (\<lparr>cells = cells st @ [(nextRef st, c1), (Suc (nextRef st), c2)],
                   nextRef = Suc (Suc (nextRef st))\<rparr>,
                 Inr \<lparr>ref = Suc (nextRef st), isOk = True, sel_cell = Some c2\<rparr>) \<and>
              transformer c1 = ParseBlob \<and> params c1 = ParseBlob_Params ps \<and>
              parent c1 = Some data \<and> isGhost c1 \<and> status c1 = Ok \<and> obj c1 = Some v \<and>
              transformer c2 = TrajectoryFromBlob \<and> parent c2 = Some (nextRef st) \<and>
              status c2 = Ok \<and> obj c2 = Some t"
    by (simp add: parseTrajectoryBlob_run [OF wf] Let_def isGhost_def)
next
  fix st' sel
  assume "wf_store st" and "parseTrajectoryBlob env st data ps = (st', Inr sel)"
  then show "if isOk sel
          then (\<exists>c1 c2. cells st' = cells st @ [(nextRef st, c1), (ref sel, c2)] \<and>
                  ref sel = Suc (nextRef st) \<and> sel_cell sel = Some c2 \<and>
                  transformer c1 = ParseBlob \<and> params c1 = ParseBlob_Params ps \<and>
                  parent c1 = Some data \<and> isGhost c1 \<and> status c1 = Ok \<and>
                  transformer c2 = TrajectoryFromBlob \<and> parent c2 = Some (nextRef st) \<and>
                  status c2 = Ok)
          else cells st' = cells st \<and> sel_cell sel = None"
    by (rule parseTrajectoryBlob_returned)
qed (simp_all add: parseTrajectory_def parseTrajectoryData_def)

text \<open>The theorem on a blob, with both stages succeeding and with the second stage failing,
  and on string data.\<close>

theorem parseTrajectory_dispatch_witness:
  "resolveAndCheck ex_blob_store 1 = Some (ex_cell (OtherTransformer ''Download'') (Some 0) (SO_Data_Blob [''zip''])) \<and>
   SO_Data_Blob_is (obj (ex_cell (OtherTransformer ''Download'') (Some 0) (SO_Data_Blob [''zip'']))) \<and>
   parseTrajectory ex_env ex_blob_store 1 (BlobParams ''zip'') =
     parseTrajectoryBlob ex_env ex_blob_store 1 (BlobParams ''zip'') \<and>
   wf_store ex_blob_store \<and>
   (\<exists>c1 c2. parseTrajectoryBlob ex_env ex_blob_store 1 (BlobParams ''zip'') =
        (\<lparr>cells = cells ex_blob_store @ [(2, c1), (3, c2)], nextRef = 4\<rparr>,
         Inr \<lparr>ref = 3, isOk = True, sel_cell = Some c2\<rparr>) \<and>
      transformer c1 = ParseBlob \<and> isGhost c1 \<and> status c1 = Ok \<and>
      transformer c2 = TrajectoryFromBlob \<and> parent c2 = Some 2 \<and> status c2 = Ok \<and>
      obj c2 = Some (SO_Molecule_Trajectory ''ab'')) \<and>
   parseTrajectoryBlob (ex_failing_env [TrajectoryFromBlob]) ex_blob_store 1 (BlobParams ''zip'') =
     (ex_blob_store\<lparr>nextRef := 4\<rparr>, Inr \<lparr>ref = 3, isOk = False, sel_cell = None\<rparr>) \<and>
   cells (ex_blob_store\<lparr>nextRef := 4\<rparr>) = cells ex_blob_store \<and>
   resolveAndCheck ex_store 1 = Some (ex_cell (OtherTransformer ''Download'') (Some 0) (SO_Data_String ''ATOM'')) \<and>
   \<not> SO_Data_Blob_is (obj (ex_cell (OtherTransformer ''Download'') (Some 0) (SO_Data_String ''ATOM''))) \<and>
   dataFormat_trajectory_get ex_env ''pdb'' = Some (TrajectoryFormatProvider ''pdb'') \<and>
   parseTrajectory ex_env ex_store 1 (FormatName ''pdb'') =
     provider_parse ex_env (TrajectoryFormatProvider ''pdb'') ex_store 1 \<and>
   parseTrajectory ex_env ex_store 1 (FormatProvider (TrajectoryFormatProvider ''mine'')) =
     provider_parse ex_env (TrajectoryFormatProvider ''mine'') ex_store 1"
proof -
  note T = parseTrajectory_dispatch [of ex_blob_store 1 ex_env "BlobParams ''zip''"]
  note F = parseTrajectory_dispatch [of ex_blob_store 1 "ex_failing_env [TrajectoryFromBlob]" "BlobParams ''zip''"]
  note U = parseTrajectory_dispatch [of ex_store 1 ex_env "FormatName ''pdb''"]
  note V = parseTrajectory_dispatch [of ex_store 1 ex_env "FormatProvider (TrajectoryFormatProvider ''mine'')"]
  have r1: "resolveAndCheck ex_blob_store 1 = Some (ex_cell (OtherTransformer ''Download'') (Some 0) (SO_Data_Blob [''zip'']))"
    by (simp add: resolveAndCheck_def ex_blob_store_def ex_cell_def)
  have b1: "SO_Data_Blob_is (obj (ex_cell (OtherTransformer ''Download'') (Some 0) (SO_Data_Blob [''zip''])))"
    by (simp add: ex_cell_def)
  have r2: "resolveAndCheck ex_store 1 = Some (ex_cell (OtherTransformer ''Download'') (Some 0) (SO_Data_String ''ATOM''))"
    by (simp add: resolveAndCheck_def ex_store_def ex_cell_def)
  have b2: "\<not> SO_Data_Blob_is (obj (ex_cell (OtherTransformer ''Download'') (Some 0) (SO_Data_String ''ATOM'')))"
    by (simp add: ex_cell_def)
  have g: "dataFormat_trajectory_get ex_env ''pdb'' = Some (TrajectoryFormatProvider ''pdb'')"
    by (simp add: ex_env_def)
  from T [THEN conjunct1] r1 b1 have d1: "parseTrajectory ex_env ex_blob_store 1 (BlobParams ''zip'') =
     parseTrajectoryBlob ex_env ex_blob_store 1 (BlobParams ''zip'')" by blast
  from U [THEN conjunct2, THEN conjunct1] r2 b2
  have d2: "parseTrajectory ex_env ex_store 1 (FormatName ''pdb'') =
     parseTrajectoryData ex_env ex_store 1 (FormatName ''pdb'')" by blast
  from U g have d3: "parseTrajectoryData ex_env ex_store 1 (FormatName ''pdb'') =
     provider_parse ex_env (TrajectoryFormatProvider ''pdb'') ex_store 1" by blast
  from V r2 b2 have d4: "parseTrajectory ex_env ex_store 1 (FormatProvider (TrajectoryFormatProvider ''mine'')) =
     provider_parse ex_env (TrajectoryFormatProvider ''mine'') ex_store 1" by simp
  note T4 = T [THEN conjunct2, THEN conjunct2, THEN conjunct2, THEN conjunct1, rule_format,
      OF wf_ex_blob_store, OF conjI, OF ex_blob_produced]
  have s: "\<exists>c1 c2. parseTrajectoryBlob ex_env ex_blob_store 1 (BlobParams ''zip'') =
        (\<lparr>cells = cells ex_blob_store @ [(2, c1), (3, c2)], nextRef = 4\<rparr>,
         Inr \<lparr>ref = 3, isOk = True, sel_cell = Some c2\<rparr>) \<and>
      transformer c1 = ParseBlob \<and> isGhost c1 \<and> status c1 = Ok \<and>
      transformer c2 = TrajectoryFromBlob \<and> parent c2 = Some 2 \<and> status c2 = Ok \<and>
      obj c2 = Some (SO_Molecule_Trajectory ''ab'')"
    using T4 by (simp add: ex_nextRef) blast
  note F5 = F [THEN conjunct2, THEN conjunct2, THEN conjunct2, THEN conjunct2, THEN conjunct1,
      rule_format, OF wf_ex_blob_store ex_blob_fails]
  have k: "cells (ex_blob_store\<lparr>nextRef := 4\<rparr>) = cells ex_blob_store"
    using F5 by simp
  from r1 b1 d1 wf_ex_blob_store s ex_blob_fails k r2 b2 g d2 d3 d4 show ?thesis by simp
qed

text \<open>
  C6. A call to \<^verbatim>\<open>parseTrajectory\<close> whose data reference does not resolve (or resolves to
  an invalid cell) aborts with the error \<open>Invalid data cell.\<close> and leaves the store as it
  was, whatever the plugin's providers are: nothing was dispatched. A format name the
  registry does not know aborts the direct parse with an error and leaves the store as it
  was: nothing was committed.
\<close>

theorem parseTrajectory_invalid_aborts:
  "(resolveAndCheck st data = None \<longrightarrow>
      parseTrajectory env st data ps = (st, Inl (Error ''Invalid data cell.''))) \<and>
   (\<forall>c name. resolveAndCheck st data = Some c \<and> \<not> SO_Data_Blob_is (obj c) \<and>
        dataFormat_trajectory_get env name = None \<longrightarrow>
      parseTrajectory env st data (FormatName name) =
        (st, Inl (Error ([CHR 0x27] @ name @ [CHR 0x27] @ '' is not a supported data format.''))))"
  by (simp add: parseTrajectory_def parseTrajectoryData_def)

text \<open>The theorem at two concrete calls: a reference that is not in the store, and a
  string data cell with a format name the registry does not know.\<close>

theorem parseTrajectory_invalid_aborts_witness:
  "resolveAndCheck ex_store 9 = None \<and>
   parseTrajectory ex_env ex_store 9 (FormatName ''pdb'') = (ex_store, Inl (Error ''Invalid data cell.'')) \<and>
   resolveAndCheck ex_store 1 = Some (ex_cell (OtherTransformer ''Download'') (Some 0) (SO_Data_String ''ATOM'')) \<and>
   \<not> SO_Data_Blob_is (obj (ex_cell (OtherTransformer ''Download'') (Some 0) (SO_Data_String ''ATOM''))) \<and>
   dataFormat_trajectory_get ex_env ''xyz'' = None \<and>
   parseTrajectory ex_env ex_store 1 (FormatName ''xyz'') =
     (ex_store, Inl (Error ([CHR 0x27] @ ''xyz'' @ [CHR 0x27] @ '' is not a supported data format.'')))"
proof -
  have a: "resolveAndCheck ex_store 9 = None"
    by (simp add: resolveAndCheck_def ex_store_def)
  have b: "resolveAndCheck ex_store 1 = Some (ex_cell (OtherTransformer ''Download'') (Some 0) (SO_Data_String ''ATOM''))"
    by (simp add: resolveAndCheck_def ex_store_def ex_cell_def)
  have c: "\<not> SO_Data_Blob_is (obj (ex_cell (OtherTransformer ''Download'') (Some 0) (SO_Data_String ''ATOM'')))"
    by (simp add: ex_cell_def)
  have d: "dataFormat_trajectory_get ex_env ''xyz'' = None"
    by (simp add: ex_env_def)
  from parseTrajectory_invalid_aborts [of ex_store 9 ex_env "FormatName ''pdb''"] a
  have e: "parseTrajectory ex_env ex_store 9 (FormatName ''pdb'') = (ex_store, Inl (Error ''Invalid data cell.''))"
    by blast
  from parseTrajectory_invalid_aborts [of ex_store 1 ex_env "FormatName ''pdb''"] b c d
  have f: "parseTrajectory ex_env ex_store 1 (FormatName ''xyz'') =
     (ex_store, Inl (Error ([CHR 0x27] @ ''xyz'' @ [CHR 0x27] @ '' is not a supported data format.'')))"
    by blast
  from a b c d e f show ?thesis by blast
qed

text \<open>
  C7. \<^verbatim>\<open>tryCreateComponentFromSelection\<close> is the run of one task, named
  \<open>Query Component\<close>, whose routine is the whole pipeline: it resolves the structure (no
  node, when it does not resolve), builds the parameters (calling \<^verbatim>\<open>getSelection\<close> with
  the routine's runtime context when the selection references the current one), calls
  \<^verbatim>\<open>ensureCustomProperties\<close> with the same context, and then calls
  \<^verbatim>\<open>tryCreateComponent\<close>; a failure (a cancellation) of either call ends the routine
  with that error and the store as it was. The context both calls are given is that of the
  task: the result does not depend on what they do under any other context.
\<close>

theorem selection_runs_in_query_component_task:
  "(\<exists>work.
      (\<forall>st0. tryCreateComponentFromSelection env st0 s q key opts =
               runTask (Task_create ''Query Component'' work) st0) \<and>
      (\<forall>taskCtx st0. resolved_data st0 s = None \<longrightarrow> work taskCtx st0 = (st0, Inr None)) \<and>
      (\<forall>taskCtx st0 sd e. resolved_data st0 s = Some sd \<and> referencesCurrent q \<and>
           getSelection q taskCtx sd = Inl e \<longrightarrow> work taskCtx st0 = (st0, Inl e)) \<and>
      (\<forall>taskCtx st0 sd tp ensure e. resolved_data st0 s = Some sd \<and>
           transformParams q taskCtx sd opts = Inr tp \<and>
           ensureCustomProperties q = Some ensure \<and> ensure taskCtx sd = Some e \<longrightarrow>
           work taskCtx st0 = (st0, Inl e)) \<and>
      (\<forall>taskCtx st0 sd tp. resolved_data st0 s = Some sd \<and>
           transformParams q taskCtx sd opts = Inr tp \<and>
           (case ensureCustomProperties q of None \<Rightarrow> None | Some ensure \<Rightarrow> ensure taskCtx sd) = None \<longrightarrow>
           work taskCtx st0 = tryCreateComponent env st0 s tp key (option_tags opts))) \<and>
   (\<forall>taskCtx sd. transformParams q taskCtx sd opts =
      (if referencesCurrent q then
         (case getSelection q taskCtx sd of
            Inl e \<Rightarrow> Inl e
          | Inr sel \<Rightarrow>
              Inr \<lparr>ctype = Type_bundle (Bundle_fromSelection sel), nullIfEmpty = True,
                   label = selection_label q opts\<rparr>)
       else
         Inr \<lparr>ctype = Type_expression (expression q), nullIfEmpty = True,
              label = selection_label q opts\<rparr>)) \<and>
   (\<forall>q' :: StructureSelectionQuery. q_label q' = q_label q \<and> expression q' = expression q \<and>
         referencesCurrent q' = referencesCurrent q \<and>
         getSelection q' Query_Component_ctx = getSelection q Query_Component_ctx \<and>
         map_option (\<lambda>f. f Query_Component_ctx) (ensureCustomProperties q') =
           map_option (\<lambda>f. f Query_Component_ctx) (ensureCustomProperties q) \<longrightarrow>
      tryCreateComponentFromSelection env st s q' key opts =
        tryCreateComponentFromSelection env st s q key opts)"
proof (intro conjI allI impI)
  let ?work = "\<lambda>taskCtx st0.
     case resolved_data st0 s of
       None \<Rightarrow> (st0, Inr None)
     | Some structureData \<Rightarrow>
         (case transformParams q taskCtx structureData opts of
            Inl e \<Rightarrow> (st0, Inl e)
          | Inr tp \<Rightarrow>
              (case (case ensureCustomProperties q of
                       None \<Rightarrow> None
                     | Some ensure \<Rightarrow> ensure taskCtx structureData) of
                 Some e \<Rightarrow> (st0, Inl e)
               | None \<Rightarrow> tryCreateComponent env st0 s tp key (option_tags opts)))"
  show "\<exists>work.
      (\<forall>st0. tryCreateComponentFromSelection env st0 s q key opts =
               runTask (Task_create ''Query Component'' work) st0) \<and>
      (\<forall>taskCtx st0. resolved_data st0 s = None \<longrightarrow> work taskCtx st0 = (st0, Inr None)) \<and>
      (\<forall>taskCtx st0 sd e. resolved_data st0 s = Some sd \<and> referencesCurrent q \<and>
           getSelection q taskCtx sd = Inl e \<longrightarrow> work taskCtx st0 = (st0, Inl e)) \<and>
      (\<forall>taskCtx st0 sd tp ensure e. resolved_data st0 s = Some sd \<and>
           transformParams q taskCtx sd opts = Inr tp \<and>
           ensureCustomProperties q = Some ensure \<and> ensure taskCtx sd = Some e \<longrightarrow>
           work taskCtx st0 = (st0, Inl e)) \<and>
      (\<forall>taskCtx st0 sd tp. resolved_data st0 s = Some sd \<and>
           transformParams q taskCtx sd opts = Inr tp \<and>
           (case ensureCustomProperties q of None \<Rightarrow> None | Some ensure \<Rightarrow> ensure taskCtx sd) = None \<longrightarrow>
           work taskCtx st0 = tryCreateComponent env st0 s tp key (option_tags opts))"
    by (rule exI [of _ ?work])
      (auto simp: tryCreateComponentFromSelection_def transformParams_def)
next
  fix taskCtx sd
  show "transformParams q taskCtx sd opts =
      (if referencesCurrent q then
         (case getSelection q taskCtx sd of
            Inl e \<Rightarrow> Inl e
          | Inr sel \<Rightarrow>
              Inr \<lparr>ctype = Type_bundle (Bundle_fromSelection sel), nullIfEmpty = True,
                   label = selection_label q opts\<rparr>)
       else
         Inr \<lparr>ctype = Type_expression (expression q), nullIfEmpty = True,
              label = selection_label q opts\<rparr>)"
    by (simp add: transformParams_def)
next
  fix q' :: StructureSelectionQuery
  assume a: "q_label q' = q_label q \<and> expression q' = expression q \<and>
         referencesCurrent q' = referencesCurrent q \<and>
         getSelection q' Query_Component_ctx = getSelection q Query_Component_ctx \<and>
         map_option (\<lambda>f. f Query_Component_ctx) (ensureCustomProperties q') =
           map_option (\<lambda>f. f Query_Component_ctx) (ensureCustomProperties q)"
  then have t: "transformParams q' Query_Component_ctx sd opts = transformParams q Query_Component_ctx sd opts" for sd
    by (intro transformParams_agree) simp_all
  from a have e: "(case ensureCustomProperties q' of None \<Rightarrow> None | Some ensure \<Rightarrow> ensure Query_Component_ctx sd) =
         (case ensureCustomProperties q of None \<Rightarrow> None | Some ensure \<Rightarrow> ensure Query_Component_ctx sd)" for sd
    by (intro ensure_agree) simp
  show "tryCreateComponentFromSelection env st s q' key opts =
        tryCreateComponentFromSelection env st s q key opts"
  proof (cases "resolved_data st s")
    case None
    then show ?thesis by (simp add: tryCreateComponentFromSelection_eq)
  next
    case (Some sd)
    show ?thesis
    proof (cases "transformParams q Query_Component_ctx sd opts")
      case (Inl err)
      then show ?thesis using Some t [of sd] by (simp add: tryCreateComponentFromSelection_eq)
    next
      case (Inr tp)
      then show ?thesis
        using Some t [of sd] e [of sd] by (simp add: tryCreateComponentFromSelection_eq)
    qed
  qed
qed

text \<open>The theorem on the example store: the query that aborts outside the task named
  \<open>Query Component\<close> goes through, the queries that always abort leave the store as it
  was.\<close>

theorem selection_runs_in_query_component_task_witness:
  "tryCreateComponentFromSelection ex_env ex_store 9 (ex_query True) ''lig'' None = (ex_store, Inr None) \<and>
   tryCreateComponentFromSelection ex_env ex_store 4 ex_aborting_query ''lig'' None =
     (ex_store, Inl (Error ''Aborted'')) \<and>
   tryCreateComponentFromSelection ex_env ex_store 4 ex_aborting_fetch ''lig'' None =
     (ex_store, Inl (Error ''Aborted'')) \<and>
   tryCreateComponentFromSelection ex_env ex_store 4 (ex_query True) ''lig'' None =
     tryCreateComponent ex_env ex_store 4
       \<lparr>ctype = Type_bundle (Bundle_fromSelection [1, 2, 3]), nullIfEmpty = True, label = ''Ligand''\<rparr>
       ''lig'' None \<and>
   tryCreateComponentFromSelection ex_env ex_store 4 ex_lenient_query ''lig'' None =
     tryCreateComponentFromSelection ex_env ex_store 4 (ex_query True) ''lig'' None"
proof -
  have unresolved: "resolved_data ex_store 9 = None"
    by (simp add: resolved_data_def resolveAndCheck_def ex_store_def)
  have name: "Query_Component_ctx = \<lparr>task_name = ''Query Component''\<rparr>"
    by (simp add: Query_Component_ctx_def)
  have a: "tryCreateComponentFromSelection ex_env ex_store 9 (ex_query True) ''lig'' None = (ex_store, Inr None)"
  proof -
    from selection_runs_in_query_component_task [of ex_env 9 "ex_query True" "''lig''" None ex_store, THEN conjunct1]
    obtain work where
      w: "\<forall>st0. tryCreateComponentFromSelection ex_env st0 9 (ex_query True) ''lig'' None =
               runTask (Task_create ''Query Component'' work) st0"
      and n: "\<forall>taskCtx st0. resolved_data st0 9 = None \<longrightarrow> work taskCtx st0 = (st0, Inr None)"
      by - (erule exE, elim conjE, blast)
    from w n unresolved show ?thesis by (simp add: runTask_def Task_create_def)
  qed
  have b: "tryCreateComponentFromSelection ex_env ex_store 4 ex_aborting_query ''lig'' None =
     (ex_store, Inl (Error ''Aborted''))"
  proof -
    from selection_runs_in_query_component_task [of ex_env 4 ex_aborting_query "''lig''" None ex_store, THEN conjunct1]
    obtain work where
      w: "\<forall>st0. tryCreateComponentFromSelection ex_env st0 4 ex_aborting_query ''lig'' None =
               runTask (Task_create ''Query Component'' work) st0"
      and n: "\<forall>taskCtx st0 sd e. resolved_data st0 4 = Some sd \<and> referencesCurrent ex_aborting_query \<and>
           getSelection ex_aborting_query taskCtx sd = Inl e \<longrightarrow> work taskCtx st0 = (st0, Inl e)"
      by - (erule exE, elim conjE, blast)
    have "work \<lparr>task_name = ''Query Component''\<rparr> ex_store = (ex_store, Inl (Error ''Aborted''))"
      by (rule n [rule_format, of ex_store "SO_Molecule_Structure 100"])
        (simp add: ex_resolved_structure ex_aborting_query_def)
    with w show ?thesis by (simp add: runTask_def Task_create_def)
  qed
  have c: "tryCreateComponentFromSelection ex_env ex_store 4 ex_aborting_fetch ''lig'' None =
     (ex_store, Inl (Error ''Aborted''))"
  proof -
    from selection_runs_in_query_component_task [of ex_env 4 ex_aborting_fetch "''lig''" None ex_store, THEN conjunct1]
    obtain work where
      w: "\<forall>st0. tryCreateComponentFromSelection ex_env st0 4 ex_aborting_fetch ''lig'' None =
               runTask (Task_create ''Query Component'' work) st0"
      and n: "\<forall>taskCtx st0 sd tp ensure e. resolved_data st0 4 = Some sd \<and>
           transformParams ex_aborting_fetch taskCtx sd None = Inr tp \<and>
           ensureCustomProperties ex_aborting_fetch = Some ensure \<and> ensure taskCtx sd = Some e \<longrightarrow>
           work taskCtx st0 = (st0, Inl e)"
      by - (erule exE, elim conjE, blast)
    have "work \<lparr>task_name = ''Query Component''\<rparr> ex_store = (ex_store, Inl (Error ''Aborted''))"
      by (rule n [rule_format, of ex_store "SO_Molecule_Structure 100" _ _
            "\<lambda>ctx sd. Some (Error ''Aborted'')"])
        (simp add: ex_resolved_structure ex_aborting_fetch_def transformParams_def)
    with w show ?thesis by (simp add: runTask_def Task_create_def)
  qed
  have d: "tryCreateComponentFromSelection ex_env ex_store 4 (ex_query True) ''lig'' None =
     tryCreateComponent ex_env ex_store 4
       \<lparr>ctype = Type_bundle (Bundle_fromSelection [1, 2, 3]), nullIfEmpty = True, label = ''Ligand''\<rparr>
       ''lig'' None"
  proof -
    from selection_runs_in_query_component_task [of ex_env 4 "ex_query True" "''lig''" None ex_store, THEN conjunct1]
    obtain work where
      w: "\<forall>st0. tryCreateComponentFromSelection ex_env st0 4 (ex_query True) ''lig'' None =
               runTask (Task_create ''Query Component'' work) st0"
      and n: "\<forall>taskCtx st0 sd tp. resolved_data st0 4 = Some sd \<and>
           transformParams (ex_query True) taskCtx sd None = Inr tp \<and>
           (case ensureCustomProperties (ex_query True) of None \<Rightarrow> None | Some ensure \<Rightarrow> ensure taskCtx sd) = None \<longrightarrow>
           work taskCtx st0 = tryCreateComponent ex_env st0 4 tp ''lig'' (option_tags None)"
      by - (erule exE, elim conjE, blast)
    have "work \<lparr>task_name = ''Query Component''\<rparr> ex_store =
        tryCreateComponent ex_env ex_store 4
          \<lparr>ctype = Type_bundle (Bundle_fromSelection [1, 2, 3]), nullIfEmpty = True, label = ''Ligand''\<rparr>
          ''lig'' (option_tags None)"
      by (rule n [rule_format, of ex_store "SO_Molecule_Structure 100"])
        (simp add: ex_resolved_structure ex_query_def transformParams_def selection_label_def
          option_label_def caller_label_def trim_def)
    with w show ?thesis by (simp add: runTask_def Task_create_def option_tags_def)
  qed
  have e: "tryCreateComponentFromSelection ex_env ex_store 4 ex_lenient_query ''lig'' None =
     tryCreateComponentFromSelection ex_env ex_store 4 (ex_query True) ''lig'' None"
    using selection_runs_in_query_component_task [of ex_env 4 "ex_query True" "''lig''" None ex_store]
    by (elim conjE, erule_tac x = ex_lenient_query in allE)
      (simp add: ex_lenient_query_def ex_query_def name fun_eq_iff)
  from a b c d e show ?thesis by simp
qed

text \<open>
  C8. \<^verbatim>\<open>tryCreateUnitcell\<close> returns no node and leaves the store as it was when the model
  reference does not resolve to data, or when \<^verbatim>\<open>SpacegroupCell.isZero\<close> holds of the
  model's spacegroup cell; it returns no node in these cases only: otherwise it commits and
  returns the selector of the unit cell node it staged. On a well-formed store, when the
  production succeeds the store has grown by exactly that node, under the model and Ok,
  and the selector is that node's; when the production fails the commit is reverted, the
  cells are as they were, and the selector is not ok.
\<close>

theorem tryCreateUnitcell_guard:
  "((resolved_data st model = None \<or>
     (\<exists>m. resolved_data st model = Some m \<and>
          SpacegroupCell_isZero env (map_option spacegroup_cell (ModelSymmetry_get env m)))) \<longrightarrow>
      tryCreateUnitcell env st model ps initialState = (st, Inr None)) \<and>
   (snd (tryCreateUnitcell env st model ps initialState) = Inr None \<longrightarrow>
      (resolved_data st model = None \<or>
       (\<exists>m. resolved_data st model = Some m \<and>
            SpacegroupCell_isZero env (map_option spacegroup_cell (ModelSymmetry_get env m))))) \<and>
   (\<forall>m. resolved_data st model = Some m \<and>
        \<not> SpacegroupCell_isZero env (map_option spacegroup_cell (ModelSymmetry_get env m)) \<longrightarrow>
      (\<exists>sel. snd (tryCreateUnitcell env st model ps initialState) = Inr (Some sel) \<and>
             ref sel = nextRef st)) \<and>
   (wf_store st \<longrightarrow>
      (\<forall>m v. resolved_data st model = Some m \<and>
           \<not> SpacegroupCell_isZero env (map_option spacegroup_cell (ModelSymmetry_get env m)) \<and>
           produced (produce env) (cells st) model ModelUnitcell3D (custom_params ps) = Inr v \<longrightarrow>
         (\<exists>c. tryCreateUnitcell env st model ps initialState =
                (\<lparr>cells = cells st @ [(nextRef st, c)], nextRef = Suc (nextRef st)\<rparr>,
                 Inr (Some \<lparr>ref = nextRef st, isOk = True, sel_cell = Some c\<rparr>)) \<and>
              transformer c = ModelUnitcell3D \<and> parent c = Some model \<and>
              params c = custom_params ps \<and> status c = Ok \<and> obj c = Some v))) \<and>
   (wf_store st \<longrightarrow>
      (\<forall>m e. resolved_data st model = Some m \<and>
           \<not> SpacegroupCell_isZero env (map_option spacegroup_cell (ModelSymmetry_get env m)) \<and>
           produced (produce env) (cells st) model ModelUnitcell3D (custom_params ps) = Inl e \<longrightarrow>
         tryCreateUnitcell env st model ps initialState =
           (st\<lparr>nextRef := Suc (nextRef st)\<rparr>,
            Inr (Some \<lparr>ref = nextRef st, isOk = False, sel_cell = None\<rparr>))))"
proof (intro conjI allI impI)
  fix m
  assume "resolved_data st model = Some m \<and>
        \<not> SpacegroupCell_isZero env (map_option spacegroup_cell (ModelSymmetry_get env m))"
  then show "\<exists>sel. snd (tryCreateUnitcell env st model ps initialState) = Inr (Some sel) \<and>
             ref sel = nextRef st"
    by (intro tryCreateUnitcell_selector [of st model m env]) simp_all
next
  fix m v
  assume wf: "wf_store st"
    and a: "resolved_data st model = Some m \<and>
           \<not> SpacegroupCell_isZero env (map_option spacegroup_cell (ModelSymmetry_get env m)) \<and>
           produced (produce env) (cells st) model ModelUnitcell3D (custom_params ps) = Inr v"
  then show "\<exists>c. tryCreateUnitcell env st model ps initialState =
                (\<lparr>cells = cells st @ [(nextRef st, c)], nextRef = Suc (nextRef st)\<rparr>,
                 Inr (Some \<lparr>ref = nextRef st, isOk = True, sel_cell = Some c\<rparr>)) \<and>
              transformer c = ModelUnitcell3D \<and> parent c = Some model \<and>
              params c = custom_params ps \<and> status c = Ok \<and> obj c = Some v"
    by (simp add: tryCreateUnitcell_run [OF wf, of model m env] Let_def)
next
  fix m e
  assume wf: "wf_store st"
    and a: "resolved_data st model = Some m \<and>
           \<not> SpacegroupCell_isZero env (map_option spacegroup_cell (ModelSymmetry_get env m)) \<and>
           produced (produce env) (cells st) model ModelUnitcell3D (custom_params ps) = Inl e"
  then show "tryCreateUnitcell env st model ps initialState =
           (st\<lparr>nextRef := Suc (nextRef st)\<rparr>,
            Inr (Some \<lparr>ref = nextRef st, isOk = False, sel_cell = None\<rparr>))"
    by (simp add: tryCreateUnitcell_run [OF wf, of model m env])
qed (auto simp: tryCreateUnitcell_def Let_def split: option.splits prod.splits if_splits)

text \<open>The theorem on an unresolved reference, on models with the zero cell or without
  symmetry, on a model with a cell, and with a failing production.\<close>

theorem tryCreateUnitcell_guard_witness:
  "resolved_data ex_store 9 = None \<and>
   tryCreateUnitcell ex_env ex_store 9 None None = (ex_store, Inr None) \<and>
   resolved_data ex_nmr_store 1 = Some (SO_Molecule_Model ''nmr'') \<and>
   SpacegroupCell_isZero ex_env
     (map_option spacegroup_cell (ModelSymmetry_get ex_env (SO_Molecule_Model ''nmr''))) \<and>
   tryCreateUnitcell ex_env ex_nmr_store 1 None None = (ex_nmr_store, Inr None) \<and>
   tryCreateUnitcell ex_env ex_nmr_store 2 None None = (ex_nmr_store, Inr None) \<and>
   wf_store ex_store \<and>
   resolved_data ex_store 3 = Some (SO_Molecule_Model ''1abc'') \<and>
   \<not> SpacegroupCell_isZero ex_env
       (map_option spacegroup_cell (ModelSymmetry_get ex_env (SO_Molecule_Model ''1abc''))) \<and>
   (\<exists>c. tryCreateUnitcell ex_env ex_store 3 None None =
          (\<lparr>cells = cells ex_store @ [(5, c)], nextRef = 6\<rparr>,
           Inr (Some \<lparr>ref = 5, isOk = True, sel_cell = Some c\<rparr>)) \<and>
        transformer c = ModelUnitcell3D \<and> parent c = Some 3 \<and> status c = Ok \<and>
        obj c = Some (SO_Shape_Representation3D ''unitcell'')) \<and>
   tryCreateUnitcell ex_all_fail ex_store 3 None None =
     (ex_store\<lparr>nextRef := 6\<rparr>, Inr (Some \<lparr>ref = 5, isOk = False, sel_cell = None\<rparr>))"
proof -
  note A = tryCreateUnitcell_guard [of ex_store 9 ex_env None None]
  note B = tryCreateUnitcell_guard [of ex_nmr_store 1 ex_env None None]
  note B' = tryCreateUnitcell_guard [of ex_nmr_store 2 ex_env None None]
  note C = tryCreateUnitcell_guard [of ex_store 3 ex_env None None]
  note D = tryCreateUnitcell_guard [of ex_store 3 ex_all_fail None None]
  from A ex_unitcell_zero(3)
  have a: "tryCreateUnitcell ex_env ex_store 9 None None = (ex_store, Inr None)" by simp
  from B ex_unitcell_zero(1,2)
  have b: "tryCreateUnitcell ex_env ex_nmr_store 1 None None = (ex_nmr_store, Inr None)" by simp
  from B' ex_unitcell_zero(4,5)
  have b': "tryCreateUnitcell ex_env ex_nmr_store 2 None None = (ex_nmr_store, Inr None)" by simp
  have c: "\<exists>c. tryCreateUnitcell ex_env ex_store 3 None None =
          (\<lparr>cells = cells ex_store @ [(5, c)], nextRef = 6\<rparr>,
           Inr (Some \<lparr>ref = 5, isOk = True, sel_cell = Some c\<rparr>)) \<and>
        transformer c = ModelUnitcell3D \<and> parent c = Some 3 \<and> status c = Ok \<and>
        obj c = Some (SO_Shape_Representation3D ''unitcell'')"
    using C [THEN conjunct2, THEN conjunct2, THEN conjunct2, THEN conjunct1, rule_format,
        OF wf_ex_store, of "SO_Molecule_Model ''1abc''" "SO_Shape_Representation3D ''unitcell''"]
      ex_unitcell_guard_ok ex_unitcell_produced
    by (simp add: ex_nextRef) blast
  have d: "tryCreateUnitcell ex_all_fail ex_store 3 None None =
     (ex_store\<lparr>nextRef := 6\<rparr>, Inr (Some \<lparr>ref = 5, isOk = False, sel_cell = None\<rparr>))"
    using D [THEN conjunct2, THEN conjunct2, THEN conjunct2, THEN conjunct2, rule_format,
        OF wf_ex_store, of "SO_Molecule_Model ''1abc''" "''failed''"]
      ex_unitcell_guard ex_all_fail_produced [of ModelUnitcell3D 3]
    by (simp add: ex_nextRef)
  from a b b' c d ex_unitcell_zero ex_unitcell_guard_ok wf_ex_store show ?thesis by simp
qed

text \<open>
  C9. \<^verbatim>\<open>createStructure\<close> without parameters behaves as with \<open>deposited\<close> (and empty
  parameters) when the model resolves and has no symmetry or no assembly, and as with
  \<open>assembly\<close> otherwise; \<^verbatim>\<open>createModel\<close> without parameters behaves as with
  \<open>modelIndex\<close> 0. Parameters the caller supplies are the parameters of the committed
  node: on a well-formed store, when the production succeeds the step adds the node with
  them, Ok; and in every case the store either keeps its cells or has grown by one node
  that has them.
\<close>

theorem default_params:
  "createStructure env st modelRef None ts =
     createStructure env st modelRef
       (Some (if no_assembly env st modelRef
              then \<lparr>rsd_name = ''deposited'', rsd_params = []\<rparr>
              else \<lparr>rsd_name = ''assembly'', rsd_params = []\<rparr>)) ts \<and>
   (wf_store st \<longrightarrow>
      (\<forall>p v. produced (produce env) (cells st) modelRef StructureFromModel
                (StructureFromModel_Params p) = Inr v \<longrightarrow>
         (\<exists>c. createStructure env st modelRef (Some p) ts =
                (\<lparr>cells = cells st @ [(nextRef st, c)], nextRef = Suc (nextRef st)\<rparr>,
                 Inr \<lparr>ref = nextRef st, isOk = True, sel_cell = Some c\<rparr>) \<and>
              transformer c = StructureFromModel \<and> params c = StructureFromModel_Params p \<and>
              parent c = Some modelRef \<and> status c = Ok \<and> obj c = Some v))) \<and>
   (\<forall>p. cells (fst (createStructure env st modelRef (Some p) ts)) = cells st \<or>
        (\<exists>c. cells (fst (createStructure env st modelRef (Some p) ts)) = cells st @ [(nextRef st, c)] \<and>
             transformer c = StructureFromModel \<and> params c = StructureFromModel_Params p \<and>
             parent c = Some modelRef \<and> status c = Ok)) \<and>
   createModel env st trajectory None ts' =
     createModel env st trajectory (Some \<lparr>modelIndex = 0\<rparr>) ts' \<and>
   (wf_store st \<longrightarrow>
      (\<forall>p v. produced (produce env) (cells st) trajectory ModelFromTrajectory
                (ModelFromTrajectory_Params p) = Inr v \<longrightarrow>
         (\<exists>c. createModel env st trajectory (Some p) ts' =
                (\<lparr>cells = cells st @ [(nextRef st, c)], nextRef = Suc (nextRef st)\<rparr>,
                 Inr \<lparr>ref = nextRef st, isOk = True, sel_cell = Some c\<rparr>) \<and>
              transformer c = ModelFromTrajectory \<and> params c = ModelFromTrajectory_Params p \<and>
              parent c = Some trajectory \<and> status c = Ok \<and> obj c = Some v))) \<and>
   (\<forall>p. cells (fst (createModel env st trajectory (Some p) ts')) = cells st \<or>
        (\<exists>c. cells (fst (createModel env st trajectory (Some p) ts')) = cells st @ [(nextRef st, c)] \<and>
             transformer c = ModelFromTrajectory \<and> params c = ModelFromTrajectory_Params p \<and>
             parent c = Some trajectory \<and> status c = Ok))"
proof (intro conjI allI impI)
  show "createStructure env st modelRef None ts =
     createStructure env st modelRef
       (Some (if no_assembly env st modelRef
              then \<lparr>rsd_name = ''deposited'', rsd_params = []\<rparr>
              else \<lparr>rsd_name = ''assembly'', rsd_params = []\<rparr>)) ts"
    by (rule createStructure_default)
next
  show "createModel env st trajectory None ts' =
     createModel env st trajectory (Some \<lparr>modelIndex = 0\<rparr>) ts'"
    by (rule createModel_default)
next
  fix p v
  assume wf: "wf_store st"
    and "produced (produce env) (cells st) modelRef StructureFromModel (StructureFromModel_Params p) = Inr v"
  then show "\<exists>c. createStructure env st modelRef (Some p) ts =
                (\<lparr>cells = cells st @ [(nextRef st, c)], nextRef = Suc (nextRef st)\<rparr>,
                 Inr \<lparr>ref = nextRef st, isOk = True, sel_cell = Some c\<rparr>) \<and>
              transformer c = StructureFromModel \<and> params c = StructureFromModel_Params p \<and>
              parent c = Some modelRef \<and> status c = Ok \<and> obj c = Some v"
    by (simp add: createStructure_run [OF wf] Let_def)
next
  fix p v
  assume wf: "wf_store st"
    and "produced (produce env) (cells st) trajectory ModelFromTrajectory (ModelFromTrajectory_Params p) = Inr v"
  then show "\<exists>c. createModel env st trajectory (Some p) ts' =
                (\<lparr>cells = cells st @ [(nextRef st, c)], nextRef = Suc (nextRef st)\<rparr>,
                 Inr \<lparr>ref = nextRef st, isOk = True, sel_cell = Some c\<rparr>) \<and>
              transformer c = ModelFromTrajectory \<and> params c = ModelFromTrajectory_Params p \<and>
              parent c = Some trajectory \<and> status c = Ok \<and> obj c = Some v"
    by (simp add: createModel_run [OF wf] Let_def)
next
  fix p
  show "cells (fst (createStructure env st modelRef (Some p) ts)) = cells st \<or>
        (\<exists>c. cells (fst (createStructure env st modelRef (Some p) ts)) = cells st @ [(nextRef st, c)] \<and>
             transformer c = StructureFromModel \<and> params c = StructureFromModel_Params p \<and>
             parent c = Some modelRef \<and> status c = Ok)"
    using staged_insert_cells [of env st modelRef StructureFromModel "StructureFromModel_Params p"
        "initial_options ts"]
    by (simp add: createStructure_def Let_def case_prod_beta)
next
  fix p
  show "cells (fst (createModel env st trajectory (Some p) ts')) = cells st \<or>
        (\<exists>c. cells (fst (createModel env st trajectory (Some p) ts')) = cells st @ [(nextRef st, c)] \<and>
             transformer c = ModelFromTrajectory \<and> params c = ModelFromTrajectory_Params p \<and>
             parent c = Some trajectory \<and> status c = Ok)"
    using staged_insert_cells [of env st trajectory ModelFromTrajectory "ModelFromTrajectory_Params p"
        "initial_options ts'"]
    by (simp add: createModel_def Let_def case_prod_beta)
qed

text \<open>The theorem on a model without assembly, a model without symmetry, a model with an
  assembly, and with parameters supplied.\<close>

theorem default_params_witness:
  "wf_store ex_nmr_store \<and> wf_store ex_store \<and>
   no_assembly ex_env ex_nmr_store 1 \<and>
   (\<exists>c. createStructure ex_env ex_nmr_store 1 None None =
          (\<lparr>cells = cells ex_nmr_store @ [(3, c)], nextRef = 4\<rparr>,
           Inr \<lparr>ref = 3, isOk = True, sel_cell = Some c\<rparr>) \<and>
        params c = StructureFromModel_Params \<lparr>rsd_name = ''deposited'', rsd_params = []\<rparr> \<and>
        status c = Ok) \<and>
   no_assembly ex_env ex_nmr_store 2 \<and>
   (\<exists>c. createStructure ex_env ex_nmr_store 2 None None =
          (\<lparr>cells = cells ex_nmr_store @ [(3, c)], nextRef = 4\<rparr>,
           Inr \<lparr>ref = 3, isOk = True, sel_cell = Some c\<rparr>) \<and>
        params c = StructureFromModel_Params \<lparr>rsd_name = ''deposited'', rsd_params = []\<rparr> \<and>
        status c = Ok) \<and>
   \<not> no_assembly ex_env ex_store 3 \<and>
   (\<exists>c. createStructure ex_env ex_store 3 None None =
          (\<lparr>cells = cells ex_store @ [(5, c)], nextRef = 6\<rparr>,
           Inr \<lparr>ref = 5, isOk = True, sel_cell = Some c\<rparr>) \<and>
        params c = StructureFromModel_Params \<lparr>rsd_name = ''assembly'', rsd_params = []\<rparr> \<and>
        status c = Ok) \<and>
   (\<exists>c. createStructure ex_env ex_store 3
          (Some \<lparr>rsd_name = ''symmetry'', rsd_params = [(''ijkMin'', ''-1'')]\<rparr>) None =
          (\<lparr>cells = cells ex_store @ [(5, c)], nextRef = 6\<rparr>,
           Inr \<lparr>ref = 5, isOk = True, sel_cell = Some c\<rparr>) \<and>
        params c = StructureFromModel_Params \<lparr>rsd_name = ''symmetry'', rsd_params = [(''ijkMin'', ''-1'')]\<rparr> \<and>
        status c = Ok) \<and>
   (\<exists>c. createModel ex_env ex_store 2 None None =
          (\<lparr>cells = cells ex_store @ [(5, c)], nextRef = 6\<rparr>,
           Inr \<lparr>ref = 5, isOk = True, sel_cell = Some c\<rparr>) \<and>
        params c = ModelFromTrajectory_Params \<lparr>modelIndex = 0\<rparr> \<and> status c = Ok)"
proof -
  let ?dep = "\<lparr>rsd_name = ''deposited'', rsd_params = []\<rparr>"
  let ?asm = "\<lparr>rsd_name = ''assembly'', rsd_params = []\<rparr>"
  let ?sym = "\<lparr>rsd_name = ''symmetry'', rsd_params = [(''ijkMin'', ''-1'')]\<rparr>"
  note A = default_params [of ex_env ex_nmr_store 1 None 0 None]
  note B = default_params [of ex_env ex_nmr_store 2 None 0 None]
  note C = default_params [of ex_env ex_store 3 None 2 None]
  note A2 = A [THEN conjunct2, THEN conjunct1, rule_format, OF wf_ex_nmr_store]
  note B2 = B [THEN conjunct2, THEN conjunct1, rule_format, OF wf_ex_nmr_store]
  note C2 = C [THEN conjunct2, THEN conjunct1, rule_format, OF wf_ex_store]
  note C5 = C [THEN conjunct2, THEN conjunct2, THEN conjunct2, THEN conjunct2, THEN conjunct1,
      rule_format, OF wf_ex_store]
  have a: "\<exists>c. createStructure ex_env ex_nmr_store 1 None None =
          (\<lparr>cells = cells ex_nmr_store @ [(3, c)], nextRef = 4\<rparr>,
           Inr \<lparr>ref = 3, isOk = True, sel_cell = Some c\<rparr>) \<and>
        params c = StructureFromModel_Params ?dep \<and> status c = Ok"
    using A [THEN conjunct1] ex_no_assembly(1) A2 [OF ex_structure_produced(2), of ?dep]
    by (simp add: ex_nextRef) blast
  have b: "\<exists>c. createStructure ex_env ex_nmr_store 2 None None =
          (\<lparr>cells = cells ex_nmr_store @ [(3, c)], nextRef = 4\<rparr>,
           Inr \<lparr>ref = 3, isOk = True, sel_cell = Some c\<rparr>) \<and>
        params c = StructureFromModel_Params ?dep \<and> status c = Ok"
    using B [THEN conjunct1] ex_no_assembly(2) B2 [OF ex_structure_produced(3), of ?dep]
    by (simp add: ex_nextRef) blast
  have c: "\<exists>c. createStructure ex_env ex_store 3 None None =
          (\<lparr>cells = cells ex_store @ [(5, c)], nextRef = 6\<rparr>,
           Inr \<lparr>ref = 5, isOk = True, sel_cell = Some c\<rparr>) \<and>
        params c = StructureFromModel_Params ?asm \<and> status c = Ok"
    using C [THEN conjunct1] ex_no_assembly(3) C2 [OF ex_structure_produced(1), of ?asm]
    by (simp add: ex_nextRef) blast
  have d: "\<exists>c. createStructure ex_env ex_store 3 (Some ?sym) None =
          (\<lparr>cells = cells ex_store @ [(5, c)], nextRef = 6\<rparr>,
           Inr \<lparr>ref = 5, isOk = True, sel_cell = Some c\<rparr>) \<and>
        params c = StructureFromModel_Params ?sym \<and> status c = Ok"
    using C2 [OF ex_structure_produced(1), of ?sym]
    by (simp add: ex_nextRef) blast
  have e: "\<exists>c. createModel ex_env ex_store 2 None None =
          (\<lparr>cells = cells ex_store @ [(5, c)], nextRef = 6\<rparr>,
           Inr \<lparr>ref = 5, isOk = True, sel_cell = Some c\<rparr>) \<and>
        params c = ModelFromTrajectory_Params \<lparr>modelIndex = 0\<rparr> \<and> status c = Ok"
    using C [THEN conjunct2, THEN conjunct2, THEN conjunct2, THEN conjunct1]
      C5 [OF ex_model_produced]
    by (simp add: ex_nextRef) blast
  from a b c d e ex_no_assembly wf_ex_nmr_store wf_ex_store show ?thesis by simp
qed

text \<open>
  C10, as amended. On a well-formed store, every node \<^verbatim>\<open>tryCreateComponent\<close> returns
  carries the key tag \<open>structure-component-<key>\<close> and has the parameters of the call. A
  node it created has as its tags the caller-supplied tags followed by
  \<open>structure-component\<close> and the key tag; a node it updated in place has the tags it had
  before. The node returned through \<^verbatim>\<open>tryCreateComponentFromExpression\<close> or
  \<^verbatim>\<open>tryCreateComponentStatic\<close> has \<open>nullIfEmpty\<close> true and as its label the trimmed
  caller-supplied label (the empty string when absent); the node returned through
  \<^verbatim>\<open>tryCreateComponentFromSelection\<close> has \<open>nullIfEmpty\<close> true and as its label the
  trimmed caller-supplied label when that is not empty, and the selection's label
  otherwise. The trimmed label is the caller-supplied label without the white space at its
  two ends: it is empty, or begins and ends with a character that is not white space.
\<close>

theorem component_tags_and_params:
  "(wf_store st \<longrightarrow>
     (\<forall>st' sel. tryCreateComponent env st s ps key tgs = (st', Inr (Some sel)) \<longrightarrow>
        (\<exists>c. map_of (cells st') (ref sel) = Some c \<and> sel_cell sel = Some c \<and>
             params c = StructureComponent_Params ps \<and> keyTag key \<in> set (tags c) \<and>
             (map_of (cells st) (ref sel) = None \<longrightarrow>
                tags c = (case tgs of None \<Rightarrow> [] | Some ts \<Rightarrow> ts) @
                           [StructureBuilderTags_Component, keyTag key]) \<and>
             (\<forall>c0. map_of (cells st) (ref sel) = Some c0 \<longrightarrow> tags c = tags c0)))) \<and>
   (wf_store st \<longrightarrow>
     (\<forall>st' sel. tryCreateComponentFromExpression env st s e key opts = (st', Inr (Some sel)) \<longrightarrow>
        (\<exists>c. map_of (cells st') (ref sel) = Some c \<and>
             params c = StructureComponent_Params
               \<lparr>ctype = Type_expression e, nullIfEmpty = True, label = option_label opts\<rparr>))) \<and>
   (wf_store st \<longrightarrow>
     (\<forall>st' sel. tryCreateComponentStatic env st s t key opts = (st', Inr (Some sel)) \<longrightarrow>
        (\<exists>c. map_of (cells st') (ref sel) = Some c \<and>
             params c = StructureComponent_Params
               \<lparr>ctype = Type_static t, nullIfEmpty = True, label = option_label opts\<rparr>))) \<and>
   (wf_store st \<longrightarrow>
     (\<forall>st' sel. tryCreateComponentFromSelection env st s q key opts = (st', Inr (Some sel)) \<longrightarrow>
        (\<exists>c tp. map_of (cells st') (ref sel) = Some c \<and> params c = StructureComponent_Params tp \<and>
             nullIfEmpty tp \<and>
             label tp = (if option_label opts = [] then q_label q else option_label opts)))) \<and>
   (\<exists>pre post. caller_label opts = pre @ option_label opts @ post \<and>
        list_all is_space pre \<and> list_all is_space post) \<and>
   (option_label opts = [] \<or>
    (\<not> is_space (hd (option_label opts)) \<and> \<not> is_space (last (option_label opts))))"
proof (intro conjI impI allI)
  fix st' sel
  assume wf: "wf_store st" and run: "tryCreateComponent env st s ps key tgs = (st', Inr (Some sel))"
  from tryCreateComponent_node [OF wf run]
  show "\<exists>c. map_of (cells st') (ref sel) = Some c \<and> sel_cell sel = Some c \<and>
             params c = StructureComponent_Params ps \<and> keyTag key \<in> set (tags c) \<and>
             (map_of (cells st) (ref sel) = None \<longrightarrow>
                tags c = (case tgs of None \<Rightarrow> [] | Some ts \<Rightarrow> ts) @
                           [StructureBuilderTags_Component, keyTag key]) \<and>
             (\<forall>c0. map_of (cells st) (ref sel) = Some c0 \<longrightarrow> tags c = tags c0)"
    by (elim exE conjE, intro exI conjI)
      (assumption | simp add: component_tags_def split: option.splits)+
next
  show "\<exists>pre post. caller_label opts = pre @ option_label opts @ post \<and>
        list_all is_space pre \<and> list_all is_space post"
    unfolding option_label_trim by (rule trim_split)
next
  show "option_label opts = [] \<or>
    (\<not> is_space (hd (option_label opts)) \<and> \<not> is_space (last (option_label opts)))"
    unfolding option_label_trim by (rule trim_ends)
qed (erule (1) wrapper_nodes)+

text \<open>The theorem on the example stores: a component created with the tag \<open>extra\<close>, a
  component updated in place, and the three wrappers, one with a label that has white space
  and line terminators at both ends.\<close>

theorem component_tags_and_params_witness:
  "wf_store ex_store \<and> wf_store ex_water_store \<and>
   (\<exists>st' sel c. tryCreateComponent ex_env ex_store 4 (ex_params ''Water'') ''water'' (Some [''extra'']) =
        (st', Inr (Some sel)) \<and>
      map_of (cells ex_store) (ref sel) = None \<and>
      map_of (cells st') (ref sel) = Some c \<and>
      params c = StructureComponent_Params (ex_params ''Water'') \<and>
      tags c = [''extra'', StructureBuilderTags_Component, keyTag ''water'']) \<and>
   (\<exists>st' sel c. tryCreateComponent ex_env ex_water_store 4 (ex_params ''Second'') ''water'' None =
        (st', Inr (Some sel)) \<and>
      map_of (cells ex_water_store) (ref sel) = Some (ex_component ''water'' ''Water'' 7) \<and>
      map_of (cells st') (ref sel) = Some c \<and>
      params c = StructureComponent_Params (ex_params ''Second'') \<and>
      tags c = [StructureBuilderTags_Component, keyTag ''water'']) \<and>
   (\<exists>st' sel c. tryCreateComponentFromExpression ex_env ex_store 4 ''polymer'' ''pol'' ex_padded_label =
        (st', Inr (Some sel)) \<and>
      map_of (cells st') (ref sel) = Some c \<and>
      params c = StructureComponent_Params
        \<lparr>ctype = Type_expression ''polymer'', nullIfEmpty = True, label = ''Chain A''\<rparr>) \<and>
   (\<exists>st' sel c. tryCreateComponentStatic ex_env ex_store 4 ''water'' ''wat'' None =
        (st', Inr (Some sel)) \<and>
      map_of (cells st') (ref sel) = Some c \<and>
      params c = StructureComponent_Params
        \<lparr>ctype = Type_static ''water'', nullIfEmpty = True, label = []\<rparr>) \<and>
   (\<exists>st' sel c tp. tryCreateComponentFromSelection ex_env ex_store 4 (ex_query True) ''lig'' None =
        (st', Inr (Some sel)) \<and>
      map_of (cells st') (ref sel) = Some c \<and> params c = StructureComponent_Params tp \<and>
      nullIfEmpty tp \<and> label tp = ''Ligand'') \<and>
   caller_label ex_padded_label =
     [CHR 0xA0, CHR 0x09, CHR 0x0A] @ ''Chain A'' @ [CHR 0x0B, CHR 0x0C, CHR 0x0D, CHR 0x20] \<and>
   option_label ex_padded_label = ''Chain A'' \<and>
   \<not> is_space (hd ''Chain A'') \<and> \<not> is_space (last ''Chain A'')"
proof -
  note A = component_tags_and_params [where st = ex_store and env = ex_env and s = 4
      and ps = "ex_params ''Water''" and key = "''water''" and tgs = "Some [''extra'']",
      THEN conjunct1, rule_format, OF wf_ex_store]
  note A' = component_tags_and_params [where st = ex_water_store and env = ex_env and s = 4
      and ps = "ex_params ''Second''" and key = "''water''" and tgs = None,
      THEN conjunct1, rule_format, OF wf_ex_water_store ex_update_second]
  note B = component_tags_and_params [where st = ex_store and env = ex_env and s = 4
      and e = "''polymer''" and key = "''pol''" and opts = ex_padded_label,
      THEN conjunct2, THEN conjunct1, rule_format, OF wf_ex_store]
  note C = component_tags_and_params [where st = ex_store and env = ex_env and s = 4
      and t = "''water''" and key = "''wat''" and opts = None,
      THEN conjunct2, THEN conjunct2, THEN conjunct1, rule_format, OF wf_ex_store]
  note D = component_tags_and_params [where st = ex_store and env = ex_env and s = 4
      and q = "ex_query True" and key = "''lig''" and opts = None,
      THEN conjunct2, THEN conjunct2, THEN conjunct2, THEN conjunct1, rule_format, OF wf_ex_store]
  note E = component_tags_and_params [where opts = ex_padded_label,
      THEN conjunct2, THEN conjunct2, THEN conjunct2, THEN conjunct2, THEN conjunct2]
  have f: "map_of (cells ex_store) 5 = None" by (simp add: ex_store_def)
  have a: "\<exists>st' sel c. tryCreateComponent ex_env ex_store 4 (ex_params ''Water'') ''water'' (Some [''extra'']) =
        (st', Inr (Some sel)) \<and>
      map_of (cells ex_store) (ref sel) = None \<and>
      map_of (cells st') (ref sel) = Some c \<and>
      params c = StructureComponent_Params (ex_params ''Water'') \<and>
      tags c = [''extra'', StructureBuilderTags_Component, keyTag ''water'']"
  proof -
    from ex_create_any [of "ex_params ''Water''" "''water''" "Some [''extra'']"]
    obtain st' c0 where r: "tryCreateComponent ex_env ex_store 4 (ex_params ''Water'') ''water'' (Some [''extra'']) =
        (st', Inr (Some \<lparr>ref = 5, isOk = True, sel_cell = Some c0\<rparr>))"
      by (auto simp: ex_params_def)
    from A [OF r] f show ?thesis using r by fastforce
  qed
  have a': "\<exists>st' sel c. tryCreateComponent ex_env ex_water_store 4 (ex_params ''Second'') ''water'' None =
        (st', Inr (Some sel)) \<and>
      map_of (cells ex_water_store) (ref sel) = Some (ex_component ''water'' ''Water'' 7) \<and>
      map_of (cells st') (ref sel) = Some c \<and>
      params c = StructureComponent_Params (ex_params ''Second'') \<and>
      tags c = [StructureBuilderTags_Component, keyTag ''water'']"
  proof -
    have w: "map_of (cells ex_water_store) 5 = Some (ex_component ''water'' ''Water'' 7)"
      by (simp add: ex_water_store_def ex_store_def)
    from A' w ex_update_second show ?thesis
      by (fastforce simp: ex_component_fields)
  qed
  have b: "\<exists>st' sel c. tryCreateComponentFromExpression ex_env ex_store 4 ''polymer'' ''pol'' ex_padded_label =
        (st', Inr (Some sel)) \<and>
      map_of (cells st') (ref sel) = Some c \<and>
      params c = StructureComponent_Params
        \<lparr>ctype = Type_expression ''polymer'', nullIfEmpty = True, label = ''Chain A''\<rparr>"
  proof -
    from ex_create_any [of "expression_params ''polymer'' ex_padded_label" "''pol''" "option_tags ex_padded_label"]
    obtain st' c0 where r: "tryCreateComponentFromExpression ex_env ex_store 4 ''polymer'' ''pol'' ex_padded_label =
        (st', Inr (Some \<lparr>ref = 5, isOk = True, sel_cell = Some c0\<rparr>))"
      by (auto simp: tryCreateComponentFromExpression_def expression_params_def ex_padded_trim)
    from B [OF r] show ?thesis using r by (fastforce simp: ex_padded_trim)
  qed
  have c: "\<exists>st' sel c. tryCreateComponentStatic ex_env ex_store 4 ''water'' ''wat'' None =
        (st', Inr (Some sel)) \<and>
      map_of (cells st') (ref sel) = Some c \<and>
      params c = StructureComponent_Params
        \<lparr>ctype = Type_static ''water'', nullIfEmpty = True, label = []\<rparr>"
  proof -
    have l: "option_label None = []" by (simp add: option_label_def caller_label_def trim_def)
    from ex_create_any [of "static_params ''water'' None" "''wat''" "option_tags None"]
    obtain st' c0 where r: "tryCreateComponentStatic ex_env ex_store 4 ''water'' ''wat'' None =
        (st', Inr (Some \<lparr>ref = 5, isOk = True, sel_cell = Some c0\<rparr>))"
      by (auto simp: tryCreateComponentStatic_def static_params_def l)
    from C [OF r] show ?thesis using r by (fastforce simp: l)
  qed
  have d: "\<exists>st' sel c tp. tryCreateComponentFromSelection ex_env ex_store 4 (ex_query True) ''lig'' None =
        (st', Inr (Some sel)) \<and>
      map_of (cells st') (ref sel) = Some c \<and> params c = StructureComponent_Params tp \<and>
      nullIfEmpty tp \<and> label tp = ''Ligand''"
  proof -
    have l: "option_label None = []" by (simp add: option_label_def caller_label_def trim_def)
    from ex_selection_current obtain sel where
      "snd (tryCreateComponentFromSelection ex_env ex_store 4 (ex_query True) ''lig'' None) = Inr (Some sel)"
      by blast
    then obtain st' where r: "tryCreateComponentFromSelection ex_env ex_store 4 (ex_query True) ''lig'' None =
        (st', Inr (Some sel))"
      by (cases "tryCreateComponentFromSelection ex_env ex_store 4 (ex_query True) ''lig'' None") simp
    from D [OF r] show ?thesis using r by (fastforce simp: l ex_query_def)
  qed
  have e: "caller_label ex_padded_label =
     [CHR 0xA0, CHR 0x09, CHR 0x0A] @ ''Chain A'' @ [CHR 0x0B, CHR 0x0C, CHR 0x0D, CHR 0x20]"
    by (simp add: caller_label_def ex_padded_label_def)
  have g: "\<not> is_space (hd ''Chain A'') \<and> \<not> is_space (last ''Chain A'')"
    using E by (simp add: ex_padded_trim)
  from a a' b c d e g ex_padded_trim wf_ex_store wf_ex_water_store show ?thesis by simp
qed

text \<open>
  C10 as stated fails in three places. With the caller-supplied label of two blanks,
  \<^verbatim>\<open>tryCreateComponentFromSelection\<close> stages the selection's label \<open>Ligand\<close>, not the
  trimmed caller-supplied label, which is empty. A node that is updated in place keeps its
  tags: the tag \<open>extra\<close> of the updating call is not on it, and a node that carried the
  key tag without \<open>structure-component\<close> still does not carry \<open>structure-component\<close>.
\<close>

theorem component_tags_and_params_counterexample:
  "tryCreateComponentFromSelection ex_env ex_store 4 (ex_query False) ''lig''
      (Some \<lparr>o_label = Some ''  '', o_tags = None\<rparr>) =
     (\<lparr>cells = cells ex_store @ [(5, ex_ligand_cell)], nextRef = 6\<rparr>,
      Inr (Some \<lparr>ref = 5, isOk = True, sel_cell = Some ex_ligand_cell\<rparr>)) \<and>
   params ex_ligand_cell =
     StructureComponent_Params
       \<lparr>ctype = Type_expression ''ligand'', nullIfEmpty = True, label = ''Ligand''\<rparr> \<and>
   trim ''  '' = [] \<and>
   ''Ligand'' \<noteq> trim ''  '' \<and>
   map_of (cells ex_water_store) 5 = Some (ex_component ''water'' ''Water'' 7) \<and>
   tryCreateComponent ex_env ex_water_store 4 (ex_params ''Second'') ''water'' (Some [''extra'']) =
     (\<lparr>cells = cells ex_store @ [(5, ex_component ''water'' ''Second'' 7)], nextRef = 6\<rparr>,
      Inr (Some \<lparr>ref = 5, isOk = True, sel_cell = Some (ex_component ''water'' ''Second'' 7)\<rparr>)) \<and>
   tags (ex_component ''water'' ''Second'' 7) = [StructureBuilderTags_Component, keyTag ''water''] \<and>
   ''extra'' \<notin> set (tags (ex_component ''water'' ''Second'' 7)) \<and>
   map_of (cells ex_foreign_store) 5 = Some (ex_foreign_cell ''Water'') \<and>
   tryCreateComponent ex_env ex_foreign_store 4 (ex_params ''Second'') ''water'' None =
     (\<lparr>cells = cells ex_store @ [(5, ex_foreign_cell ''Second'')], nextRef = 6\<rparr>,
      Inr (Some \<lparr>ref = 5, isOk = True, sel_cell = Some (ex_foreign_cell ''Second'')\<rparr>)) \<and>
   tags (ex_foreign_cell ''Second'') = [keyTag ''water''] \<and>
   StructureBuilderTags_Component \<notin> set (tags (ex_foreign_cell ''Second''))"
proof -
  have w: "map_of (cells ex_water_store) 5 = Some (ex_component ''water'' ''Water'' 7)"
    by (simp add: ex_water_store_def ex_store_def)
  have f: "map_of (cells ex_foreign_store) 5 = Some (ex_foreign_cell ''Water'')"
    by (simp add: ex_foreign_store_def ex_store_def)
  from w f ex_selection_blank ex_update_keeps_tags ex_update_foreign show ?thesis
    by (simp add: ex_blank_label_def ex_ligand_cell_def ex_trim ex_component_fields
        ex_foreign_cell_def keyTag_def StructureBuilderTags_Component_def)
qed

end
